theory Spec2Isabelle
  imports Complex_Main "HOL-Library.Word"
begin

section \<open>JavaScript values\<close>

text \<open>
  A JavaScript string is a sequence of UTF-16 code units. String literals of the sources
  are written with \<open>js\<close> where they are ASCII; other code units are given by number.
\<close>

type_synonym jsstring = "16 word list"

definition js :: "string \<Rightarrow> jsstring" where
  "js s = map of_char s"

text \<open>
  \<open>String.prototype.trim\<close> removes white space and line terminators from both ends:
  TAB, LF, VT, FF, CR, SP, NBSP, U+1680, U+2000 to U+200A, U+2028, U+2029, U+202F, U+205F,
  U+3000 and U+FEFF.
\<close>

definition isWhiteSpace :: "16 word \<Rightarrow> bool" where
  "isWhiteSpace c =
     (c \<in> set [0x9, 0xA, 0xB, 0xC, 0xD, 0x20, 0xA0, 0x1680, 0x2028, 0x2029, 0x202F, 0x205F,
               0x3000, 0xFEFF]
      \<or> (0x2000 \<le> c \<and> c \<le> 0x200A))"

definition trim :: "jsstring \<Rightarrow> jsstring" where
  "trim s = rev (dropWhile isWhiteSpace (rev (dropWhile isWhiteSpace s)))"

text \<open>
  An optional string field of a request: \<open>None\<close> is \<open>undefined\<close>. Both
  \<open>undefined\<close> and the empty string are falsy.
\<close>

definition truthy :: "jsstring option \<Rightarrow> bool" where
  "truthy v = (case v of None \<Rightarrow> False | Some s \<Rightarrow> s \<noteq> [])"

text \<open>
  A value that \<open>JSON.parse\<close> gives: \<open>null\<close>, a boolean, a number, a string, an
  array or an object. A finite number is a rational here (every finite double is one);
  a literal beyond the range of the doubles reads as \<open>Infinity\<close> or \<open>-Infinity\<close>
  (\<open>JInfinity True\<close> is the negative one). An object is the list of its members, the
  first entry of a name being the member. The falsy values are \<open>null\<close>, \<open>false\<close>,
  \<open>0\<close> and the empty string; a missing member (\<open>None\<close>) is \<open>undefined\<close>, which is
  falsy too.
\<close>

datatype json =
    JNull
  | JBool bool
  | JNumber rat
  | JInfinity bool
  | JString jsstring
  | JArray "json list"
  | JObject "(jsstring \<times> json) list"

definition json_truthy :: "json option \<Rightarrow> bool" where
  "json_truthy v =
     (case v of
        None \<Rightarrow> False
      | Some JNull \<Rightarrow> False
      | Some (JBool b) \<Rightarrow> b
      | Some (JNumber q) \<Rightarrow> q \<noteq> 0
      | Some (JInfinity negative) \<Rightarrow> True
      | Some (JString s) \<Rightarrow> s \<noteq> []
      | Some (JArray xs) \<Rightarrow> True
      | Some (JObject members) \<Rightarrow> True)"

text \<open>
  The string that a template literal writes for such a value. The digits of a number are
  the engine's (\<open>Number.prototype.toString\<close>), given by \<open>number_text\<close>. An array is
  joined with commas, with nothing for an element that is \<open>null\<close>. An object is
  written by the \<open>toString\<close> that it inherits, unless it has a member of that name:
  the member is no function, the inherited \<open>valueOf\<close> gives the object back, and the
  conversion throws a \<open>TypeError\<close> (\<open>None\<close>; the message is that of V8).
\<close>

definition primitive_error :: jsstring where
  "primitive_error = js ''Cannot convert object to primitive value''"

fun join_comma :: "jsstring list \<Rightarrow> jsstring" where
  "join_comma [] = []"
| "join_comma [x] = x"
| "join_comma (x # y # rest) = x @ 0x2C # join_comma (y # rest)"

fun to_string :: "(rat \<Rightarrow> jsstring) \<Rightarrow> json \<Rightarrow> jsstring option" where
  "to_string number_text JNull = Some (js ''null'')"
| "to_string number_text (JBool b) = Some (if b then js ''true'' else js ''false'')"
| "to_string number_text (JNumber q) = Some (number_text q)"
| "to_string number_text (JInfinity negative) =
     Some (if negative then js ''-Infinity'' else js ''Infinity'')"
| "to_string number_text (JString s) = Some s"
| "to_string number_text (JArray xs) =
     map_option join_comma
       (those (map (\<lambda>x. if x = JNull then Some [] else to_string number_text x) xs))"
| "to_string number_text (JObject members) =
     (if map_of members (js ''toString'') = None then Some (js ''[object Object]'')
      else None)"

text \<open>
  The result of an \<open>async\<close> function is a promise: fulfilled with a value, or rejected
  with an \<open>Error\<close>, of which the message is kept. A call of a function either returns or
  throws synchronously.
\<close>

datatype 'a promise = Fulfilled 'a | Rejected jsstring

datatype 'a completion = Returns 'a | Throws jsstring

text \<open>
  Reading a property of an object literal: an own property, or one inherited from
  \<open>Object.prototype\<close>, or \<open>undefined\<close>.
\<close>

datatype 'a property = Own 'a | Inherited | Undefined

definition object_prototype_properties :: "jsstring list" where
  "object_prototype_properties =
     [js ''constructor'', js ''__defineGetter__'', js ''__defineSetter__'',
      js ''hasOwnProperty'', js ''__lookupGetter__'', js ''__lookupSetter__'',
      js ''isPrototypeOf'', js ''propertyIsEnumerable'', js ''toString'', js ''valueOf'',
      js ''__proto__'', js ''toLocaleString'']"

definition get_property :: "(jsstring \<times> 'a) list \<Rightarrow> jsstring \<Rightarrow> 'a property" where
  "get_property obj key =
     (case map_of obj key of
        Some v \<Rightarrow> Own v
      | None \<Rightarrow> if key \<in> set object_prototype_properties then Inherited else Undefined)"

text \<open>
  The own properties here are object literals and the inherited ones are functions (or, for
  \<open>__proto__\<close>, the prototype object): all of them are truthy.
\<close>

definition property_truthy :: "'a property \<Rightarrow> bool" where
  "property_truthy p = (case p of Own v \<Rightarrow> True | Inherited \<Rightarrow> True | Undefined \<Rightarrow> False)"

section \<open>The model registry and the current model (src/api.js)\<close>

record model_info =
  name :: jsstring
  description :: jsstring
  pricing :: jsstring
  recommended :: "bool option"
  premium :: "bool option"
  fast :: "bool option"

definition availableModels :: "(jsstring \<times> model_info) list" where
  "availableModels =
     [(js ''claude-sonnet-4-5-20250929'',
       \<lparr>name = js ''Claude Sonnet 4.5'',
        description = js ''Latest & most intelligent - exceptional agent & coding capabilities'',
        pricing = js ''$3/$15 per MTok'',
        recommended = Some True, premium = None, fast = None\<rparr>),
      (js ''claude-opus-4-1-20250805'',
       \<lparr>name = js ''Claude Opus 4.1'',
        description = js ''Premium model for complex tasks requiring advanced reasoning'',
        pricing = js ''$15/$75 per MTok'',
        recommended = None, premium = Some True, fast = None\<rparr>),
      (js ''claude-sonnet-4-20250514'',
       \<lparr>name = js ''Claude Sonnet 4'',
        description = js ''Balanced performance - current default'',
        pricing = js ''$3/$15 per MTok'',
        recommended = None, premium = None, fast = None\<rparr>),
      (js ''claude-3-5-haiku-20241022'',
       \<lparr>name = js ''Claude Haiku 3.5'',
        description = js ''Fast & cost-effective for quick responses'',
        pricing = js ''$0.80/$4 per MTok'',
        recommended = None, premium = None, fast = Some True\<rparr>)]"

text \<open>The instance state that the class mutates: \<open>this.model\<close>.\<close>

record TextTransformAPI =
  model :: jsstring

definition new_TextTransformAPI :: TextTransformAPI where
  "new_TextTransformAPI = \<lparr>model = js ''claude-sonnet-4-5-20250929''\<rparr>"

definition setModel :: "jsstring \<Rightarrow> TextTransformAPI \<Rightarrow> bool \<times> TextTransformAPI" where
  "setModel modelId this =
     (if property_truthy (get_property availableModels modelId)
      then (True, this\<lparr>model := modelId\<rparr>)
      else (False, this))"

definition getAvailableModels :: "TextTransformAPI \<Rightarrow> (jsstring \<times> model_info) list" where
  "getAvailableModels this = availableModels"

text \<open>
  \<open>getCurrentModel\<close> spreads \<open>availableModels[this.model]\<close> after the \<open>id\<close>: the
  metadata of an own entry, and nothing for \<open>undefined\<close> or for an inherited function,
  which has no enumerable own property.
\<close>

record current_model =
  model_id :: jsstring
  metadata :: "model_info option"

definition getCurrentModel :: "TextTransformAPI \<Rightarrow> current_model" where
  "getCurrentModel this =
     \<lparr>model_id = model this,
      metadata = (case get_property availableModels (model this) of
                    Own m \<Rightarrow> Some m | Inherited \<Rightarrow> None | Undefined \<Rightarrow> None)\<rparr>"

text \<open>A sequence of \<open>setModel\<close> calls on one instance.\<close>

fun setModels :: "jsstring list \<Rightarrow> TextTransformAPI \<Rightarrow> TextTransformAPI" where
  "setModels [] this = this"
| "setModels (modelId # rest) this = setModels rest (snd (setModel modelId this))"

section \<open>The provider\<close>

text \<open>
  \<open>this.client.messages.create\<close> of the provider's SDK is the environment: it takes the
  request and either returns a message, of which the \<open>text\<close> of each content block is
  kept (\<open>None\<close> for a block without text), or throws an error with a message (a non-2xx
  status, a network failure). \<open>new Date().toISOString()\<close> is the environment's too,
  and so are the digits that the engine writes for a number.
\<close>

record create_params =
  req_model :: jsstring
  req_max_tokens :: nat
  req_temperature :: rat
  req_system :: jsstring
  req_messages :: "(jsstring \<times> jsstring) list"

datatype create_outcome = Message "jsstring option list" | CreateError jsstring

record environment =
  create :: "create_params \<Rightarrow> create_outcome"
  now :: jsstring
  number_text :: "rat \<Rightarrow> jsstring"

text \<open>
  An upstream failure, as it reaches the client: \<open>create\<close> throws. The errors of the
  SDK for a non-2xx status and for a network failure carry a message that is not empty
  (the status and the body, \<open>503 status code (no body)\<close>, \<open>Connection error.\<close>,
  \<open>Request timed out.\<close>).
\<close>

definition upstream_failure :: "create_outcome \<Rightarrow> bool" where
  "upstream_failure outcome =
     (case outcome of CreateError message \<Rightarrow> message \<noteq> [] | Message content \<Rightarrow> False)"

text \<open>The messages of the \<open>TypeError\<close>s of reading a property of \<open>undefined\<close> (V8).\<close>

definition undefined_text_error :: jsstring where
  "undefined_text_error =
     js ''Cannot read properties of undefined (reading '' @ [0x27] @ js ''text'' @ [0x27] @ js '')''"

definition undefined_trim_error :: jsstring where
  "undefined_trim_error =
     js ''Cannot read properties of undefined (reading '' @ [0x27] @ js ''trim'' @ [0x27] @ js '')''"

section \<open>The prompt builder (src/api.js, transform)\<close>

text \<open>
  The options of a transformation. A style guide is a string, or an object with the members
  \<open>comprehensiveGuide\<close>, \<open>conciseGuide\<close> and \<open>styleGuide\<close>, in this order, each of
  which may be missing. The options \<open>mode\<close> and \<open>max_tokens\<close> are read by the
  revised client only.
\<close>

datatype style_guide = GuideString jsstring | GuideObject "jsstring option" "jsstring option" "jsstring option"

record additional_params =
  instruction :: "jsstring option"
  styleGuide :: "style_guide option"
  systemPrompt :: "jsstring option"
  contextText :: "jsstring option"
  temperature :: "rat option"
  mode :: "jsstring option"
  max_tokens :: "nat option"

definition no_params :: additional_params where
  "no_params = \<lparr>instruction = None, styleGuide = None, systemPrompt = None,
                 contextText = None, temperature = None, mode = None, max_tokens = None\<rparr>"

definition selectedStyleGuide :: "additional_params \<Rightarrow> jsstring option" where
  "selectedStyleGuide additionalParams =
     (case styleGuide additionalParams of
        None \<Rightarrow> None
      | Some (GuideString s) \<Rightarrow> if s = [] then None else Some s
      | Some (GuideObject comprehensiveGuide conciseGuide legacy) \<Rightarrow>
          if truthy comprehensiveGuide
          then (if systemPrompt additionalParams = Some (js ''articulate'')
                then comprehensiveGuide
                else if truthy conciseGuide then conciseGuide else comprehensiveGuide)
          else legacy)"

definition articulate_system_head :: jsstring where
  "articulate_system_head =
     js ''Du bist ein erfahrener Copywriter, spezialisiert darauf, rohe Gedankenstrukturen und fragmentierte Ideen in vollst'' @ [0xE4] @ js ''ndig ausformulierte, flie'' @ [0xDF] @ js ''ende Texte zu verwandeln.\<newline>'' @
     js ''\<newline>'' @
     js ''DEINE AUFGABE:\<newline>'' @
     js ''Nimm die gegebene Struktur aus Gedankenfragmenten, Stichpunkten oder groben Ideen und entwickle daraus einen vollst'' @ [0xE4] @ js ''ndig ausformulierten, koh'' @ [0xE4] @ js ''renten Text.\<newline>'' @
     js ''\<newline>'' @
     js ''TRANSFORMATION PRINCIPLES:\<newline>'' @
     [0x2022] @ js '' Erkenne die beabsichtigte Gedankenfolge und logische Struktur\<newline>'' @
     [0x2022] @ js '' Schaffe nat'' @ [0xFC] @ js ''rliche '' @ [0xDC] @ js ''berg'' @ [0xE4] @ js ''nge zwischen den Gedanken\<newline>'' @
     [0x2022] @ js '' F'' @ [0xFC] @ js ''lle L'' @ [0xFC] @ js ''cken in der Argumentation intelligent aus\<newline>'' @
     [0x2022] @ js '' Entwickle jeden Punkt zu vollst'' @ [0xE4] @ js ''ndigen, flie'' @ [0xDF] @ js ''enden S'' @ [0xE4] @ js ''tzen\<newline>'' @
     [0x2022] @ js '' Wahre die urspr'' @ [0xFC] @ js ''ngliche Intention und Reihenfolge\<newline>'' @
     [0x2022] @ js '' Erschaffe einen nat'' @ [0xFC] @ js ''rlichen, lesbaren Textfluss\<newline>'' @
     js ''\<newline>'' @
     js ''INDUKTIVES COPYWRITING-PRINZIP (besonders bei l'' @ [0xE4] @ js ''ngeren Texten):\<newline>'' @
     [0x2022] @ js '' Jeder Satz soll gen'' @ [0xFC] @ js ''gend Neugier f'' @ [0xFC] @ js ''r den n'' @ [0xE4] @ js ''chsten Satz erzeugen\<newline>'' @
     [0x2022] @ js '' Schaffe eine '' @ [0x22] @ js ''Satz-zu-Satz-Induktion'' @ [0x22] @ js '': Verwende offene Schleifen, Andeutungen oder Versprechungen, die den Leser weiterlesen lassen\<newline>'' @
     [0x2022] @ js '' Vermeide vorzeitige Aufl'' @ [0xF6] @ js ''sung - baue schrittweise Spannung und Interesse auf\<newline>'' @
     [0x2022] @ js '' Nutze Cliffhanger-Elemente am Satzende, um nahtlose '' @ [0xDC] @ js ''berg'' @ [0xE4] @ js ''nge zu schaffen\<newline>'' @
     [0x2022] @ js '' Implementiere dieses Prinzip organisch - nie zwanghaft oder k'' @ [0xFC] @ js ''nstlich\<newline>'' @
     [0x2022] @ js '' Denke an Eugene Schwartz'' @ [0x27] @ js '' Fundamental: Der Zweck jedes Satzes ist es, den n'' @ [0xE4] @ js ''chsten gelesen zu bekommen\<newline>'' @
     js ''\<newline>''"

definition articulate_style_head :: jsstring where
  "articulate_style_head =
     js ''STIL-VORGABEN:\<newline>'' @
     js ''Befolge diesen Style Guide bei der Ausformulierung:\<newline>''"

definition articulate_system_tail :: jsstring where
  "articulate_system_tail =
     js ''OUTPUT: Nur der vollst'' @ [0xE4] @ js ''ndig ausformulierte Text, keine Erkl'' @ [0xE4] @ js ''rungen.''"

definition refine_system_head :: jsstring where
  "refine_system_head =
     js ''Du bist ein Textredakteur und Copy-Editor mit h'' @ [0xF6] @ js ''chsten Qualit'' @ [0xE4] @ js ''tsstandards. Deine Expertise liegt darin, bestehende Texte zu perfektionieren, ohne deren Kernaussage oder Pers'' @ [0xF6] @ js ''nlichkeit zu ver'' @ [0xE4] @ js ''ndern.\<newline>'' @
     js ''\<newline>'' @
     js ''DEINE AUFGABE:\<newline>'' @
     js ''Verfeinere den gegebenen Text durch Verbesserung von Formulierung, Stil, Grammatik und Fluss, w'' @ [0xE4] @ js ''hrend du die urspr'' @ [0xFC] @ js ''ngliche Intention vollst'' @ [0xE4] @ js ''ndig bewahrst.\<newline>'' @
     js ''\<newline>'' @
     js ''VERFEINERUNGS-PRINZIPIEN:\<newline>'' @
     [0x2022] @ js '' Korrigiere grammatische und stilistische Fehler\<newline>'' @
     [0x2022] @ js '' Optimiere Wortwahl und Satzstrukturen\<newline>'' @
     [0x2022] @ js '' Verbessere Lesbarkeit und Textfluss\<newline>'' @
     [0x2022] @ js '' Entferne Redundanzen und F'' @ [0xFC] @ js ''llw'' @ [0xF6] @ js ''rter\<newline>'' @
     [0x2022] @ js '' Verst'' @ [0xE4] @ js ''rke Klarheit und Pr'' @ [0xE4] @ js ''gnanz\<newline>'' @
     [0x2022] @ js '' Bewahre die urspr'' @ [0xFC] @ js ''ngliche Stimme und Pers'' @ [0xF6] @ js ''nlichkeit\<newline>'' @
     [0x2022] @ js '' Halte alle Fakten und Kernaussagen bei\<newline>'' @
     js ''\<newline>''"

definition refine_style_head :: jsstring where
  "refine_style_head =
     js ''STIL-VORGABEN:\<newline>'' @
     js ''Befolge diesen Style Guide bei der Verfeinerung:\<newline>''"

definition refine_system_tail :: jsstring where
  "refine_system_tail =
     js ''OUTPUT: Nur der verfeinerte Text, keine Erkl'' @ [0xE4] @ js ''rungen.''"

definition edit_system_head :: jsstring where
  "edit_system_head =
     js ''Du bist ein professioneller Text-Editor mit h'' @ [0xF6] @ js ''chster Pr'' @ [0xE4] @ js ''zision. Deine Aufgabe ist es, den gegebenen Text exakt nach den spezifischen Anweisungen zu bearbeiten.\<newline>'' @
     js ''\<newline>'' @
     js ''DEINE AUFGABE:\<newline>'' @
     js ''F'' @ [0xFC] @ js ''hre die gegebene Bearbeitungsanweisung am Text pr'' @ [0xE4] @ js ''zise aus, ohne die grundlegende Intention oder den Kontext zu ver'' @ [0xE4] @ js ''ndern.\<newline>'' @
     js ''\<newline>'' @
     js ''BEARBEITUNGS-PRINZIPIEN:\<newline>'' @
     [0x2022] @ js '' Befolge die Anweisung exakt und vollst'' @ [0xE4] @ js ''ndig\<newline>'' @
     [0x2022] @ js '' Behalte die urspr'' @ [0xFC] @ js ''ngliche Bedeutung bei, au'' @ [0xDF] @ js ''er explizit anders angewiesen\<newline>'' @
     [0x2022] @ js '' Mache nur die angeforderten '' @ [0xC4] @ js ''nderungen\<newline>'' @
     [0x2022] @ js '' Bewahre den urspr'' @ [0xFC] @ js ''nglichen Stil, au'' @ [0xDF] @ js ''er er soll ge'' @ [0xE4] @ js ''ndert werden\<newline>'' @
     [0x2022] @ js '' Bei unklaren Anweisungen, interpretiere im Kontext des Textes\<newline>'' @
     [0x2022] @ js '' Arbeite pr'' @ [0xE4] @ js ''zise und zielgerichtet\<newline>'' @
     js ''\<newline>''"

definition edit_style_head :: jsstring where
  "edit_style_head =
     js ''STIL-VORGABEN:\<newline>'' @
     js ''Befolge diesen Style Guide bei der Bearbeitung:\<newline>''"

definition edit_system_tail :: jsstring where
  "edit_system_tail =
     js ''OUTPUT: Nur der bearbeitete Text, keine Erkl'' @ [0xE4] @ js ''rungen oder Kommentare.''"

definition default_system :: jsstring where
  "default_system =
     js ''Du bist ein professioneller Texting-Assistent. Deine Aufgabe ist es, den gegebenen Text gem'' @ [0xE4] @ [0xDF] @ js '' der spezifischen Anweisung umzuformen.\<newline>'' @
     js ''\<newline>'' @
     js ''Regeln:\<newline>'' @
     js ''- Gib NUR den umgeformten Text zur'' @ [0xFC] @ js ''ck, keine Erkl'' @ [0xE4] @ js ''rungen oder zus'' @ [0xE4] @ js ''tzlichen Kommentare\<newline>'' @
     js ''- Bewahre die urspr'' @ [0xFC] @ js ''ngliche Bedeutung und Absicht soweit m'' @ [0xF6] @ js ''glich\<newline>'' @
     js ''- Behalte den angemessenen Ton und Stil f'' @ [0xFC] @ js ''r den Kontext bei\<newline>'' @
     js ''- Falls die Anweisung unklar ist, interpretiere sie bestm'' @ [0xF6] @ js ''glich''"

definition style_guide_tail :: jsstring where
  "style_guide_tail =
     js ''\<newline>'' @
     js ''\<newline>'' @
     js ''Achte besonders auf:\<newline>'' @
     js ''- Konsistenz mit den Stil-Beispielen\<newline>'' @
     js ''- Einhaltung der definierten Regeln\<newline>'' @
     js ''- Beibehaltung des charakteristischen Tons\<newline>'' @
     js ''\<newline>''"

definition style_guide_block :: "jsstring \<Rightarrow> jsstring option \<Rightarrow> jsstring" where
  "style_guide_block style_head selected =
     (if truthy selected then style_head @ the selected @ style_guide_tail else [])"

definition build_systemPrompt :: "additional_params \<Rightarrow> jsstring" where
  "build_systemPrompt additionalParams =
     (if systemPrompt additionalParams = Some (js ''articulate'') then
        articulate_system_head
        @ style_guide_block articulate_style_head (selectedStyleGuide additionalParams)
        @ articulate_system_tail
      else if systemPrompt additionalParams = Some (js ''refine'') then
        refine_system_head
        @ style_guide_block refine_style_head (selectedStyleGuide additionalParams)
        @ refine_system_tail
      else if systemPrompt additionalParams = Some (js ''edit'') then
        edit_system_head
        @ style_guide_block edit_style_head (selectedStyleGuide additionalParams)
        @ edit_system_tail
      else default_system)"

definition articulate_user_label :: jsstring where
  "articulate_user_label =
     js ''ROHE GEDANKENSTRUKTUR:''"

definition refine_user_label :: jsstring where
  "refine_user_label =
     js ''TEXT ZUM VERFEINERN:''"

definition edit_user_label :: jsstring where
  "edit_user_label =
     js ''TEXT ZUM BEARBEITEN:''"

definition default_user_label :: jsstring where
  "default_user_label =
     js ''Forme diesen Text um:''"

definition articulate_user_task :: jsstring where
  "articulate_user_task =
     js ''Transformiere diese rohe Struktur in einen vollst'' @ [0xE4] @ js ''ndig ausformulierten, flie'' @ [0xDF] @ js ''enden Text.''"

definition refine_user_task :: jsstring where
  "refine_user_task =
     js ''Verfeinere diesen Text durch Verbesserung von Formulierung, Stil und Fluss.''"

definition edit_user_task :: jsstring where
  "edit_user_task =
     js ''F'' @ [0xFC] @ js ''hre die Bearbeitungsanweisung pr'' @ [0xE4] @ js ''zise am Text aus.''"

definition default_user_task :: jsstring where
  "default_user_task =
     js ''Forme den Text entsprechend der Anweisung um.''"

definition context_head :: jsstring where
  "context_head =
     js ''KONTEXT (Gesamter Text im Editor):\<newline>''"

definition build_userPrompt :: "jsstring \<Rightarrow> jsstring \<Rightarrow> additional_params \<Rightarrow> jsstring" where
  "build_userPrompt text instr additionalParams =
     (if systemPrompt additionalParams = Some (js ''articulate'') then articulate_user_label
      else if systemPrompt additionalParams = Some (js ''refine'') then refine_user_label
      else if systemPrompt additionalParams = Some (js ''edit'') then edit_user_label
      else default_user_label)
     @ js ''\<newline>'' @ [0x22] @ text @ [0x22] @ js ''\<newline>\<newline>ANWEISUNGEN:\<newline>''
     @ instr @ js ''\<newline>\<newline>''
     @ (if truthy (contextText additionalParams)
        then context_head @ the (contextText additionalParams) else [])
     @ js ''\<newline>\<newline>AUFGABE: ''
     @ (if systemPrompt additionalParams = Some (js ''articulate'') then articulate_user_task
        else if systemPrompt additionalParams = Some (js ''refine'') then refine_user_task
        else if systemPrompt additionalParams = Some (js ''edit'') then edit_user_task
        else default_user_task)"

section \<open>The transform client (src/api.js)\<close>

record transform_result =
  success :: bool
  error :: "jsstring option"
  originalText :: jsstring
  transformedText :: "jsstring option"
  result_instruction :: jsstring
  result_model :: "jsstring option"
  timestamp :: jsstring

definition create_request :: "TextTransformAPI \<Rightarrow> jsstring \<Rightarrow> jsstring \<Rightarrow> additional_params \<Rightarrow> create_params" where
  "create_request this text instr additionalParams =
     \<lparr>req_model = model this,
      req_max_tokens = 1000,
      req_temperature = (case temperature additionalParams of
                           None \<Rightarrow> 3 / 10
                         | Some t \<Rightarrow> if t = 0 then 3 / 10 else t),
      req_system = build_systemPrompt additionalParams,
      req_messages = [(js ''user'', build_userPrompt text instr additionalParams)]\<rparr>"

definition transform_failure :: "environment \<Rightarrow> jsstring \<Rightarrow> jsstring \<Rightarrow> jsstring \<Rightarrow> transform_result" where
  "transform_failure env text instr message =
     \<lparr>success = False, error = Some message, originalText = text, transformedText = None,
      result_instruction = instr, result_model = None, timestamp = now env\<rparr>"

text \<open>
  \<open>transform\<close> is \<open>async\<close> and its whole body is inside \<open>try\<close>: the error thrown by
  \<open>create\<close>, or by reading \<open>message.content[0].text.trim()\<close> of a message without
  such a block, is caught and becomes a result. The second component lists the requests
  sent to the provider.
\<close>

definition transform :: "environment \<Rightarrow> TextTransformAPI \<Rightarrow> jsstring \<Rightarrow> jsstring \<Rightarrow> additional_params
    \<Rightarrow> transform_result promise \<times> create_params list" where
  "transform env this text instr additionalParams =
     (let request = create_request this text instr additionalParams in
      case create env request of
        CreateError message \<Rightarrow>
          (Fulfilled (transform_failure env text instr message), [request])
      | Message content \<Rightarrow>
          (case content of
             [] \<Rightarrow> (Fulfilled (transform_failure env text instr undefined_text_error), [request])
           | None # blocks \<Rightarrow>
               (Fulfilled (transform_failure env text instr undefined_trim_error), [request])
           | Some t # blocks \<Rightarrow>
               (Fulfilled
                  \<lparr>success = True, error = None, originalText = text,
                   transformedText = Some (trim t), result_instruction = instr,
                   result_model = Some (model this), timestamp = now env\<rparr>,
                [request])))"

definition articulate_instruction :: jsstring where
  "articulate_instruction =
     js ''Entwickle aus der gegebenen Gedankenstruktur einen vollst'' @ [0xE4] @ js ''ndig ausformulierten, flie'' @ [0xDF] @ js ''enden Text. Schaffe nat'' @ [0xFC] @ js ''rliche '' @ [0xDC] @ js ''berg'' @ [0xE4] @ js ''nge, f'' @ [0xFC] @ js ''lle logische L'' @ [0xFC] @ js ''cken und verwandle Fragmente in koh'' @ [0xE4] @ js ''rente, '' @ [0xFC] @ js ''berzeugende Prosa.''"

definition refine_instruction :: jsstring where
  "refine_instruction =
     js ''Verfeinere diesen Text durch Optimierung von Formulierung, Grammatik und Stil. Verbessere Klarheit und Lesbarkeit, w'' @ [0xE4] @ js ''hrend du die urspr'' @ [0xFC] @ js ''ngliche Aussage und den Charakter des Textes vollst'' @ [0xE4] @ js ''ndig bewahrst.''"

definition articulate :: "environment \<Rightarrow> TextTransformAPI \<Rightarrow> jsstring \<Rightarrow> additional_params
    \<Rightarrow> transform_result promise \<times> create_params list" where
  "articulate env this text additionalParams =
     transform env this text articulate_instruction
       (additionalParams\<lparr>systemPrompt := Some (js ''articulate'')\<rparr>)"

definition refine :: "environment \<Rightarrow> TextTransformAPI \<Rightarrow> jsstring \<Rightarrow> additional_params
    \<Rightarrow> transform_result promise \<times> create_params list" where
  "refine env this text additionalParams =
     transform env this text refine_instruction
       (additionalParams\<lparr>systemPrompt := Some (js ''refine'')\<rparr>)"

definition edit_requires_instruction :: jsstring where
  "edit_requires_instruction = js ''EDIT function requires a specific instruction''"

definition edit :: "environment \<Rightarrow> TextTransformAPI \<Rightarrow> jsstring \<Rightarrow> jsstring option \<Rightarrow> additional_params
    \<Rightarrow> transform_result promise \<times> create_params list" where
  "edit env this text instr additionalParams =
     (case instr of
        None \<Rightarrow> (Rejected edit_requires_instruction, [])
      | Some i \<Rightarrow>
          if i = [] \<or> trim i = [] then (Rejected edit_requires_instruction, [])
          else transform env this text (trim i)
                 (additionalParams\<lparr>systemPrompt := Some (js ''edit'')\<rparr>))"

section \<open>The revised transform client (src/unnamed/part_001)\<close>

text \<open>
  The second copy of the client is a revision of \<open>src/api.js\<close>. Its registry, its
  selection of the style guide, its style-guide blocks, its instructions, its style-guide
  generation and its module-level functions are those of \<open>src/api.js\<close>, character by
  character. Its \<open>transform\<close> has other templates, with a block for the JSON mode,
  and sends \<open>max_tokens\<close> of the options, by default 8000; its debug logging has no
  effect on the result.
\<close>

definition revised_articulate_system_head :: jsstring where
  "revised_articulate_system_head =
     js ''Du bist ein erfahrener Copywriter, spezialisiert darauf, rohe Gedankenstrukturen und fragmentierte Ideen in vollst'' @ [0xE4] @ js ''ndig ausformulierte, flie'' @ [0xDF] @ js ''ende Texte zu verwandeln.\<newline>'' @
     js ''\<newline>'' @
     js ''DEINE AUFGABE:\<newline>'' @
     js ''Nimm AUSSCHLIESSLICH die gegebene Struktur aus Gedankenfragmenten, Stichpunkten oder groben Ideen und entwickle daraus einen vollst'' @ [0xE4] @ js ''ndig ausformulierten, koh'' @ [0xE4] @ js ''renten Text. Du darfst NICHT den Kontext oder andere Textteile bearbeiten - nur den spezifisch markierten Text.\<newline>'' @
     js ''\<newline>''"

definition revised_articulate_json_mode :: jsstring where
  "revised_articulate_json_mode =
     js ''JSON TEMPLATE MODUS:\<newline>'' @
     js ''Du arbeitest mit einem JSON-Template f'' @ [0xFC] @ js ''r Advertorial-Seiten. Der Kontext enth'' @ [0xE4] @ js ''lt technische JSON-Struktur, aber du sollst AUSSCHLIESSLICH den markierten Copy-Text transformieren. Ignoriere alle JSON-Syntax, technischen Felder, URLs, Dateipfade, Variablennamen und strukturelle Elemente. Konzentriere dich NUR auf den Marketing-Copy-Inhalt.\<newline>'' @
     js ''\<newline>'' @
     js ''WICHTIG: Du transformierst NUR den selektierten Copy-Text, nicht die JSON-Struktur!\<newline>'' @
     js ''\<newline>''"

definition revised_articulate_principles :: jsstring where
  "revised_articulate_principles =
     js ''TRANSFORMATION PRINCIPLES:\<newline>'' @
     [0x2022] @ js '' Erkenne die beabsichtigte Gedankenfolge und logische Struktur\<newline>'' @
     [0x2022] @ js '' Schaffe nat'' @ [0xFC] @ js ''rliche '' @ [0xDC] @ js ''berg'' @ [0xE4] @ js ''nge zwischen den Gedanken\<newline>'' @
     [0x2022] @ js '' F'' @ [0xFC] @ js ''lle L'' @ [0xFC] @ js ''cken in der Argumentation intelligent aus\<newline>'' @
     [0x2022] @ js '' Entwickle jeden Punkt zu vollst'' @ [0xE4] @ js ''ndigen, flie'' @ [0xDF] @ js ''enden S'' @ [0xE4] @ js ''tzen\<newline>'' @
     [0x2022] @ js '' Wahre die urspr'' @ [0xFC] @ js ''ngliche Intention und Reihenfolge\<newline>'' @
     [0x2022] @ js '' Erschaffe einen nat'' @ [0xFC] @ js ''rlichen, lesbaren Textfluss\<newline>'' @
     js ''\<newline>'' @
     js ''INDUKTIVES COPYWRITING-PRINZIP (besonders bei l'' @ [0xE4] @ js ''ngeren Texten):\<newline>'' @
     [0x2022] @ js '' Jeder Satz soll gen'' @ [0xFC] @ js ''gend Neugier f'' @ [0xFC] @ js ''r den n'' @ [0xE4] @ js ''chsten Satz erzeugen\<newline>'' @
     [0x2022] @ js '' Schaffe eine '' @ [0x22] @ js ''Satz-zu-Satz-Induktion'' @ [0x22] @ js '': Verwende offene Schleifen, Andeutungen oder Versprechungen, die den Leser weiterlesen lassen\<newline>'' @
     [0x2022] @ js '' Vermeide vorzeitige Aufl'' @ [0xF6] @ js ''sung - baue schrittweise Spannung und Interesse auf\<newline>'' @
     [0x2022] @ js '' Nutze Cliffhanger-Elemente am Satzende, um nahtlose '' @ [0xDC] @ js ''berg'' @ [0xE4] @ js ''nge zu schaffen\<newline>'' @
     [0x2022] @ js '' Implementiere dieses Prinzip organisch - nie zwanghaft oder k'' @ [0xFC] @ js ''nstlich\<newline>'' @
     [0x2022] @ js '' Denke an Eugene Schwartz'' @ [0x27] @ js '' Fundamental: Der Zweck jedes Satzes ist es, den n'' @ [0xE4] @ js ''chsten gelesen zu bekommen\<newline>'' @
     js ''\<newline>''"

definition revised_articulate_system_tail :: jsstring where
  "revised_articulate_system_tail =
     js ''WICHTIGE OUTPUT-REGEL:\<newline>'' @
     js ''Du darfst AUSSCHLIESSLICH den transformierten Text ausgeben. Keine Einleitungen, keine Erkl'' @ [0xE4] @ js ''rungen, keine Kommentare, keine Anf'' @ [0xFC] @ js ''hrungszeichen, keine Formatierungshinweise - nur der reine, ausformulierte Text.\<newline>'' @
     js ''\<newline>'' @
     js ''Beginne sofort mit dem ersten Wort des transformierten Textes und h'' @ [0xF6] @ js ''re mit dem letzten Wort auf.''"

definition revised_refine_system_head :: jsstring where
  "revised_refine_system_head =
     js ''Du bist ein Textredakteur und Copy-Editor mit h'' @ [0xF6] @ js ''chsten Qualit'' @ [0xE4] @ js ''tsstandards. Deine Expertise liegt darin, bestehende Texte zu perfektionieren, ohne deren Kernaussage oder Pers'' @ [0xF6] @ js ''nlichkeit zu ver'' @ [0xE4] @ js ''ndern.\<newline>'' @
     js ''\<newline>'' @
     js ''DEINE AUFGABE:\<newline>'' @
     js ''Verfeinere AUSSCHLIESSLICH den gegebenen markierten Text durch Verbesserung von Formulierung, Stil, Grammatik und Fluss, w'' @ [0xE4] @ js ''hrend du die urspr'' @ [0xFC] @ js ''ngliche Intention vollst'' @ [0xE4] @ js ''ndig bewahrst. Du darfst NICHT den Kontext oder andere Textteile bearbeiten - nur den spezifisch markierten Text.\<newline>'' @
     js ''\<newline>''"

definition revised_refine_json_mode :: jsstring where
  "revised_refine_json_mode =
     js ''JSON TEMPLATE MODUS:\<newline>'' @
     js ''Du arbeitest mit einem JSON-Template f'' @ [0xFC] @ js ''r Advertorial-Seiten. Der Kontext enth'' @ [0xE4] @ js ''lt technische JSON-Struktur, aber du sollst AUSSCHLIESSLICH den markierten Copy-Text verfeinern. Ignoriere alle JSON-Syntax, technischen Felder, URLs, Dateipfade, Variablennamen und strukturelle Elemente. Konzentriere dich NUR auf die Verbesserung des Marketing-Copy-Inhalts.\<newline>'' @
     js ''\<newline>'' @
     js ''WICHTIG: Du verfeinerst NUR den selektierten Copy-Text, nicht die JSON-Struktur!\<newline>'' @
     js ''\<newline>''"

definition revised_refine_principles :: jsstring where
  "revised_refine_principles =
     js ''VERFEINERUNGS-PRINZIPIEN:\<newline>'' @
     [0x2022] @ js '' Korrigiere grammatische und stilistische Fehler\<newline>'' @
     [0x2022] @ js '' Optimiere Wortwahl und Satzstrukturen\<newline>'' @
     [0x2022] @ js '' Verbessere Lesbarkeit und Textfluss\<newline>'' @
     [0x2022] @ js '' Entferne Redundanzen und F'' @ [0xFC] @ js ''llw'' @ [0xF6] @ js ''rter\<newline>'' @
     [0x2022] @ js '' Verst'' @ [0xE4] @ js ''rke Klarheit und Pr'' @ [0xE4] @ js ''gnanz\<newline>'' @
     [0x2022] @ js '' Bewahre die urspr'' @ [0xFC] @ js ''ngliche Stimme und Pers'' @ [0xF6] @ js ''nlichkeit\<newline>'' @
     [0x2022] @ js '' Halte alle Fakten und Kernaussagen bei\<newline>'' @
     js ''\<newline>''"

definition revised_refine_system_tail :: jsstring where
  "revised_refine_system_tail =
     js ''WICHTIGE OUTPUT-REGEL:\<newline>'' @
     js ''Du darfst AUSSCHLIESSLICH den verfeinerten Text ausgeben. Keine Einleitungen, keine Erkl'' @ [0xE4] @ js ''rungen, keine Kommentare, keine Anf'' @ [0xFC] @ js ''hrungszeichen, keine Formatierungshinweise - nur der reine, verbesserte Text.\<newline>'' @
     js ''\<newline>'' @
     js ''Beginne sofort mit dem ersten Wort des verfeinerten Textes und h'' @ [0xF6] @ js ''re mit dem letzten Wort auf.''"

definition revised_edit_system_head :: jsstring where
  "revised_edit_system_head =
     js ''Du bist ein professioneller Text-Editor mit h'' @ [0xF6] @ js ''chster Pr'' @ [0xE4] @ js ''zision. Deine Aufgabe ist es, den gegebenen Text exakt nach den spezifischen Anweisungen zu bearbeiten.\<newline>'' @
     js ''\<newline>'' @
     js ''DEINE AUFGABE:\<newline>'' @
     js ''F'' @ [0xFC] @ js ''hre die gegebene Bearbeitungsanweisung AUSSCHLIESSLICH am markierten Text pr'' @ [0xE4] @ js ''zise aus, ohne die grundlegende Intention oder den Kontext zu ver'' @ [0xE4] @ js ''ndern. Du darfst NICHT den Kontext oder andere Textteile bearbeiten - nur den spezifisch markierten Text.\<newline>'' @
     js ''\<newline>''"

definition revised_edit_json_mode :: jsstring where
  "revised_edit_json_mode =
     js ''JSON TEMPLATE MODUS:\<newline>'' @
     js ''Du arbeitest mit einem JSON-Template f'' @ [0xFC] @ js ''r Advertorial-Seiten. Der Kontext enth'' @ [0xE4] @ js ''lt technische JSON-Struktur, aber du sollst AUSSCHLIESSLICH den markierten Copy-Text nach der Anweisung bearbeiten. Ignoriere alle JSON-Syntax, technischen Felder, URLs, Dateipfade, Variablennamen und strukturelle Elemente. Konzentriere dich NUR auf die Bearbeitung des Marketing-Copy-Inhalts.\<newline>'' @
     js ''\<newline>'' @
     js ''WICHTIG: Du bearbeitest NUR den selektierten Copy-Text, nicht die JSON-Struktur!\<newline>'' @
     js ''\<newline>''"

definition revised_edit_principles :: jsstring where
  "revised_edit_principles =
     js ''BEARBEITUNGS-PRINZIPIEN:\<newline>'' @
     [0x2022] @ js '' Befolge die Anweisung exakt und vollst'' @ [0xE4] @ js ''ndig\<newline>'' @
     [0x2022] @ js '' Behalte die urspr'' @ [0xFC] @ js ''ngliche Bedeutung bei, au'' @ [0xDF] @ js ''er explizit anders angewiesen\<newline>'' @
     [0x2022] @ js '' Mache nur die angeforderten '' @ [0xC4] @ js ''nderungen\<newline>'' @
     [0x2022] @ js '' Bewahre den urspr'' @ [0xFC] @ js ''nglichen Stil, au'' @ [0xDF] @ js ''er er soll ge'' @ [0xE4] @ js ''ndert werden\<newline>'' @
     [0x2022] @ js '' Bei unklaren Anweisungen, interpretiere im Kontext des Textes\<newline>'' @
     [0x2022] @ js '' Arbeite pr'' @ [0xE4] @ js ''zise und zielgerichtet\<newline>'' @
     js ''\<newline>''"

definition revised_edit_system_tail :: jsstring where
  "revised_edit_system_tail =
     js ''WICHTIGE OUTPUT-REGEL:\<newline>'' @
     js ''Du darfst AUSSCHLIESSLICH den bearbeiteten Text ausgeben. Keine Einleitungen, keine Erkl'' @ [0xE4] @ js ''rungen, keine Kommentare, keine Anf'' @ [0xFC] @ js ''hrungszeichen, keine Formatierungshinweise - nur der reine, bearbeitete Text.\<newline>'' @
     js ''\<newline>'' @
     js ''Beginne sofort mit dem ersten Wort des bearbeiteten Textes und h'' @ [0xF6] @ js ''re mit dem letzten Wort auf.''"

definition revised_default_system :: jsstring where
  "revised_default_system =
     js ''Du bist ein professioneller Texting-Assistent. Deine Aufgabe ist es, den gegebenen Text gem'' @ [0xE4] @ [0xDF] @ js '' der spezifischen Anweisung umzuformen.\<newline>'' @
     js ''\<newline>'' @
     js ''Regeln:\<newline>'' @
     js ''- Bewahre die urspr'' @ [0xFC] @ js ''ngliche Bedeutung und Absicht soweit m'' @ [0xF6] @ js ''glich\<newline>'' @
     js ''- Behalte den angemessenen Ton und Stil f'' @ [0xFC] @ js ''r den Kontext bei\<newline>'' @
     js ''- Falls die Anweisung unklar ist, interpretiere sie bestm'' @ [0xF6] @ js ''glich\<newline>'' @
     js ''\<newline>'' @
     js ''WICHTIGE OUTPUT-REGEL:\<newline>'' @
     js ''Du darfst AUSSCHLIESSLICH den umgeformten Text ausgeben. Keine Einleitungen, keine Erkl'' @ [0xE4] @ js ''rungen, keine Kommentare, keine Anf'' @ [0xFC] @ js ''hrungszeichen, keine Formatierungshinweise - nur der reine, umgeformte Text.\<newline>'' @
     js ''\<newline>'' @
     js ''Beginne sofort mit dem ersten Wort des umgeformten Textes und h'' @ [0xF6] @ js ''re mit dem letzten Wort auf.''"

definition revised_articulate_user_label :: jsstring where
  "revised_articulate_user_label =
     js ''ROHE GEDANKENSTRUKTUR ZUM TRANSFORMIEREN:''"

definition revised_articulate_marked_name :: jsstring where
  "revised_articulate_marked_name =
     js ''ROHE GEDANKENSTRUKTUR ZUM TRANSFORMIEREN''"

definition revised_articulate_user_task :: jsstring where
  "revised_articulate_user_task =
     js ''Transformiere NUR die markierte rohe Struktur in einen vollst'' @ [0xE4] @ js ''ndig ausformulierten, flie'' @ [0xDF] @ js ''enden Text.''"

definition revised_refine_user_label :: jsstring where
  "revised_refine_user_label =
     js ''TEXT ZUM VERFEINERN:''"

definition revised_refine_marked_name :: jsstring where
  "revised_refine_marked_name =
     js ''TEXT ZUM VERFEINERN''"

definition revised_refine_user_task :: jsstring where
  "revised_refine_user_task =
     js ''Verfeinere NUR den markierten Text durch Verbesserung von Formulierung, Stil und Fluss.''"

definition revised_edit_user_label :: jsstring where
  "revised_edit_user_label =
     js ''TEXT ZUM BEARBEITEN:''"

definition revised_edit_marked_name :: jsstring where
  "revised_edit_marked_name =
     js ''TEXT ZUM BEARBEITEN''"

definition revised_edit_user_task :: jsstring where
  "revised_edit_user_task =
     js ''F'' @ [0xFC] @ js ''hre die Bearbeitungsanweisung pr'' @ [0xE4] @ js ''zise NUR am markierten Text aus.''"

definition revised_default_user_label :: jsstring where
  "revised_default_user_label =
     js ''Forme diesen Text um:''"

definition revised_default_marked_name :: jsstring where
  "revised_default_marked_name =
     js ''Text''"

definition revised_default_user_task :: jsstring where
  "revised_default_user_task =
     js ''Forme NUR den markierten Text entsprechend der Anweisung um.''"

definition revised_context_head :: jsstring where
  "revised_context_head =
     js ''KONTEXT (Gesamter Text im Editor - NUR als Referenz, NICHT bearbeiten):\<newline>''"

definition revised_context_note_head :: jsstring where
  "revised_context_note_head =
     js ''\<newline>'' @
     js ''\<newline>'' @
     js ''WICHTIG: Transformiere AUSSCHLIESSLICH den oben markierten Text ('' @ [0x22]"

definition revised_context_note_tail :: jsstring where
  "revised_context_note_tail =
     [0x22] @ js ''). Der Kontext dient nur als Referenz f'' @ [0xFC] @ js ''r besseres Verst'' @ [0xE4] @ js ''ndnis, soll aber NICHT ver'' @ [0xE4] @ js ''ndert oder mit in die Ausgabe einbezogen werden.''"

definition json_mode_block :: "jsstring \<Rightarrow> additional_params \<Rightarrow> jsstring" where
  "json_mode_block json_mode additionalParams =
     (if mode additionalParams = Some (js ''json'') then json_mode else [])"

definition revised_build_systemPrompt :: "additional_params \<Rightarrow> jsstring" where
  "revised_build_systemPrompt additionalParams =
     (if systemPrompt additionalParams = Some (js ''articulate'') then
        revised_articulate_system_head
        @ json_mode_block revised_articulate_json_mode additionalParams
        @ revised_articulate_principles
        @ style_guide_block articulate_style_head (selectedStyleGuide additionalParams)
        @ revised_articulate_system_tail
      else if systemPrompt additionalParams = Some (js ''refine'') then
        revised_refine_system_head
        @ json_mode_block revised_refine_json_mode additionalParams
        @ revised_refine_principles
        @ style_guide_block refine_style_head (selectedStyleGuide additionalParams)
        @ revised_refine_system_tail
      else if systemPrompt additionalParams = Some (js ''edit'') then
        revised_edit_system_head
        @ json_mode_block revised_edit_json_mode additionalParams
        @ revised_edit_principles
        @ style_guide_block edit_style_head (selectedStyleGuide additionalParams)
        @ revised_edit_system_tail
      else revised_default_system)"

definition revised_build_userPrompt :: "jsstring \<Rightarrow> jsstring \<Rightarrow> additional_params \<Rightarrow> jsstring" where
  "revised_build_userPrompt text instr additionalParams =
     (if systemPrompt additionalParams = Some (js ''articulate'') then revised_articulate_user_label
      else if systemPrompt additionalParams = Some (js ''refine'') then revised_refine_user_label
      else if systemPrompt additionalParams = Some (js ''edit'') then revised_edit_user_label
      else revised_default_user_label)
     @ js ''\<newline>'' @ [0x22] @ text @ [0x22] @ js ''\<newline>\<newline>ANWEISUNGEN:\<newline>''
     @ instr @ js ''\<newline>\<newline>''
     @ (if truthy (contextText additionalParams)
        then revised_context_head @ the (contextText additionalParams)
             @ revised_context_note_head
             @ (if systemPrompt additionalParams = Some (js ''articulate'')
                then revised_articulate_marked_name
                else if systemPrompt additionalParams = Some (js ''refine'')
                then revised_refine_marked_name
                else if systemPrompt additionalParams = Some (js ''edit'')
                then revised_edit_marked_name
                else revised_default_marked_name)
             @ revised_context_note_tail
        else [])
     @ js ''\<newline>\<newline>AUFGABE: ''
     @ (if systemPrompt additionalParams = Some (js ''articulate'') then revised_articulate_user_task
        else if systemPrompt additionalParams = Some (js ''refine'') then revised_refine_user_task
        else if systemPrompt additionalParams = Some (js ''edit'') then revised_edit_user_task
        else revised_default_user_task)"

definition revised_create_request :: "TextTransformAPI \<Rightarrow> jsstring \<Rightarrow> jsstring \<Rightarrow> additional_params
    \<Rightarrow> create_params" where
  "revised_create_request this text instr additionalParams =
     \<lparr>req_model = model this,
      req_max_tokens = (case max_tokens additionalParams of
                          None \<Rightarrow> 8000
                        | Some n \<Rightarrow> if n = 0 then 8000 else n),
      req_temperature = (case temperature additionalParams of
                           None \<Rightarrow> 3 / 10
                         | Some t \<Rightarrow> if t = 0 then 3 / 10 else t),
      req_system = revised_build_systemPrompt additionalParams,
      req_messages = [(js ''user'', revised_build_userPrompt text instr additionalParams)]\<rparr>"

definition revised_transform :: "environment \<Rightarrow> TextTransformAPI \<Rightarrow> jsstring \<Rightarrow> jsstring
    \<Rightarrow> additional_params \<Rightarrow> transform_result promise \<times> create_params list" where
  "revised_transform env this text instr additionalParams =
     (let request = revised_create_request this text instr additionalParams in
      case create env request of
        CreateError message \<Rightarrow>
          (Fulfilled (transform_failure env text instr message), [request])
      | Message content \<Rightarrow>
          (case content of
             [] \<Rightarrow> (Fulfilled (transform_failure env text instr undefined_text_error), [request])
           | None # blocks \<Rightarrow>
               (Fulfilled (transform_failure env text instr undefined_trim_error), [request])
           | Some t # blocks \<Rightarrow>
               (Fulfilled
                  \<lparr>success = True, error = None, originalText = text,
                   transformedText = Some (trim t), result_instruction = instr,
                   result_model = Some (model this), timestamp = now env\<rparr>,
                [request])))"

definition revised_articulate :: "environment \<Rightarrow> TextTransformAPI \<Rightarrow> jsstring \<Rightarrow> additional_params
    \<Rightarrow> transform_result promise \<times> create_params list" where
  "revised_articulate env this text additionalParams =
     revised_transform env this text articulate_instruction
       (additionalParams\<lparr>systemPrompt := Some (js ''articulate''), max_tokens := Some 8000\<rparr>)"

definition revised_refine :: "environment \<Rightarrow> TextTransformAPI \<Rightarrow> jsstring \<Rightarrow> additional_params
    \<Rightarrow> transform_result promise \<times> create_params list" where
  "revised_refine env this text additionalParams =
     revised_transform env this text refine_instruction
       (additionalParams\<lparr>systemPrompt := Some (js ''refine''), max_tokens := Some 8000\<rparr>)"

definition revised_edit :: "environment \<Rightarrow> TextTransformAPI \<Rightarrow> jsstring \<Rightarrow> jsstring option
    \<Rightarrow> additional_params \<Rightarrow> transform_result promise \<times> create_params list" where
  "revised_edit env this text instr additionalParams =
     (case instr of
        None \<Rightarrow> (Rejected edit_requires_instruction, [])
      | Some i \<Rightarrow>
          if i = [] \<or> trim i = [] then (Rejected edit_requires_instruction, [])
          else revised_transform env this text (trim i)
                 (additionalParams\<lparr>systemPrompt := Some (js ''edit''), max_tokens := Some 8000\<rparr>))"

section \<open>Style-guide generation (src/api.js, generateStyleGuide)\<close>

definition style_guide_system :: jsstring where
  "style_guide_system =
     js ''Du bist ein Experte f'' @ [0xFC] @ js ''r Textanalyse und Stil-Dokumentation. Deine Aufgabe ist es, aus gegebenem Beispieltext zwei komplement'' @ [0xE4] @ js ''re Style Guides zu erstellen, die f'' @ [0xFC] @ js ''r verschiedene Arten der Textproduktion verwendet werden.\<newline>'' @
     js ''\<newline>'' @
     js ''AUFGABE:\<newline>'' @
     js ''Analysiere den gegebenen Beispieltext gr'' @ [0xFC] @ js ''ndlich und erstelle ZWEI Style Guides: einen umfassenden f'' @ [0xFC] @ js ''r Grund-Textentwicklung und einen pr'' @ [0xE4] @ js ''zisen f'' @ [0xFC] @ js ''r Textverfeinerung. Der Output soll eine umfassende Charakterisierung des Stils und nichts anderem! Der Inhalt ist v'' @ [0xF6] @ js ''llig irrelevant. Dazu z'' @ [0xE4] @ js ''hlt auch alles struktur-inhaltliche. Der Output-Prompt soll zum Beispiel nicht dahin leiten, zum Anfang einen bestimmten strukturellen Inhalt zu erzwingen. Es geht um alles, was den Text beschreibt und nicht inhaltlich ist - also alles stilistische.\<newline>'' @
     js ''\<newline>'' @
     js ''ANALYSE-ASPEKTE:\<newline>'' @
     [0x2022] @ js '' Tonfall und Stimmung\<newline>'' @
     [0x2022] @ js '' Satzstruktur und -l'' @ [0xE4] @ js ''nge\<newline>'' @
     [0x2022] @ js '' Wortwahl und Vokabular\<newline>'' @
     [0x2022] @ js '' Stilistische Besonderheiten\<newline>'' @
     [0x2022] @ js '' Zielgruppe und Ansprache (keine inhaltlichen Angaben!)\<newline>'' @
     [0x2022] @ js '' Formalit'' @ [0xE4] @ js ''tsgrad\<newline>'' @
     [0x2022] @ js '' Rhetorische Mittel\<newline>'' @
     js ''\<newline>'' @
     js ''OUTPUT FORMAT:\<newline>'' @
     js ''=== UMFASSENDER STYLE GUIDE (f'' @ [0xFC] @ js ''r Grund-Textentwicklung) ===\<newline>'' @
     js ''\<newline>'' @
     [0x25CF] @ js '' TON: [Beschreibung des charakteristischen Tons]\<newline>'' @
     [0x25CF] @ js '' STIL-MERKMALE: [Spezifische stilistische Charakteristika]\<newline>'' @
     [0x25CF] @ js '' BEISPIELE: [3-5 konkrete, repr'' @ [0xE4] @ js ''sentative Textausschnitte aus dem Original - achte darauf, zwingend im Output zu betonen, dass diese Beispiele nicht als inhaltliche Beispiele zu sehen sind, sondern ausschlie'' @ [0xDF] @ js ''lich f'' @ [0xFC] @ js ''r das Stilverst'' @ [0xE4] @ js ''ndnis.]\<newline>'' @
     [0x25CF] @ js '' SCHREIBREGELN: [Konkrete Regeln f'' @ [0xFC] @ js ''r konsistente Textproduktion]\<newline>'' @
     [0x25CF] @ js '' WORTWAHL: [Typische Begriffe, Wendungen und Formulierungsmuster]\<newline>'' @
     [0x25CF] @ js '' VERMEIDEN: [Was nicht zu diesem Stil passt]\<newline>'' @
     js ''\<newline>'' @
     js ''=== PR'' @ [0xC4] @ js ''ZISER STYLE GUIDE (f'' @ [0xFC] @ js ''r Textverfeinerung) ===\<newline>'' @
     js ''\<newline>'' @
     [0x25CF] @ js '' TON: [Kernaspekte des Tons - kompakt]\<newline>'' @
     [0x25CF] @ js '' SATZSTRUKTUR: [Bevorzugte L'' @ [0xE4] @ js ''nge und Rhythmus]\<newline>'' @
     [0x25CF] @ js '' WORTWAHL: [Schl'' @ [0xFC] @ js ''sselbegriffe und typische Wendungen]\<newline>'' @
     [0x25CF] @ js '' FORMALIT'' @ [0xC4] @ js ''T: [Grad der F'' @ [0xF6] @ js ''rmlichkeit]\<newline>'' @
     [0x25CF] @ js '' VERMEIDEN: [Wichtigste Stil-Fallen]\<newline>'' @
     js ''\<newline>'' @
     js ''WICHTIG: Beide Style Guides sollen konkret und anwendbar sein, damit andere Texte im gleichen Stil erstellt werden k'' @ [0xF6] @ js ''nnen. Der umfassende Guide dient der Grund-Textentwicklung, der pr'' @ [0xE4] @ js ''zise Guide der gezielten Verfeinerung.''"

definition style_guide_user_head :: jsstring where
  "style_guide_user_head =
     js ''BEISPIELTEXT ZUM ANALYSIEREN:\<newline>'' @
     [0x22]"

definition additional_instructions_head :: jsstring where
  "additional_instructions_head =
     js ''ZUS'' @ [0xC4] @ js ''TZLICHE ANWEISUNGEN:\<newline>''"

definition style_guide_user_task :: jsstring where
  "style_guide_user_task =
     js ''AUFGABE: Erstelle BEIDE Style Guides (umfassend + pr'' @ [0xE4] @ js ''zise) basierend auf diesem Beispieltext.''"

text \<open>
  The additional instructions are whatever the caller passes (the relay server passes the
  member of the request body as it is): the prompt has them, as a string, when they are
  truthy. Building the prompt throws (\<open>None\<close>) when they have no string.
\<close>

definition build_styleGuide_userPrompt :: "environment \<Rightarrow> jsstring \<Rightarrow> json
    \<Rightarrow> jsstring option" where
  "build_styleGuide_userPrompt env example additional =
     (if json_truthy (Some additional) then
        (case to_string (number_text env) additional of
           None \<Rightarrow> None
         | Some instructions \<Rightarrow>
             Some (style_guide_user_head @ example @ [0x22] @ js ''\<newline>\<newline>''
                   @ additional_instructions_head @ instructions @ js ''\<newline>\<newline>''
                   @ style_guide_user_task))
      else
        Some (style_guide_user_head @ example @ [0x22] @ js ''\<newline>\<newline>''
              @ style_guide_user_task))"

text \<open>
  The response is parsed with two regular expressions, both with the flag \<open>s\<close> (the dot
  matches every code unit) and without the flags \<open>m\<close> and \<open>u\<close> (\<open>$\<close> is the end
  of the input, and matching goes by code units):
  \<^verbatim>\<open>/=== UMFASSENDER STYLE GUIDE.*?===(.*?)(?==== PRAEZISER STYLE GUIDE|$)/s\<close> and
  \<^verbatim>\<open>/=== PRAEZISER STYLE GUIDE.*?===(.*?)$/s\<close> (the source has A-umlaut for AE).
  An expression of this kind is a sequence of items: a literal, the lazy \<open>.*?\<close>, the
  opening and the closing parenthesis of the one group, the lookahead for a literal or the
  end of the input, and \<open>$\<close>.
\<close>

datatype regex_item =
    Literal jsstring
  | Lazy
  | Open
  | Close
  | AheadOrEnd jsstring
  | End

definition comprehensive_marker :: jsstring where
  "comprehensive_marker =
     js ''=== UMFASSENDER STYLE GUIDE''"

definition concise_marker :: jsstring where
  "concise_marker =
     js ''=== PR'' @ [0xC4] @ js ''ZISER STYLE GUIDE''"

definition closing_marker :: jsstring where
  "closing_marker =
     js ''===''"

definition comprehensive_regex :: "regex_item list" where
  "comprehensive_regex =
     [Literal comprehensive_marker, Lazy, Literal closing_marker, Open, Lazy, Close,
      AheadOrEnd concise_marker]"

definition concise_regex :: "regex_item list" where
  "concise_regex =
     [Literal concise_marker, Lazy, Literal closing_marker, Open, Lazy, Close, End]"

fun startsWith :: "jsstring \<Rightarrow> jsstring \<Rightarrow> bool" where
  "startsWith s [] = True"
| "startsWith [] (p # ps) = False"
| "startsWith (c # s) (p # ps) = (c = p \<and> startsWith s ps)"

text \<open>
  The backtracking matcher: \<open>run items s opened cap\<close> matches the items against the
  input \<open>s\<close> that is left, where \<open>opened\<close> is the input that was left when the group
  was opened and \<open>cap\<close> the capture of the group, once it is closed. The lazy \<open>.*?\<close>
  first tries the rest of the expression, and takes one more code unit when that fails.
  The result is \<open>None\<close> when there is no match and the capture otherwise.
  \<open>search\<close> is \<open>String.prototype.match\<close> without the flag \<open>g\<close>: the match at the
  leftmost position that has one.
\<close>

fun run :: "regex_item list \<Rightarrow> jsstring \<Rightarrow> jsstring \<Rightarrow> jsstring option
    \<Rightarrow> jsstring option option" where
  "run [] s opened cap = Some cap"
| "run (Literal p # items) s opened cap =
     (if startsWith s p then run items (drop (length p) s) opened cap else None)"
| "run (Lazy # items) s opened cap =
     (case run items s opened cap of
        Some r \<Rightarrow> Some r
      | None \<Rightarrow> (case s of [] \<Rightarrow> None | c # s' \<Rightarrow> run (Lazy # items) s' opened cap))"
| "run (Open # items) s opened cap = run items s s cap"
| "run (Close # items) s opened cap =
     run items s opened (Some (take (length opened - length s) opened))"
| "run (AheadOrEnd p # items) s opened cap =
     (if startsWith s p \<or> s = [] then run items s opened cap else None)"
| "run (End # items) s opened cap = (if s = [] then run items s opened cap else None)"

fun search :: "regex_item list \<Rightarrow> jsstring \<Rightarrow> jsstring option option" where
  "search items [] = run items [] [] None"
| "search items (c # s) =
     (case run items (c # s) (c # s) None of Some r \<Rightarrow> Some r | None \<Rightarrow> search items s)"

text \<open>
  \<open>match[1]\<close> of the result: \<open>None\<close> when the match is \<open>null\<close> (the source tests
  the match before it reads the group).
\<close>

definition first_group :: "jsstring option option \<Rightarrow> jsstring option" where
  "first_group m = (case m of None \<Rightarrow> None | Some None \<Rightarrow> None | Some (Some g) \<Rightarrow> Some g)"

definition comprehensiveMatch :: "jsstring \<Rightarrow> jsstring option" where
  "comprehensiveMatch fullResponse = first_group (search comprehensive_regex fullResponse)"

definition conciseMatch :: "jsstring \<Rightarrow> jsstring option" where
  "conciseMatch fullResponse = first_group (search concise_regex fullResponse)"

text \<open>
  What the two expressions compute, written directly, for the proofs: the input after the
  first occurrence of a pattern, if there is one, and the input before the first
  occurrence of a pattern, all of it if there is none.
\<close>

fun after_first :: "jsstring \<Rightarrow> jsstring \<Rightarrow> jsstring option" where
  "after_first pat [] = (if pat = [] then Some [] else None)"
| "after_first pat (c # s) =
     (if startsWith (c # s) pat then Some (drop (length pat) (c # s)) else after_first pat s)"

fun before_first :: "jsstring \<Rightarrow> jsstring \<Rightarrow> jsstring" where
  "before_first pat [] = []"
| "before_first pat (c # s) =
     (if startsWith (c # s) pat then [] else c # before_first pat s)"

definition comprehensive_section :: "jsstring \<Rightarrow> jsstring option" where
  "comprehensive_section s =
     (case after_first comprehensive_marker s of
        None \<Rightarrow> None
      | Some rest \<Rightarrow>
          (case after_first closing_marker rest of
             None \<Rightarrow> None
           | Some guide \<Rightarrow> Some (before_first concise_marker guide)))"

definition concise_section :: "jsstring \<Rightarrow> jsstring option" where
  "concise_section s =
     (case after_first concise_marker s of
        None \<Rightarrow> None
      | Some rest \<Rightarrow> after_first closing_marker rest)"

text \<open>
  The first occurrence of a pattern in a string, as a property: the string is
  \<open>before\<close>, the pattern and \<open>after\<close>, and the pattern occurs at no earlier
  position.
\<close>

definition first_at :: "jsstring \<Rightarrow> jsstring \<Rightarrow> jsstring \<Rightarrow> jsstring \<Rightarrow> bool" where
  "first_at pat s before after =
     (s = before @ pat @ after
      \<and> (\<forall>b a. s = b @ pat @ a \<longrightarrow> length before \<le> length b))"

record style_guide_result =
  sg_success :: bool
  sg_error :: "jsstring option"
  sg_styleGuide :: "jsstring option"
  comprehensiveGuide :: "jsstring option"
  conciseGuide :: "jsstring option"
  fullResponse :: "jsstring option"
  exampleText :: jsstring
  additionalInstructions :: "json option"
  sg_model :: "jsstring option"
  sg_timestamp :: jsstring

definition styleGuide_request :: "TextTransformAPI \<Rightarrow> jsstring \<Rightarrow> create_params" where
  "styleGuide_request this userPrompt =
     \<lparr>req_model = model this,
      req_max_tokens = 6000,
      req_temperature = 3 / 10,
      req_system = style_guide_system,
      req_messages = [(js ''user'', userPrompt)]\<rparr>"

definition styleGuide_failure :: "environment \<Rightarrow> jsstring \<Rightarrow> jsstring \<Rightarrow> style_guide_result" where
  "styleGuide_failure env example message =
     \<lparr>sg_success = False, sg_error = Some message, sg_styleGuide = None,
      comprehensiveGuide = None, conciseGuide = None, fullResponse = None,
      exampleText = example, additionalInstructions = None, sg_model = None,
      sg_timestamp = now env\<rparr>"

definition parse_styleGuide :: "environment \<Rightarrow> TextTransformAPI \<Rightarrow> jsstring \<Rightarrow> json \<Rightarrow> jsstring
    \<Rightarrow> style_guide_result" where
  "parse_styleGuide env this example additional response =
     (let full = trim response;
          comprehensive = (case comprehensiveMatch full of Some g \<Rightarrow> trim g | None \<Rightarrow> full);
          concise = (case conciseMatch full of Some g \<Rightarrow> trim g | None \<Rightarrow> [])
      in \<lparr>sg_success = True, sg_error = None, sg_styleGuide = Some comprehensive,
          comprehensiveGuide = Some comprehensive, conciseGuide = Some concise,
          fullResponse = Some full, exampleText = example,
          additionalInstructions = Some additional, sg_model = Some (model this),
          sg_timestamp = now env\<rparr>)"

definition generateStyleGuide :: "environment \<Rightarrow> TextTransformAPI \<Rightarrow> jsstring \<Rightarrow> json
    \<Rightarrow> style_guide_result promise \<times> create_params list" where
  "generateStyleGuide env this example additional =
     (case build_styleGuide_userPrompt env example additional of
        None \<Rightarrow> (Fulfilled (styleGuide_failure env example primitive_error), [])
      | Some userPrompt \<Rightarrow>
          (let request = styleGuide_request this userPrompt in
           case create env request of
             CreateError message \<Rightarrow>
               (Fulfilled (styleGuide_failure env example message), [request])
           | Message content \<Rightarrow>
               (case content of
                  [] \<Rightarrow>
                    (Fulfilled (styleGuide_failure env example undefined_text_error), [request])
                | None # blocks \<Rightarrow>
                    (Fulfilled (styleGuide_failure env example undefined_trim_error), [request])
                | Some t # blocks \<Rightarrow>
                    (Fulfilled (parse_styleGuide env this example additional t), [request]))))"

section \<open>The module-level functions (src/api.js)\<close>

text \<open>
  The module holds \<open>apiInstance\<close>, \<open>null\<close> until \<open>initializeAPI\<close> is called. The
  functions \<open>articulateText\<close>, \<open>refineText\<close>, \<open>editText\<close> and
  \<open>generateStyleGuide\<close> are declared \<open>async\<close>: a \<open>throw\<close> in their body rejects
  the promise that the call returns. \<open>setModel\<close>, \<open>getAvailableModels\<close> and
  \<open>getCurrentModel\<close> are plain functions: their \<open>throw\<close> leaves the call.
\<close>

definition not_initialized :: jsstring where
  "not_initialized = js ''API not initialized. Call initializeAPI() first.''"

definition initializeAPI :: "TextTransformAPI option" where
  "initializeAPI = Some new_TextTransformAPI"

definition articulateText :: "environment \<Rightarrow> TextTransformAPI option \<Rightarrow> jsstring \<Rightarrow> additional_params
    \<Rightarrow> transform_result promise completion \<times> create_params list" where
  "articulateText env apiInstance text options =
     (case apiInstance of
        None \<Rightarrow> (Returns (Rejected not_initialized), [])
      | Some this \<Rightarrow>
          (case articulate env this text options of (result, calls) \<Rightarrow> (Returns result, calls)))"

definition refineText :: "environment \<Rightarrow> TextTransformAPI option \<Rightarrow> jsstring \<Rightarrow> additional_params
    \<Rightarrow> transform_result promise completion \<times> create_params list" where
  "refineText env apiInstance text options =
     (case apiInstance of
        None \<Rightarrow> (Returns (Rejected not_initialized), [])
      | Some this \<Rightarrow>
          (case refine env this text options of (result, calls) \<Rightarrow> (Returns result, calls)))"

definition editText :: "environment \<Rightarrow> TextTransformAPI option \<Rightarrow> jsstring \<Rightarrow> jsstring option
    \<Rightarrow> additional_params \<Rightarrow> transform_result promise completion \<times> create_params list" where
  "editText env apiInstance text instr options =
     (case apiInstance of
        None \<Rightarrow> (Returns (Rejected not_initialized), [])
      | Some this \<Rightarrow>
          (case edit env this text instr options of (result, calls) \<Rightarrow> (Returns result, calls)))"

definition generateStyleGuide_export :: "environment \<Rightarrow> TextTransformAPI option \<Rightarrow> jsstring
    \<Rightarrow> jsstring \<Rightarrow> style_guide_result promise completion \<times> create_params list" where
  "generateStyleGuide_export env apiInstance example additional =
     (case apiInstance of
        None \<Rightarrow> (Returns (Rejected not_initialized), [])
      | Some this \<Rightarrow>
          (case generateStyleGuide env this example (JString additional) of
             (result, calls) \<Rightarrow> (Returns result, calls)))"

text \<open>
  The three plain functions send nothing to the provider; \<open>setModel\<close> returns the
  module state as well, since it changes the instance.
\<close>

definition setModel_export :: "TextTransformAPI option \<Rightarrow> jsstring
    \<Rightarrow> bool completion \<times> TextTransformAPI option" where
  "setModel_export apiInstance modelId =
     (case apiInstance of
        None \<Rightarrow> (Throws not_initialized, None)
      | Some this \<Rightarrow>
          (case setModel modelId this of (accepted, this') \<Rightarrow> (Returns accepted, Some this')))"

definition getAvailableModels_export :: "TextTransformAPI option
    \<Rightarrow> (jsstring \<times> model_info) list completion" where
  "getAvailableModels_export apiInstance =
     (case apiInstance of
        None \<Rightarrow> Throws not_initialized
      | Some this \<Rightarrow> Returns (getAvailableModels this))"

definition getCurrentModel_export :: "TextTransformAPI option \<Rightarrow> current_model completion" where
  "getCurrentModel_export apiInstance =
     (case apiInstance of
        None \<Rightarrow> Throws not_initialized
      | Some this \<Rightarrow> Returns (getCurrentModel this))"

section \<open>The relay server (src/server.js)\<close>

text \<open>
  A response is a status and a JSON body: \<open>{success: false, error}\<close>, or the result of
  the client, or \<open>{success: true, models, currentModel}\<close>, or
  \<open>{success: true, currentModel}\<close>. \<open>res.json\<close> alone answers with
  status 200. \<open>claudeAPI\<close> is the one instance of the server.
\<close>

datatype response_json =
    ErrorJson jsstring
  | TransformJson transform_result
  | StyleGuideJson style_guide_result
  | ModelsJson "(jsstring \<times> model_info) list" current_model
  | CurrentModelJson current_model

record http_response =
  status :: nat
  body :: response_json

text \<open>
  The style-guide route. \<open>req.body\<close> is the value that the JSON middleware parsed, or
  \<open>undefined\<close> (\<open>None\<close>) when the request has no body that it parses; the members of
  an object are JSON values of any kind. Neither of the two names that the handler reads
  is a property of an array, of a string, of a number or of a boolean, nor one that an
  object inherits: only an object that has the member gives a value. The whole handler is
  inside \<open>try\<close>: destructuring \<open>undefined\<close> or \<open>null\<close> throws, and so does
  \<open>exampleText.trim()\<close> for a truthy value that is no string (also for an object with
  a member \<open>trim\<close>, which is no function); the \<open>catch\<close> answers 500 with the message
  of the error (those of V8 here).
\<close>

fun body_member :: "json \<Rightarrow> jsstring \<Rightarrow> json option" where
  "body_member (JObject members) key = map_of members key"
| "body_member v key = None"

definition destructure_error :: "jsstring \<Rightarrow> jsstring" where
  "destructure_error what =
     js ''Cannot destructure property '' @ [0x27] @ js ''exampleText'' @ [0x27] @ js '' of ''
     @ [0x27] @ js ''req.body'' @ [0x27] @ js '' as it is '' @ what @ js ''.''"

definition trim_not_function_error :: jsstring where
  "trim_not_function_error = js ''exampleText.trim is not a function''"

definition missing_exampleText :: http_response where
  "missing_exampleText =
     \<lparr>status = 400, body = ErrorJson (js ''Missing required field: exampleText'')\<rparr>"

definition post_generate_style_guide :: "environment \<Rightarrow> TextTransformAPI
    \<Rightarrow> json option \<Rightarrow> http_response \<times> create_params list" where
  "post_generate_style_guide env claudeAPI req_body =
     (case req_body of
        None \<Rightarrow>
          (\<lparr>status = 500, body = ErrorJson (destructure_error (js ''undefined''))\<rparr>, [])
      | Some JNull \<Rightarrow>
          (\<lparr>status = 500, body = ErrorJson (destructure_error (js ''null''))\<rparr>, [])
      | Some parsed \<Rightarrow>
          (let exampleText = body_member parsed (js ''exampleText'');
               additionalInstructions =
                 (case body_member parsed (js ''additionalInstructions'') of
                    None \<Rightarrow> JString []
                  | Some v \<Rightarrow> v)
           in if \<not> json_truthy exampleText then (missing_exampleText, [])
              else
                (case exampleText of
                   Some (JString example) \<Rightarrow>
                     if trim example = [] then (missing_exampleText, [])
                     else
                       (case generateStyleGuide env claudeAPI (trim example)
                               additionalInstructions of
                          (Fulfilled result, calls) \<Rightarrow>
                            (\<lparr>status = 200, body = StyleGuideJson result\<rparr>, calls)
                        | (Rejected message, calls) \<Rightarrow>
                            (\<lparr>status = 500, body = ErrorJson message\<rparr>, calls))
                 | _ \<Rightarrow> (\<lparr>status = 500, body = ErrorJson trim_not_function_error\<rparr>, []))))"

text \<open>
  The transform route and the model route, for bodies of which the members that the
  handlers read are strings where present.
\<close>

record transform_request_body =
  body_text :: "jsstring option"
  body_action :: "jsstring option"
  body_options :: "additional_params option"

definition respond :: "transform_result promise \<times> create_params list
    \<Rightarrow> http_response \<times> create_params list" where
  "respond outcome =
     (case outcome of
        (Fulfilled result, calls) \<Rightarrow> (\<lparr>status = 200, body = TransformJson result\<rparr>, calls)
      | (Rejected message, calls) \<Rightarrow> (\<lparr>status = 500, body = ErrorJson message\<rparr>, calls))"

definition post_transform :: "environment \<Rightarrow> TextTransformAPI \<Rightarrow> transform_request_body
    \<Rightarrow> http_response \<times> create_params list" where
  "post_transform env claudeAPI req =
     (let options = (case body_options req of None \<Rightarrow> no_params | Some opts \<Rightarrow> opts) in
      case (body_text req, body_action req) of
        (Some text, Some action) \<Rightarrow>
          if text = [] \<or> action = [] then
            (\<lparr>status = 400,
              body = ErrorJson (js ''Missing required fields: text and action'')\<rparr>, [])
          else if action = js ''ARTICULATE'' then respond (articulate env claudeAPI text options)
          else if action = js ''REFINE'' then respond (refine env claudeAPI text options)
          else if action = js ''EDIT'' then
            (if \<not> truthy (instruction options) then
               (\<lparr>status = 400,
                 body = ErrorJson (js ''EDIT action requires instruction in options'')\<rparr>, [])
             else respond (edit env claudeAPI text (instruction options) options))
          else
            (\<lparr>status = 400,
              body = ErrorJson (js ''Unknown action: '' @ action
                                @ js ''. Supported actions: ARTICULATE, REFINE, EDIT.'')\<rparr>, [])
      | _ \<Rightarrow>
          (\<lparr>status = 400,
            body = ErrorJson (js ''Missing required fields: text and action'')\<rparr>, []))"

definition get_models :: "TextTransformAPI \<Rightarrow> http_response" where
  "get_models claudeAPI =
     \<lparr>status = 200,
      body = ModelsJson (getAvailableModels claudeAPI) (getCurrentModel claudeAPI)\<rparr>"

definition post_models_set :: "TextTransformAPI \<Rightarrow> jsstring option
    \<Rightarrow> http_response \<times> TextTransformAPI" where
  "post_models_set claudeAPI modelId =
     (if \<not> truthy modelId then
        (\<lparr>status = 400, body = ErrorJson (js ''Missing required field: modelId'')\<rparr>, claudeAPI)
      else
        (case setModel (the modelId) claudeAPI of
           (True, claudeAPI') \<Rightarrow>
             (\<lparr>status = 200, body = CurrentModelJson (getCurrentModel claudeAPI')\<rparr>, claudeAPI')
         | (False, claudeAPI') \<Rightarrow>
             (\<lparr>status = 400, body = ErrorJson (js ''Invalid model ID: '' @ the modelId)\<rparr>,
              claudeAPI')))"

section \<open>The browser client (src/api-browser.js, transform)\<close>

text \<open>
  The browser client calls the provider with \<open>fetch\<close>, which either rejects (a network
  failure, with the message of its error) or resolves with a response: a status, a status
  text and a body. \<open>response.ok\<close> is true for the statuses 200 to 299. Of the body it is
  kept whether \<open>response.json()\<close> fails (with the message of its error), or gives an
  object without \<open>content\<close> (with its \<open>error.message\<close>, if it has one), or a message
  with the \<open>text\<close> of each of its content blocks.
\<close>

datatype response_body =
    NotJson jsstring
  | ErrorData "jsstring option"
  | MessageData "jsstring option list"

datatype fetch_outcome = Response nat jsstring response_body | FetchError jsstring

text \<open>
  An upstream failure of the browser client: a response with a status outside 200 to 299,
  or a network failure, for which \<open>fetch\<close> rejects with a \<open>TypeError\<close> that has a
  message (\<open>Failed to fetch\<close>).
\<close>

definition fetch_failure :: "fetch_outcome \<Rightarrow> bool" where
  "fetch_failure outcome =
     (case outcome of
        FetchError message \<Rightarrow> message \<noteq> []
      | Response code statusText data \<Rightarrow> \<not> (200 \<le> code \<and> code \<le> 299))"

record fetch_request =
  url :: jsstring
  x_api_key :: "jsstring option"
  request_body :: create_params

record browser_environment =
  fetch :: "fetch_request \<Rightarrow> fetch_outcome"
  browser_now :: jsstring

record browser_params =
  browser_context :: "jsstring option"
  tone :: "jsstring option"
  targetLength :: "jsstring option"
  browser_temperature :: "rat option"

record browser_TextTransformAPI =
  apiKey :: "jsstring option"
  browser_model :: jsstring

definition new_browser_TextTransformAPI :: "jsstring option \<Rightarrow> browser_TextTransformAPI" where
  "new_browser_TextTransformAPI key =
     \<lparr>apiKey = key, browser_model = js ''claude-3-5-sonnet-20241022''\<rparr>"

text \<open>A status in decimal digits, as the template literal writes it.\<close>

function number_to_string :: "nat \<Rightarrow> jsstring" where
  "number_to_string n =
     (if n < 10 then [of_nat (48 + n)]
      else number_to_string (n div 10) @ [of_nat (48 + n mod 10)])"
  by pat_completeness auto
termination
  by (relation "measure (\<lambda>n. n)") auto

declare number_to_string.simps [simp del]

definition undefined_index_error :: jsstring where
  "undefined_index_error =
     js ''Cannot read properties of undefined (reading '' @ [0x27] @ js ''0'' @ [0x27] @ js '')''"

definition browser_system :: jsstring where
  "browser_system =
     js ''You are a professional copywriting assistant. Your task is to transform the given text according to the specific instruction provided.\<newline>'' @
     js ''\<newline>'' @
     js ''Rules:\<newline>'' @
     js ''- Return ONLY the transformed text, no explanations or additional commentary\<newline>'' @
     js ''- Preserve the original meaning and intent when possible\<newline>'' @
     js ''- Maintain appropriate tone and style for the context\<newline>'' @
     js ''- If the instruction is unclear, make your best interpretation''"

definition browser_userPrompt :: "jsstring \<Rightarrow> jsstring \<Rightarrow> browser_params \<Rightarrow> jsstring" where
  "browser_userPrompt text instr additionalParams =
     js ''Transform this text: '' @ [0x22] @ text @ [0x22]
     @ js ''\<newline>\<newline>Instruction: '' @ instr @ js ''\<newline>\<newline>''
     @ (if truthy (browser_context additionalParams)
        then js ''Additional context: '' @ the (browser_context additionalParams) else [])
     @ js ''\<newline>''
     @ (if truthy (tone additionalParams)
        then js ''Desired tone: '' @ the (tone additionalParams) else [])
     @ js ''\<newline>''
     @ (if truthy (targetLength additionalParams)
        then js ''Target length: '' @ the (targetLength additionalParams) else [])"

definition browser_request :: "browser_TextTransformAPI \<Rightarrow> jsstring \<Rightarrow> jsstring \<Rightarrow> browser_params
    \<Rightarrow> fetch_request" where
  "browser_request this text instr additionalParams =
     \<lparr>url = js ''https://api.anthropic.com/v1/messages'',
      x_api_key = apiKey this,
      request_body =
        \<lparr>req_model = browser_model this,
         req_max_tokens = 1000,
         req_temperature = (case browser_temperature additionalParams of
                              None \<Rightarrow> 3 / 10
                            | Some t \<Rightarrow> if t = 0 then 3 / 10 else t),
         req_system = browser_system,
         req_messages = [(js ''user'', browser_userPrompt text instr additionalParams)]\<rparr>\<rparr>"

definition browser_failure :: "browser_environment \<Rightarrow> jsstring \<Rightarrow> jsstring \<Rightarrow> jsstring
    \<Rightarrow> transform_result" where
  "browser_failure env text instr message =
     \<lparr>success = False, error = Some message, originalText = text, transformedText = None,
      result_instruction = instr, result_model = None, timestamp = browser_now env\<rparr>"

definition api_error_message :: "nat \<Rightarrow> jsstring \<Rightarrow> response_body \<Rightarrow> jsstring" where
  "api_error_message code statusText errorData =
     js ''API Error '' @ number_to_string code @ js '': ''
     @ (case errorData of
          ErrorData (Some message) \<Rightarrow> if message = [] then statusText else message
        | ErrorData None \<Rightarrow> statusText
        | NotJson parse_error \<Rightarrow> statusText
        | MessageData content \<Rightarrow> statusText)"

definition browser_transform :: "browser_environment \<Rightarrow> browser_TextTransformAPI \<Rightarrow> jsstring \<Rightarrow> jsstring
    \<Rightarrow> browser_params \<Rightarrow> transform_result promise \<times> fetch_request list" where
  "browser_transform env this text instr additionalParams =
     (let request = browser_request this text instr additionalParams in
      case fetch env request of
        FetchError message \<Rightarrow> (Fulfilled (browser_failure env text instr message), [request])
      | Response code statusText data \<Rightarrow>
          if \<not> (200 \<le> code \<and> code \<le> 299) then
            (Fulfilled (browser_failure env text instr (api_error_message code statusText data)),
             [request])
          else
            (case data of
               NotJson parse_error \<Rightarrow>
                 (Fulfilled (browser_failure env text instr parse_error), [request])
             | ErrorData message \<Rightarrow>
                 (Fulfilled (browser_failure env text instr undefined_index_error), [request])
             | MessageData [] \<Rightarrow>
                 (Fulfilled (browser_failure env text instr undefined_text_error), [request])
             | MessageData (None # blocks) \<Rightarrow>
                 (Fulfilled (browser_failure env text instr undefined_trim_error), [request])
             | MessageData (Some t # blocks) \<Rightarrow>
                 (Fulfilled
                    \<lparr>success = True, error = None, originalText = text,
                     transformedText = Some (trim t), result_instruction = instr,
                     result_model = Some (browser_model this),
                     timestamp = browser_now env\<rparr>,
                  [request])))"

section \<open>The frontend client (src/unnamed/part_000)\<close>

text \<open>
  The page's client calls the relay server with \<open>fetch\<close>, which either rejects, with
  the message of its error, or resolves with a response: a status and a body, of which
  \<open>response.json()\<close> either fails, with the message of its error, or gives the JSON of
  the server. Every method catches its errors and returns an object: the JSON of the
  server, or a failure made by the client (\<open>success: false\<close>, the error, and the
  original text and the timestamp where the method adds them).
\<close>

datatype relay_payload =
    TransformPayload jsstring jsstring additional_params
  | StyleGuidePayload jsstring jsstring
  | ModelPayload jsstring

record relay_request =
  relay_url :: jsstring
  relay_method :: jsstring
  relay_payload :: "relay_payload option"

datatype relay_body = RelayNotJson jsstring | RelayJson response_json

datatype relay_outcome = RelayResponse nat relay_body | RelayError jsstring

record frontend_environment =
  relay_fetch :: "relay_request \<Rightarrow> relay_outcome"
  frontend_now :: jsstring

datatype client_result =
    FromServer response_json
  | ClientFailure jsstring "jsstring option" "jsstring option"

record TextTransformAPIClient =
  baseURL :: jsstring

definition new_TextTransformAPIClient :: TextTransformAPIClient where
  "new_TextTransformAPIClient = \<lparr>baseURL = []\<rparr>"

text \<open>\<open>result.error\<close> of the JSON of the server.\<close>

definition error_of :: "response_json \<Rightarrow> jsstring option" where
  "error_of result =
     (case result of
        ErrorJson message \<Rightarrow> Some message
      | TransformJson r \<Rightarrow> error r
      | StyleGuideJson r \<Rightarrow> sg_error r
      | ModelsJson models current \<Rightarrow> None
      | CurrentModelJson current \<Rightarrow> None)"

text \<open>
  The common body of the methods: \<open>fetch\<close>, \<open>response.json()\<close>, and the error thrown
  for a response that is not ok; \<open>Inl\<close> is the message of the error that the method
  catches.
\<close>

definition relay_call :: "frontend_environment \<Rightarrow> relay_request \<Rightarrow> jsstring + response_json" where
  "relay_call env request =
     (case relay_fetch env request of
        RelayError message \<Rightarrow> Inl message
      | RelayResponse code (RelayNotJson parse_error) \<Rightarrow> Inl parse_error
      | RelayResponse code (RelayJson result) \<Rightarrow>
          if \<not> (200 \<le> code \<and> code \<le> 299) then
            Inl (if truthy (error_of result) then the (error_of result)
                 else js ''Server error: '' @ number_to_string code)
          else Inr result)"

definition callAPI :: "frontend_environment \<Rightarrow> TextTransformAPIClient \<Rightarrow> jsstring \<Rightarrow> jsstring
    \<Rightarrow> additional_params \<Rightarrow> client_result \<times> relay_request list" where
  "callAPI env this text action options =
     (let request = \<lparr>relay_url = baseURL this @ js ''/api/transform'',
                      relay_method = js ''POST'',
                      relay_payload = Some (TransformPayload text action options)\<rparr> in
      case relay_call env request of
        Inr result \<Rightarrow> (FromServer result, [request])
      | Inl message \<Rightarrow>
          (ClientFailure message (Some text) (Some (frontend_now env)), [request]))"

definition client_articulate :: "frontend_environment \<Rightarrow> TextTransformAPIClient \<Rightarrow> jsstring
    \<Rightarrow> additional_params \<Rightarrow> client_result \<times> relay_request list" where
  "client_articulate env this text options = callAPI env this text (js ''ARTICULATE'') options"

definition client_refine :: "frontend_environment \<Rightarrow> TextTransformAPIClient \<Rightarrow> jsstring
    \<Rightarrow> additional_params \<Rightarrow> client_result \<times> relay_request list" where
  "client_refine env this text options = callAPI env this text (js ''REFINE'') options"

definition client_edit :: "frontend_environment \<Rightarrow> TextTransformAPIClient \<Rightarrow> jsstring
    \<Rightarrow> jsstring option \<Rightarrow> additional_params \<Rightarrow> client_result \<times> relay_request list" where
  "client_edit env this text instr options =
     callAPI env this text (js ''EDIT'') (options\<lparr>instruction := instr\<rparr>)"

definition client_generateStyleGuide :: "frontend_environment \<Rightarrow> TextTransformAPIClient \<Rightarrow> jsstring
    \<Rightarrow> jsstring \<Rightarrow> client_result \<times> relay_request list" where
  "client_generateStyleGuide env this example additional =
     (let request = \<lparr>relay_url = baseURL this @ js ''/api/generate-style-guide'',
                      relay_method = js ''POST'',
                      relay_payload = Some (StyleGuidePayload example additional)\<rparr> in
      case relay_call env request of
        Inr result \<Rightarrow> (FromServer result, [request])
      | Inl message \<Rightarrow> (ClientFailure message None (Some (frontend_now env)), [request]))"

definition client_getModels :: "frontend_environment \<Rightarrow> TextTransformAPIClient
    \<Rightarrow> client_result \<times> relay_request list" where
  "client_getModels env this =
     (let request = \<lparr>relay_url = baseURL this @ js ''/api/models'',
                      relay_method = js ''GET'', relay_payload = None\<rparr> in
      case relay_call env request of
        Inr result \<Rightarrow> (FromServer result, [request])
      | Inl message \<Rightarrow> (ClientFailure message None None, [request]))"

definition client_setModel :: "frontend_environment \<Rightarrow> TextTransformAPIClient \<Rightarrow> jsstring
    \<Rightarrow> client_result \<times> relay_request list" where
  "client_setModel env this modelId =
     (let request = \<lparr>relay_url = baseURL this @ js ''/api/models/set'',
                      relay_method = js ''POST'',
                      relay_payload = Some (ModelPayload modelId)\<rparr> in
      case relay_call env request of
        Inr result \<Rightarrow> (FromServer result, [request])
      | Inl message \<Rightarrow> (ClientFailure message None None, [request]))"

text \<open>
  The module holds \<open>apiClient\<close>, \<open>null\<close> until its \<open>initializeAPI\<close> is called. All
  its functions are declared \<open>async\<close>.
\<close>

definition frontend_initializeAPI :: "TextTransformAPIClient option" where
  "frontend_initializeAPI = Some new_TextTransformAPIClient"

definition settle :: "client_result \<times> relay_request list
    \<Rightarrow> client_result promise completion \<times> relay_request list" where
  "settle outcome = (case outcome of (result, calls) \<Rightarrow> (Returns (Fulfilled result), calls))"

definition frontend_articulateText :: "frontend_environment \<Rightarrow> TextTransformAPIClient option
    \<Rightarrow> jsstring \<Rightarrow> additional_params \<Rightarrow> client_result promise completion \<times> relay_request list" where
  "frontend_articulateText env apiClient text options =
     (case apiClient of
        None \<Rightarrow> (Returns (Rejected not_initialized), [])
      | Some client \<Rightarrow> settle (client_articulate env client text options))"

definition frontend_refineText :: "frontend_environment \<Rightarrow> TextTransformAPIClient option
    \<Rightarrow> jsstring \<Rightarrow> additional_params \<Rightarrow> client_result promise completion \<times> relay_request list" where
  "frontend_refineText env apiClient text options =
     (case apiClient of
        None \<Rightarrow> (Returns (Rejected not_initialized), [])
      | Some client \<Rightarrow> settle (client_refine env client text options))"

definition frontend_editText :: "frontend_environment \<Rightarrow> TextTransformAPIClient option
    \<Rightarrow> jsstring \<Rightarrow> jsstring option \<Rightarrow> additional_params
    \<Rightarrow> client_result promise completion \<times> relay_request list" where
  "frontend_editText env apiClient text instr options =
     (case apiClient of
        None \<Rightarrow> (Returns (Rejected not_initialized), [])
      | Some client \<Rightarrow> settle (client_edit env client text instr options))"

definition frontend_generateStyleGuide :: "frontend_environment \<Rightarrow> TextTransformAPIClient option
    \<Rightarrow> jsstring \<Rightarrow> jsstring \<Rightarrow> client_result promise completion \<times> relay_request list" where
  "frontend_generateStyleGuide env apiClient example additional =
     (case apiClient of
        None \<Rightarrow> (Returns (Rejected not_initialized), [])
      | Some client \<Rightarrow> settle (client_generateStyleGuide env client example additional))"

definition frontend_getModels :: "frontend_environment \<Rightarrow> TextTransformAPIClient option
    \<Rightarrow> client_result promise completion \<times> relay_request list" where
  "frontend_getModels env apiClient =
     (case apiClient of
        None \<Rightarrow> (Returns (Rejected not_initialized), [])
      | Some client \<Rightarrow> settle (client_getModels env client))"

definition frontend_setModel :: "frontend_environment \<Rightarrow> TextTransformAPIClient option
    \<Rightarrow> jsstring \<Rightarrow> client_result promise completion \<times> relay_request list" where
  "frontend_setModel env apiClient modelId =
     (case apiClient of
        None \<Rightarrow> (Returns (Rejected not_initialized), [])
      | Some client \<Rightarrow> settle (client_setModel env client modelId))"

section \<open>Sample environments and inputs\<close>

definition sample_time :: jsstring where
  "sample_time = js ''2025-01-01T00:00:00.000Z''"

definition sample_number_text :: "rat \<Rightarrow> jsstring" where
  "sample_number_text q = (if q = 123 then js ''123'' else js ''0'')"

definition sample_env :: environment where
  "sample_env = \<lparr>create = (\<lambda>request. Message [Some (js '' Polished text. '')]),
                 now = sample_time, number_text = sample_number_text\<rparr>"

definition unavailable_env :: environment where
  "unavailable_env = \<lparr>create = (\<lambda>request. CreateError (js ''503 status code (no body)'')),
                      now = sample_time, number_text = sample_number_text\<rparr>"

definition echo_env :: environment where
  "echo_env = \<lparr>create = (\<lambda>request. Message [Some (js ''Draft notes about Q3 sales'')]),
               now = sample_time, number_text = sample_number_text\<rparr>"

definition blank_env :: environment where
  "blank_env = \<lparr>create = (\<lambda>request. Message [Some (js ''  '')]), now = sample_time,
                number_text = sample_number_text\<rparr>"

definition no_browser_params :: browser_params where
  "no_browser_params = \<lparr>browser_context = None, tone = None, targetLength = None,
                         browser_temperature = None\<rparr>"

definition disconnected_browser :: browser_environment where
  "disconnected_browser = \<lparr>fetch = (\<lambda>request. FetchError (js ''Failed to fetch'')),
                           browser_now = sample_time\<rparr>"

definition unavailable_browser :: browser_environment where
  "unavailable_browser =
     \<lparr>fetch = (\<lambda>request. Response 503 (js ''Service Unavailable'') (NotJson (js ''Unexpected token''))),
      browser_now = sample_time\<rparr>"

definition guide_with_empty_concise :: style_guide where
  "guide_with_empty_concise = GuideObject (Some (js ''LONG GUIDE'')) (Some []) None"

definition guide_with_both :: style_guide where
  "guide_with_both = GuideObject (Some (js ''LONG GUIDE'')) (Some (js ''SHORT GUIDE'')) None"

definition truncated_response :: jsstring where
  "truncated_response =
     comprehensive_marker @ js '' (1) ===\<newline>TON: warm\<newline>\<newline>''
     @ concise_marker @ js '' (2) ===''"

definition truncated_env :: environment where
  "truncated_env = \<lparr>create = (\<lambda>request. Message [Some truncated_response]),
                    now = sample_time, number_text = sample_number_text\<rparr>"

definition formatted_response :: jsstring where
  "formatted_response =
     comprehensive_marker @ js '' (1) '' @ closing_marker @ js ''\<newline>TON: warm\<newline>\<newline>''
     @ concise_marker @ js '' (2) '' @ closing_marker @ js ''\<newline>TON: short''"

definition formatted_env :: environment where
  "formatted_env = \<lparr>create = (\<lambda>request. Message [Some formatted_response]),
                    now = sample_time, number_text = sample_number_text\<rparr>"

definition unclosed_response :: jsstring where
  "unclosed_response =
     comprehensive_marker @ js '' (1)\<newline>TON: warm\<newline>'' @ concise_marker @ js '' (2)''"

definition header_response :: jsstring where
  "header_response = comprehensive_marker @ js '' (1)''"

definition responding :: "jsstring \<Rightarrow> environment" where
  "responding response =
     \<lparr>create = (\<lambda>request. Message [Some response]), now = sample_time,
      number_text = sample_number_text\<rparr>"

definition sample_userPrompt :: jsstring where
  "sample_userPrompt =
     style_guide_user_head @ js ''Sample'' @ [0x22] @ js ''\<newline>\<newline>''
     @ style_guide_user_task"

definition plain_env :: environment where
  "plain_env = \<lparr>create = (\<lambda>request. Message [Some (js ''Warm and direct.'')]),
                now = sample_time, number_text = sample_number_text\<rparr>"

section \<open>Strings\<close>

lemma trim_empty_iff: "trim s = [] \<longleftrightarrow> (\<forall>c \<in> set s. isWhiteSpace c)"
proof
  assume "trim s = []"
  then have "dropWhile isWhiteSpace (rev (dropWhile isWhiteSpace s)) = []"
    by (simp add: trim_def)
  then have "\<forall>c \<in> set (rev (dropWhile isWhiteSpace s)). isWhiteSpace c"
    by (simp add: dropWhile_eq_Nil_conv)
  then have "dropWhile isWhiteSpace s = []"
    by (metis hd_dropWhile list.set_sel(1) set_rev)
  then show "\<forall>c \<in> set s. isWhiteSpace c"
    by (simp add: dropWhile_eq_Nil_conv)
next
  assume "\<forall>c \<in> set s. isWhiteSpace c"
  then show "trim s = []" by (auto simp: trim_def dest: set_dropWhileD)
qed

lemma number_to_string_nonempty: "number_to_string n \<noteq> []"
  by (subst number_to_string.simps) simp

lemma startsWith_iff: "startsWith s p \<longleftrightarrow> (\<exists>r. s = p @ r)"
  by (induction s p rule: startsWith.induct) auto

lemma startsWith_append: "startsWith (p @ r) p"
  by (simp add: startsWith_iff)

lemma startsWith_drop: "startsWith s p \<Longrightarrow> p @ drop (length p) s = s"
  by (auto simp: startsWith_iff)

lemma after_first_Some:
  "after_first pat s = Some r \<Longrightarrow> \<exists>a. s = a @ pat @ r"
proof (induction s)
  case Nil
  then show ?case by (simp split: if_splits)
next
  case (Cons c s)
  show ?case
  proof (cases "startsWith (c # s) pat")
    case True
    with Cons.prems have "r = drop (length pat) (c # s)" by simp
    with True have "c # s = [] @ pat @ r" using startsWith_drop by fastforce
    then show ?thesis by blast
  next
    case False
    with Cons.prems have "after_first pat s = Some r" by simp
    then obtain a where "s = a @ pat @ r" using Cons.IH by blast
    then have "c # s = (c # a) @ pat @ r" by simp
    then show ?thesis by blast
  qed
qed

lemma after_first_occurs:
  "\<exists>r. after_first pat (a @ pat @ b) = Some r"
proof (induction a)
  case Nil
  show ?case
  proof (cases "pat @ b")
    case Nil
    then show ?thesis by simp
  next
    case (Cons c s)
    then have "startsWith (c # s) pat" using startsWith_append [of pat b] by simp
    with Cons show ?thesis by simp
  qed
next
  case (Cons c a)
  then show ?case by simp
qed

lemma after_first_None_iff:
  "after_first pat s = None \<longleftrightarrow> \<not> (\<exists>a b. s = a @ pat @ b)"
proof
  assume n: "after_first pat s = None"
  show "\<not> (\<exists>a b. s = a @ pat @ b)"
  proof
    assume "\<exists>a b. s = a @ pat @ b"
    then obtain a b where "s = a @ pat @ b" by blast
    then show False using after_first_occurs [of pat a b] n by simp
  qed
next
  assume "\<not> (\<exists>a b. s = a @ pat @ b)"
  then show "after_first pat s = None"
    using after_first_Some [of pat s] by (cases "after_first pat s") auto
qed

lemma before_first_split:
  "\<exists>r. s = before_first pat s @ r \<and> (r = [] \<or> startsWith r pat)"
proof (induction s)
  case Nil
  then show ?case by simp
next
  case (Cons c s)
  show ?case
  proof (cases "startsWith (c # s) pat")
    case True
    then show ?thesis by simp
  next
    case False
    then show ?thesis using Cons.IH by auto
  qed
qed

lemma after_first_skip:
  "p \<notin> set a \<Longrightarrow> after_first (p # ps) (a @ s) = after_first (p # ps) s"
  by (induction a) auto

lemma after_first_here: "after_first (p # ps) ((p # ps) @ s) = Some s"
  using startsWith_append [of "p # ps" s] by simp

lemma before_first_skip:
  "p \<notin> set g \<Longrightarrow> before_first (p # ps) (g @ s) = g @ before_first (p # ps) s"
  by (induction g) auto

lemma before_first_here: "before_first (p # ps) ((p # ps) @ s) = []"
  using startsWith_append [of "p # ps" s] by simp

section \<open>The registry and the current model\<close>

lemma setModel_registered:
  assumes "map_of availableModels modelId = Some m"
  shows "setModel modelId this = (True, this\<lparr>model := modelId\<rparr>)"
  using assms by (simp add: setModel_def get_property_def property_truthy_def)

lemma setModel_unknown:
  assumes "map_of availableModels modelId = None"
    and "modelId \<notin> set object_prototype_properties"
  shows "setModel modelId this = (False, this)"
  using assms by (simp add: setModel_def get_property_def property_truthy_def)

lemma getCurrentModel_registered:
  assumes "map_of availableModels (model this) = Some m"
  shows "getCurrentModel this = \<lparr>model_id = model this, metadata = Some m\<rparr>"
  using assms by (simp add: getCurrentModel_def get_property_def)

text \<open>
  Apart from the names of the inherited properties, \<open>setModel\<close> keeps the current
  model in the registry.
\<close>

lemma setModel_keeps_registered:
  assumes "model this \<in> fst ` set availableModels"
    and "modelId \<notin> set object_prototype_properties"
  shows "model (snd (setModel modelId this)) \<in> fst ` set availableModels"
proof (cases "map_of availableModels modelId")
  case None
  then show ?thesis using assms setModel_unknown [of modelId this] by simp
next
  case (Some m)
  then have "modelId \<in> fst ` set availableModels"
    by (metis map_of_SomeD fst_conv image_eqI)
  then show ?thesis using setModel_registered [OF Some, of this] by simp
qed

lemma setModels_keep_registered:
  assumes "model this \<in> fst ` set availableModels"
    and "\<forall>modelId \<in> set modelIds. modelId \<notin> set object_prototype_properties"
  shows "model (setModels modelIds this) \<in> fst ` set availableModels"
  using assms
proof (induction modelIds arbitrary: this)
  case Nil
  then show ?case by simp
next
  case (Cons modelId modelIds)
  have "model (snd (setModel modelId this)) \<in> fst ` set availableModels"
    using Cons.prems by (simp add: setModel_keeps_registered)
  then show ?case using Cons.IH Cons.prems by simp
qed

lemma post_models_set_unknown:
  assumes "map_of availableModels modelId = None"
    and "modelId \<notin> set object_prototype_properties" and "modelId \<noteq> []"
  shows "post_models_set claudeAPI (Some modelId)
         = (\<lparr>status = 400, body = ErrorJson (js ''Invalid model ID: '' @ modelId)\<rparr>, claudeAPI)"
  using assms by (simp add: post_models_set_def truthy_def setModel_unknown)

text \<open>
  C5: an identifier that is not in the registry must leave the current model unchanged and
  make \<open>setModel\<close> return false, and the route must answer 400. The lookup
  \<open>this.availableModels[modelId]\<close> also finds the properties inherited from
  \<open>Object.prototype\<close>: with the identifier \<open>constructor\<close>, which is no key of the
  registry, \<open>setModel\<close> returns true, the current model becomes \<open>constructor\<close>, and the
  route answers 200.
\<close>

theorem setModel_constructor_accepted:
  "js ''constructor'' \<notin> fst ` set availableModels
   \<and> model new_TextTransformAPI \<noteq> js ''constructor''
   \<and> setModel (js ''constructor'') new_TextTransformAPI
       = (True, \<lparr>model = js ''constructor''\<rparr>)
   \<and> post_models_set new_TextTransformAPI (Some (js ''constructor''))
       = (\<lparr>status = 200,
           body = CurrentModelJson \<lparr>model_id = js ''constructor'', metadata = None\<rparr>\<rparr>,
          \<lparr>model = js ''constructor''\<rparr>)"
  by (simp add: post_models_set_def truthy_def setModel_def getCurrentModel_def get_property_def
      property_truthy_def availableModels_def object_prototype_properties_def
      new_TextTransformAPI_def js_def)

text \<open>
  C9: the current model must always be a key of the registry, so that \<open>getCurrentModel\<close>
  returns registry metadata with it, after any sequence of \<open>setModel\<close> calls. After
  \<open>setModel('toString')\<close> on a new instance the current model is \<open>toString\<close>, which is
  no key of the registry, and \<open>getCurrentModel\<close> returns the identifier without metadata.
\<close>

theorem current_model_leaves_registry:
  "model (setModels [js ''toString''] new_TextTransformAPI) \<notin> fst ` set availableModels
   \<and> getCurrentModel (setModels [js ''toString''] new_TextTransformAPI)
       = \<lparr>model_id = js ''toString'', metadata = None\<rparr>"
  by (simp add: setModel_def getCurrentModel_def get_property_def property_truthy_def
      availableModels_def object_prototype_properties_def new_TextTransformAPI_def js_def)

section \<open>The transform client\<close>

lemma transform_calls:
  "snd (transform env this input instr ps) = [create_request this input instr ps]"
  by (simp add: transform_def Let_def split: create_outcome.split list.split option.split)

lemma transform_fulfilled:
  "\<exists>r. fst (transform env this input instr ps) = Fulfilled r"
  by (simp add: transform_def Let_def split: create_outcome.split list.split option.split)

lemma revised_transform_fulfilled:
  "\<exists>r. fst (revised_transform env this input instr ps) = Fulfilled r"
  by (simp add: revised_transform_def Let_def split: create_outcome.split list.split option.split)

lemma browser_transform_fulfilled:
  "\<exists>r. fst (browser_transform env this input instr ps) = Fulfilled r"
  by (simp add: browser_transform_def Let_def
      split: fetch_outcome.split response_body.split list.split option.split)

lemma api_error_message_nonempty: "api_error_message code statusText data \<noteq> []"
  by (simp add: api_error_message_def js_def)

text \<open>
  C1: for every text, instruction and options, and for every upstream failure (\<open>create\<close>
  of the SDK throws for a non-2xx status or a network failure; in the browser client the
  response has a status outside 200 to 299, or \<open>fetch\<close> rejects), \<open>transform\<close>
  sends its one request and returns a result with \<open>success = false\<close> and an \<open>error\<close>
  that is not empty: the message of the error that was thrown, or, for a non-2xx response
  in the browser, the message that the client builds from the status. In the client of
  src/api.js, in its revision and in the browser client, every call of \<open>transform\<close>
  returns a fulfilled promise: nothing is thrown and nothing is rejected, whatever the
  provider does.
\<close>

theorem transform_upstream_failure:
  "(upstream_failure (create env (create_request this input instr ps)) \<longrightarrow>
      (\<exists>r message. transform env this input instr ps
              = (Fulfilled r, [create_request this input instr ps])
           \<and> \<not> success r \<and> error r = Some message \<and> message \<noteq> []
           \<and> create env (create_request this input instr ps) = CreateError message))
   \<and> (upstream_failure (create env (revised_create_request this input instr ps)) \<longrightarrow>
      (\<exists>r message. revised_transform env this input instr ps
              = (Fulfilled r, [revised_create_request this input instr ps])
           \<and> \<not> success r \<and> error r = Some message \<and> message \<noteq> []
           \<and> create env (revised_create_request this input instr ps) = CreateError message))
   \<and> (fetch_failure (fetch benv (browser_request bthis input instr bps)) \<longrightarrow>
      (\<exists>r message. browser_transform benv bthis input instr bps
              = (Fulfilled r, [browser_request bthis input instr bps])
           \<and> \<not> success r \<and> error r = Some message \<and> message \<noteq> []
           \<and> (fetch benv (browser_request bthis input instr bps) = FetchError message
              \<or> (\<exists>code statusText data.
                    fetch benv (browser_request bthis input instr bps)
                      = Response code statusText data
                    \<and> message = api_error_message code statusText data))))
   \<and> (\<exists>r. fst (transform env this input instr ps) = Fulfilled r)
   \<and> (\<exists>r. fst (revised_transform env this input instr ps) = Fulfilled r)
   \<and> (\<exists>r. fst (browser_transform benv bthis input instr bps) = Fulfilled r)"
proof (intro conjI allI impI)
  assume "upstream_failure (create env (create_request this input instr ps))"
  then obtain message where
    "create env (create_request this input instr ps) = CreateError message" "message \<noteq> []"
    by (auto simp: upstream_failure_def split: create_outcome.splits)
  then show "\<exists>r message. transform env this input instr ps
              = (Fulfilled r, [create_request this input instr ps])
           \<and> \<not> success r \<and> error r = Some message \<and> message \<noteq> []
           \<and> create env (create_request this input instr ps) = CreateError message"
    by (simp add: transform_def transform_failure_def)
next
  assume "upstream_failure (create env (revised_create_request this input instr ps))"
  then obtain message where
    "create env (revised_create_request this input instr ps) = CreateError message"
    "message \<noteq> []"
    by (auto simp: upstream_failure_def split: create_outcome.splits)
  then show "\<exists>r message. revised_transform env this input instr ps
              = (Fulfilled r, [revised_create_request this input instr ps])
           \<and> \<not> success r \<and> error r = Some message \<and> message \<noteq> []
           \<and> create env (revised_create_request this input instr ps) = CreateError message"
    by (simp add: revised_transform_def transform_failure_def)
next
  assume f: "fetch_failure (fetch benv (browser_request bthis input instr bps))"
  show "\<exists>r message. browser_transform benv bthis input instr bps
              = (Fulfilled r, [browser_request bthis input instr bps])
           \<and> \<not> success r \<and> error r = Some message \<and> message \<noteq> []
           \<and> (fetch benv (browser_request bthis input instr bps) = FetchError message
              \<or> (\<exists>code statusText data.
                    fetch benv (browser_request bthis input instr bps)
                      = Response code statusText data
                    \<and> message = api_error_message code statusText data))"
  proof (cases "fetch benv (browser_request bthis input instr bps)")
    case (FetchError message)
    then have "message \<noteq> []" using f by (simp add: fetch_failure_def)
    then show ?thesis
      using FetchError by (simp add: browser_transform_def browser_failure_def)
  next
    case (Response code statusText data)
    then have "\<not> (200 \<le> code \<and> code \<le> 299)" using f by (simp add: fetch_failure_def)
    then have "browser_transform benv bthis input instr bps
      = (Fulfilled (browser_failure benv input instr (api_error_message code statusText data)),
         [browser_request bthis input instr bps])"
      using Response by (simp add: browser_transform_def)
    then show ?thesis
      using api_error_message_nonempty [of code statusText data] Response
      by (simp add: browser_failure_def)
  qed
next
  show "\<exists>r. fst (transform env this input instr ps) = Fulfilled r"
    by (rule transform_fulfilled)
next
  show "\<exists>r. fst (revised_transform env this input instr ps) = Fulfilled r"
    by (rule revised_transform_fulfilled)
next
  show "\<exists>r. fst (browser_transform benv bthis input instr bps) = Fulfilled r"
    by (rule browser_transform_fulfilled)
qed

theorem transform_upstream_failure_witness:
  "(\<exists>r. transform unavailable_env new_TextTransformAPI (js ''Hello'') (js ''Shorten'') no_params
        = (Fulfilled r,
           [create_request new_TextTransformAPI (js ''Hello'') (js ''Shorten'') no_params])
      \<and> \<not> success r \<and> error r = Some (js ''503 status code (no body)''))
   \<and> (\<exists>r. revised_transform unavailable_env new_TextTransformAPI (js ''Hello'') (js ''Shorten'')
            no_params
        = (Fulfilled r,
           [revised_create_request new_TextTransformAPI (js ''Hello'') (js ''Shorten'')
              no_params])
      \<and> \<not> success r \<and> error r = Some (js ''503 status code (no body)''))
   \<and> (\<exists>r. browser_transform disconnected_browser (new_browser_TextTransformAPI None)
            (js ''Hello'') (js ''Shorten'') no_browser_params
        = (Fulfilled r,
           [browser_request (new_browser_TextTransformAPI None) (js ''Hello'') (js ''Shorten'')
              no_browser_params])
      \<and> \<not> success r \<and> error r = Some (js ''Failed to fetch''))
   \<and> (\<exists>r message. browser_transform unavailable_browser (new_browser_TextTransformAPI None)
            (js ''Hello'') (js ''Shorten'') no_browser_params
        = (Fulfilled r,
           [browser_request (new_browser_TextTransformAPI None) (js ''Hello'') (js ''Shorten'')
              no_browser_params])
      \<and> \<not> success r \<and> error r = Some message \<and> message \<noteq> [])"
proof -
  have m: "js ''503 status code (no body)'' \<noteq> []" "js ''Failed to fetch'' \<noteq> []"
    by (simp_all add: js_def)
  have u: "upstream_failure (create unavailable_env request)" for request
    using m by (simp add: upstream_failure_def unavailable_env_def)
  have c: "create unavailable_env request = CreateError (js ''503 status code (no body)'')"
    for request
    by (simp add: unavailable_env_def)
  have d: "fetch_failure (fetch disconnected_browser request)" for request
    using m by (simp add: fetch_failure_def disconnected_browser_def)
  have s: "fetch_failure (fetch unavailable_browser request)" for request
    by (simp add: fetch_failure_def unavailable_browser_def)
  have f: "fetch disconnected_browser request = FetchError (js ''Failed to fetch'')" for request
    by (simp add: disconnected_browser_def)
  show ?thesis
    using transform_upstream_failure [of unavailable_env new_TextTransformAPI "js ''Hello''"
        "js ''Shorten''" no_params disconnected_browser "new_browser_TextTransformAPI None"
        no_browser_params]
      transform_upstream_failure [of unavailable_env new_TextTransformAPI "js ''Hello''"
        "js ''Shorten''" no_params unavailable_browser "new_browser_TextTransformAPI None"
        no_browser_params]
      u c d s f
    by auto
qed

text \<open>
  C8, as stated, fails: the text of a successful result is whatever the provider returned,
  trimmed. For the input \<open>Draft notes about Q3 sales\<close> and the action REFINE, a provider
  that returns the input gives \<open>success = true\<close> with a \<open>transformedText\<close> equal to the
  input, and one that returns blanks gives \<open>success = true\<close> with an empty
  \<open>transformedText\<close>.
\<close>

theorem successful_transform_echo_or_empty:
  "fst (refine echo_env new_TextTransformAPI (js ''Draft notes about Q3 sales'') no_params)
     = Fulfilled \<lparr>success = True, error = None, originalText = js ''Draft notes about Q3 sales'',
                  transformedText = Some (js ''Draft notes about Q3 sales''),
                  result_instruction = refine_instruction,
                  result_model = Some (js ''claude-sonnet-4-5-20250929''),
                  timestamp = sample_time\<rparr>
   \<and> fst (refine blank_env new_TextTransformAPI (js ''Draft notes about Q3 sales'') no_params)
     = Fulfilled \<lparr>success = True, error = None, originalText = js ''Draft notes about Q3 sales'',
                  transformedText = Some [],
                  result_instruction = refine_instruction,
                  result_model = Some (js ''claude-sonnet-4-5-20250929''),
                  timestamp = sample_time\<rparr>"
  by (simp add: refine_def transform_def echo_env_def blank_env_def new_TextTransformAPI_def
      trim_def isWhiteSpace_def js_def)

text \<open>
  C8, amended: when the provider returns a message of which the first content block has a
  text, the result has \<open>success = true\<close>, \<open>transformedText\<close> is that text trimmed (it
  may be empty, and it may equal the input), and \<open>model\<close> is the current model of the
  instance at the time of the call.
\<close>

theorem successful_transform_result:
  assumes "create env (create_request this input instr ps) = Message (Some t # blocks)"
  shows "\<exists>r. fst (transform env this input instr ps) = Fulfilled r
           \<and> success r \<and> originalText r = input \<and> transformedText r = Some (trim t)
           \<and> result_model r = Some (model this)"
  using assms by (simp add: transform_def)

theorem successful_transform_result_witness:
  "\<exists>r. fst (transform sample_env new_TextTransformAPI (js ''Draft notes about Q3 sales'')
             refine_instruction (no_params\<lparr>systemPrompt := Some (js ''refine'')\<rparr>)) = Fulfilled r
       \<and> success r \<and> originalText r = js ''Draft notes about Q3 sales''
       \<and> transformedText r = Some (js ''Polished text.'')
       \<and> result_model r = Some (js ''claude-sonnet-4-5-20250929'')"
proof -
  have t: "trim (js '' Polished text. '') = js ''Polished text.''"
    by (simp add: trim_def isWhiteSpace_def js_def)
  have m: "model new_TextTransformAPI = js ''claude-sonnet-4-5-20250929''"
    by (simp add: new_TextTransformAPI_def)
  have c: "create sample_env
             (create_request new_TextTransformAPI (js ''Draft notes about Q3 sales'')
                refine_instruction (no_params\<lparr>systemPrompt := Some (js ''refine'')\<rparr>))
           = Message (Some (js '' Polished text. '') # [])"
    by (simp add: sample_env_def)
  show ?thesis
    using successful_transform_result [OF c] by (simp only: t m)
qed

lemma successful_only_with_text:
  assumes "fst (transform env this input instr ps) = Fulfilled r" and "success r"
  shows "\<exists>t blocks. create env (create_request this input instr ps) = Message (Some t # blocks)"
  using assms
  by (auto simp: transform_def transform_failure_def Let_def
      split: create_outcome.splits list.splits option.splits)

section \<open>The prompt builder\<close>

lemma template_heads_distinct:
  "articulate_system_head \<noteq> refine_system_head"
  "articulate_system_head \<noteq> edit_system_head"
  "refine_system_head \<noteq> edit_system_head"
  by (simp_all add: articulate_system_head_def refine_system_head_def edit_system_head_def js_def)




text \<open>
  C6, as stated, fails. With a style-guide object of which the \<open>conciseGuide\<close> member is
  the empty string (what style-guide generation returns when the response has no concise
  section), REFINE gets the comprehensive guide. Without one of the system prompts
  \<open>articulate\<close>, \<open>refine\<close>, \<open>edit\<close> (a custom transformation), the system prompt is
  the default template and has no style-guide block.
\<close>

theorem style_guide_variant_exceptions:
  "build_systemPrompt (no_params\<lparr>styleGuide := Some guide_with_empty_concise,
                                  systemPrompt := Some (js ''refine'')\<rparr>)
     = refine_system_head @ refine_style_head @ js ''LONG GUIDE'' @ style_guide_tail
       @ refine_system_tail
   \<and> build_systemPrompt (no_params\<lparr>styleGuide := Some guide_with_both\<rparr>) = default_system"
  by (simp add: build_systemPrompt_def selectedStyleGuide_def style_guide_block_def truthy_def
      no_params_def guide_with_empty_concise_def guide_with_both_def js_def)

text \<open>
  C6, amended: for every transform request that carries a style-guide object with a
  non-empty \<open>comprehensiveGuide\<close>, the system prompt of the one request sent to the
  provider has the style-guide block of its template: with the comprehensive guide for
  ARTICULATE; for REFINE and EDIT with the concise guide when that is a non-empty string,
  and with the comprehensive guide otherwise. Any other prompt kind gets the default
  template, without a style-guide block. This holds for \<open>transform\<close> of
  \<open>src/api.js\<close> and for that of its revision, with the templates of each.
\<close>

theorem style_guide_variant:
  assumes "styleGuide ps = Some (GuideObject (Some comprehensive) concise legacy)"
    and "comprehensive \<noteq> []"
  shows "snd (transform env this input instr ps) = [create_request this input instr ps]
       \<and> (systemPrompt ps = Some (js ''articulate'') \<longrightarrow>
           req_system (create_request this input instr ps)
             = articulate_system_head @ articulate_style_head @ comprehensive @ style_guide_tail
               @ articulate_system_tail)
       \<and> (systemPrompt ps = Some (js ''refine'') \<longrightarrow>
           req_system (create_request this input instr ps)
             = refine_system_head @ refine_style_head
               @ (if truthy concise then the concise else comprehensive) @ style_guide_tail
               @ refine_system_tail)
       \<and> (systemPrompt ps = Some (js ''edit'') \<longrightarrow>
           req_system (create_request this input instr ps)
             = edit_system_head @ edit_style_head
               @ (if truthy concise then the concise else comprehensive) @ style_guide_tail
               @ edit_system_tail)
       \<and> (systemPrompt ps \<notin> {Some (js ''articulate''), Some (js ''refine''), Some (js ''edit'')} \<longrightarrow>
           req_system (create_request this input instr ps) = default_system)
       \<and> snd (revised_transform env this input instr ps)
           = [revised_create_request this input instr ps]
       \<and> (systemPrompt ps = Some (js ''articulate'') \<longrightarrow>
           req_system (revised_create_request this input instr ps)
             = revised_articulate_system_head @ json_mode_block revised_articulate_json_mode ps
               @ revised_articulate_principles
               @ articulate_style_head @ comprehensive @ style_guide_tail
               @ revised_articulate_system_tail)
       \<and> (systemPrompt ps = Some (js ''refine'') \<longrightarrow>
           req_system (revised_create_request this input instr ps)
             = revised_refine_system_head @ json_mode_block revised_refine_json_mode ps
               @ revised_refine_principles
               @ refine_style_head
               @ (if truthy concise then the concise else comprehensive) @ style_guide_tail
               @ revised_refine_system_tail)
       \<and> (systemPrompt ps = Some (js ''edit'') \<longrightarrow>
           req_system (revised_create_request this input instr ps)
             = revised_edit_system_head @ json_mode_block revised_edit_json_mode ps
               @ revised_edit_principles
               @ edit_style_head
               @ (if truthy concise then the concise else comprehensive) @ style_guide_tail
               @ revised_edit_system_tail)
       \<and> (systemPrompt ps \<notin> {Some (js ''articulate''), Some (js ''refine''), Some (js ''edit'')} \<longrightarrow>
           req_system (revised_create_request this input instr ps) = revised_default_system)"
proof -
  have selected: "selectedStyleGuide ps
      = (if systemPrompt ps = Some (js ''articulate'') then Some comprehensive
         else if truthy concise then concise else Some comprehensive)"
    using assms by (simp add: selectedStyleGuide_def truthy_def)
  have block: "style_guide_block h (selectedStyleGuide ps)
      = h @ (if systemPrompt ps = Some (js ''articulate'') then comprehensive
             else if truthy concise then the concise else comprehensive) @ style_guide_tail"
    for h
    using assms(2) by (auto simp: selected style_guide_block_def truthy_def split: option.splits)
  have kinds: "js ''refine'' \<noteq> js ''articulate''" "js ''edit'' \<noteq> js ''articulate''"
    "js ''edit'' \<noteq> js ''refine''"
    by (simp_all add: js_def)
  have original: "req_system (create_request this input instr ps) = build_systemPrompt ps"
    by (simp add: create_request_def)
  have revised: "req_system (revised_create_request this input instr ps)
      = revised_build_systemPrompt ps"
    by (simp add: revised_create_request_def)
  have calls: "snd (revised_transform env this input instr ps)
      = [revised_create_request this input instr ps]"
    by (simp add: revised_transform_def Let_def
        split: create_outcome.split list.split option.split)
  show ?thesis
    unfolding original revised
    using transform_calls [of env "this" input instr ps] calls kinds
    by (auto simp: build_systemPrompt_def revised_build_systemPrompt_def block)
qed

theorem style_guide_variant_witness:
  "req_system (create_request new_TextTransformAPI (js ''Hello'') articulate_instruction
      (no_params\<lparr>styleGuide := Some guide_with_both, systemPrompt := Some (js ''articulate'')\<rparr>))
     = articulate_system_head @ articulate_style_head @ js ''LONG GUIDE'' @ style_guide_tail
       @ articulate_system_tail
   \<and> req_system (create_request new_TextTransformAPI (js ''Hello'') refine_instruction
      (no_params\<lparr>styleGuide := Some guide_with_both, systemPrompt := Some (js ''refine'')\<rparr>))
     = refine_system_head @ refine_style_head @ js ''SHORT GUIDE'' @ style_guide_tail
       @ refine_system_tail
   \<and> req_system (create_request new_TextTransformAPI (js ''Hello'') (js ''Shorten'')
      (no_params\<lparr>styleGuide := Some guide_with_both, systemPrompt := Some (js ''edit'')\<rparr>))
     = edit_system_head @ edit_style_head @ js ''SHORT GUIDE'' @ style_guide_tail
       @ edit_system_tail
   \<and> req_system (create_request new_TextTransformAPI (js ''Hello'') (js ''Shorten'')
      (no_params\<lparr>styleGuide := Some guide_with_both\<rparr>))
     = default_system
   \<and> req_system (revised_create_request new_TextTransformAPI (js ''Hello'') refine_instruction
      (no_params\<lparr>styleGuide := Some guide_with_both, systemPrompt := Some (js ''refine'')\<rparr>))
     = revised_refine_system_head @ revised_refine_principles
       @ refine_style_head @ js ''SHORT GUIDE'' @ style_guide_tail
       @ revised_refine_system_tail"
proof -
  have g: "Some guide_with_both
      = Some (GuideObject (Some (js ''LONG GUIDE'')) (Some (js ''SHORT GUIDE'')) None)"
    by (simp add: guide_with_both_def)
  have n: "js ''LONG GUIDE'' \<noteq> []" by (simp add: js_def)
  have k: "truthy (Some (js ''SHORT GUIDE''))" by (simp add: truthy_def js_def)
  have d: "None \<notin> {Some (js ''articulate''), Some (js ''refine''), Some (js ''edit'')}"
    by simp
  show ?thesis
    using style_guide_variant [of "no_params\<lparr>styleGuide := Some guide_with_both,
          systemPrompt := Some (js ''articulate'')\<rparr>" "js ''LONG GUIDE''"
          "Some (js ''SHORT GUIDE'')" None sample_env new_TextTransformAPI "js ''Hello''"
          articulate_instruction]
      style_guide_variant [of "no_params\<lparr>styleGuide := Some guide_with_both,
          systemPrompt := Some (js ''refine'')\<rparr>" "js ''LONG GUIDE''"
          "Some (js ''SHORT GUIDE'')" None sample_env new_TextTransformAPI "js ''Hello''"
          refine_instruction]
      style_guide_variant [of "no_params\<lparr>styleGuide := Some guide_with_both,
          systemPrompt := Some (js ''edit'')\<rparr>" "js ''LONG GUIDE''"
          "Some (js ''SHORT GUIDE'')" None sample_env new_TextTransformAPI "js ''Hello''"
          "js ''Shorten''"]
      style_guide_variant [of "no_params\<lparr>styleGuide := Some guide_with_both\<rparr>"
          "js ''LONG GUIDE''" "Some (js ''SHORT GUIDE'')" None sample_env new_TextTransformAPI
          "js ''Hello''" "js ''Shorten''"]
      g n k d
    by (simp add: no_params_def json_mode_block_def)
qed

section \<open>Style-guide generation\<close>

subsection \<open>The regular expressions\<close>

lemma run_Lazy_Nil: "run (Lazy # items) [] opened cap = run items [] opened cap"
  by (cases "run items [] opened cap") simp_all

lemma run_Lazy_Cons:
  "run (Lazy # items) (c # s) opened cap
   = (case run items (c # s) opened cap of
        Some r \<Rightarrow> Some r
      | None \<Rightarrow> run (Lazy # items) s opened cap)"
  by (simp split: option.split)

lemma Cons_eq_append_tl: "c # s = p @ r \<Longrightarrow> p \<noteq> [] \<Longrightarrow> s = tl p @ r"
  by (cases p) auto

lemma startsWith_Nil: "p \<noteq> [] \<Longrightarrow> \<not> startsWith [] p"
  by (cases p) simp_all

declare run.simps(3) [simp del]

lemma lazy_group_ahead:
  "run [Lazy, Close, AheadOrEnd p] s (pre @ s) cap = Some (Some (pre @ before_first p s))"
proof (induction s arbitrary: pre)
  case Nil
  then show ?case by (simp add: run_Lazy_Nil)
next
  case (Cons c s)
  show ?case
  proof (cases "startsWith (c # s) p")
    case True
    then show ?thesis by (simp add: run_Lazy_Cons)
  next
    case False
    have "run [Lazy, Close, AheadOrEnd p] s ((pre @ [c]) @ s) cap
        = Some (Some ((pre @ [c]) @ before_first p s))"
      by (rule Cons.IH)
    with False show ?thesis by (simp add: run_Lazy_Cons)
  qed
qed

lemma lazy_group_end:
  "run [Lazy, Close, End] s (pre @ s) cap = Some (Some (pre @ s))"
proof (induction s arbitrary: pre)
  case Nil
  then show ?case by (simp add: run_Lazy_Nil)
next
  case (Cons c s)
  have "run [Lazy, Close, End] s ((pre @ [c]) @ s) cap = Some (Some ((pre @ [c]) @ s))"
    by (rule Cons.IH)
  then show ?case by (simp add: run_Lazy_Cons)
qed

lemma group_ahead:
  "run [Open, Lazy, Close, AheadOrEnd p] s opened cap = Some (Some (before_first p s))"
  using lazy_group_ahead [of p s "[]" cap] by simp

lemma group_end:
  "run [Open, Lazy, Close, End] s opened cap = Some (Some s)"
  using lazy_group_end [of s "[]" cap] by simp

lemma header_ahead:
  "run [Lazy, Literal q, Open, Lazy, Close, AheadOrEnd p] s opened cap
   = (case after_first q s of None \<Rightarrow> None | Some r \<Rightarrow> Some (Some (before_first p r)))"
proof (induction s)
  case Nil
  show ?case using group_ahead [of p "[]"] by (cases q) (simp_all add: run_Lazy_Nil)
next
  case (Cons c s)
  show ?case
  proof (cases "startsWith (c # s) q")
    case True
    then show ?thesis
      using group_ahead [of p "drop (length q) (c # s)"] by (simp add: run_Lazy_Cons)
  next
    case False
    then show ?thesis using Cons.IH by (simp add: run_Lazy_Cons)
  qed
qed

lemma header_end:
  "run [Lazy, Literal q, Open, Lazy, Close, End] s opened cap
   = (case after_first q s of None \<Rightarrow> None | Some r \<Rightarrow> Some (Some r))"
proof (induction s)
  case Nil
  show ?case using group_end [of "[]"] by (cases q) (simp_all add: run_Lazy_Nil)
next
  case (Cons c s)
  show ?case
  proof (cases "startsWith (c # s) q")
    case True
    then show ?thesis
      using group_end [of "drop (length q) (c # s)"] by (simp add: run_Lazy_Cons)
  next
    case False
    then show ?thesis using Cons.IH by (simp add: run_Lazy_Cons)
  qed
qed

lemma run_comprehensive:
  "run comprehensive_regex s opened cap
   = (if startsWith s comprehensive_marker
      then (case after_first closing_marker (drop (length comprehensive_marker) s) of
              None \<Rightarrow> None | Some r \<Rightarrow> Some (Some (before_first concise_marker r)))
      else None)"
  by (simp add: comprehensive_regex_def header_ahead)

lemma run_concise:
  "run concise_regex s opened cap
   = (if startsWith s concise_marker
      then (case after_first closing_marker (drop (length concise_marker) s) of
              None \<Rightarrow> None | Some r \<Rightarrow> Some (Some r))
      else None)"
  by (simp add: concise_regex_def header_end)

lemma comprehensive_after_own_tail:
  "after_first comprehensive_marker (tl comprehensive_marker @ r)
   = after_first comprehensive_marker r"
  by (simp add: comprehensive_marker_def js_def)

lemma concise_after_own_tail:
  "after_first concise_marker (tl concise_marker @ r) = after_first concise_marker r"
  by (simp add: concise_marker_def js_def)

lemma comprehensive_has_closing:
  "\<exists>rest. comprehensive_marker = closing_marker @ rest"
  by (simp add: comprehensive_marker_def closing_marker_def js_def)

lemma concise_has_closing:
  "\<exists>rest. concise_marker = closing_marker @ rest"
  by (simp add: concise_marker_def closing_marker_def js_def)

lemma no_closing_no_comprehensive:
  assumes "after_first closing_marker r = None"
  shows "after_first comprehensive_marker r = None"
proof (rule ccontr)
  assume "after_first comprehensive_marker r \<noteq> None"
  then obtain r' where "after_first comprehensive_marker r = Some r'" by auto
  then obtain a where "r = a @ comprehensive_marker @ r'" using after_first_Some by blast
  moreover obtain rest where "comprehensive_marker = closing_marker @ rest"
    using comprehensive_has_closing by blast
  ultimately have "r = a @ closing_marker @ (rest @ r')" by simp
  then show False using assms after_first_None_iff by blast
qed

lemma no_closing_no_concise:
  assumes "after_first closing_marker r = None"
  shows "after_first concise_marker r = None"
proof (rule ccontr)
  assume "after_first concise_marker r \<noteq> None"
  then obtain r' where "after_first concise_marker r = Some r'" by auto
  then obtain a where "r = a @ concise_marker @ r'" using after_first_Some by blast
  moreover obtain rest where "concise_marker = closing_marker @ rest"
    using concise_has_closing by blast
  ultimately have "r = a @ closing_marker @ (rest @ r')" by simp
  then show False using assms after_first_None_iff by blast
qed

lemma comprehensive_marker_nonempty: "comprehensive_marker \<noteq> []"
  by (simp add: comprehensive_marker_def js_def)

lemma concise_marker_nonempty: "concise_marker \<noteq> []"
  by (simp add: concise_marker_def js_def)

lemma search_comprehensive:
  "search comprehensive_regex s = map_option Some (comprehensive_section s)"
proof (induction s)
  case Nil
  show ?case
    using comprehensive_marker_nonempty startsWith_Nil [of comprehensive_marker]
    by (simp add: run_comprehensive comprehensive_section_def)
next
  case (Cons c s)
  show ?case
  proof (cases "startsWith (c # s) comprehensive_marker")
    case False
    then show ?thesis
      using Cons.IH by (simp add: run_comprehensive comprehensive_section_def)
  next
    case True
    let ?r = "drop (length comprehensive_marker) (c # s)"
    have first: "after_first comprehensive_marker (c # s) = Some ?r" using True by simp
    show ?thesis
    proof (cases "after_first closing_marker ?r")
      case (Some g)
      then show ?thesis
        using True first by (simp add: run_comprehensive comprehensive_section_def)
    next
      case None
      have whole: "c # s = comprehensive_marker @ ?r" using True startsWith_drop by fastforce
      then have "s = tl comprehensive_marker @ ?r"
        using comprehensive_marker_nonempty by (rule Cons_eq_append_tl)
      then have "after_first comprehensive_marker s = after_first comprehensive_marker ?r"
        using comprehensive_after_own_tail [of ?r] by simp
      then have "after_first comprehensive_marker s = None"
        using no_closing_no_comprehensive [OF None] by simp
      then have later: "comprehensive_section s = None"
        by (simp add: comprehensive_section_def)
      have here: "comprehensive_section (c # s) = None"
        using first None by (simp add: comprehensive_section_def)
      have "run comprehensive_regex (c # s) (c # s) None = None"
        using True None by (simp add: run_comprehensive)
      then show ?thesis using Cons.IH later here by simp
    qed
  qed
qed

lemma search_concise:
  "search concise_regex s = map_option Some (concise_section s)"
proof (induction s)
  case Nil
  show ?case
    using concise_marker_nonempty startsWith_Nil [of concise_marker]
    by (simp add: run_concise concise_section_def)
next
  case (Cons c s)
  show ?case
  proof (cases "startsWith (c # s) concise_marker")
    case False
    then show ?thesis
      using Cons.IH by (simp add: run_concise concise_section_def)
  next
    case True
    let ?r = "drop (length concise_marker) (c # s)"
    have first: "after_first concise_marker (c # s) = Some ?r" using True by simp
    show ?thesis
    proof (cases "after_first closing_marker ?r")
      case (Some g)
      then show ?thesis
        using True first by (simp add: run_concise concise_section_def)
    next
      case None
      have whole: "c # s = concise_marker @ ?r" using True startsWith_drop by fastforce
      then have "s = tl concise_marker @ ?r"
        using concise_marker_nonempty by (rule Cons_eq_append_tl)
      then have "after_first concise_marker s = after_first concise_marker ?r"
        using concise_after_own_tail [of ?r] by simp
      then have "after_first concise_marker s = None"
        using no_closing_no_concise [OF None] by simp
      then have later: "concise_section s = None"
        by (simp add: concise_section_def)
      have here: "concise_section (c # s) = None"
        using first None by (simp add: concise_section_def)
      have "run concise_regex (c # s) (c # s) None = None"
        using True None by (simp add: run_concise)
      then show ?thesis using Cons.IH later here by simp
    qed
  qed
qed

text \<open>The matcher computes the sections.\<close>

lemma comprehensiveMatch_section: "comprehensiveMatch s = comprehensive_section s"
  by (cases "comprehensive_section s")
    (simp_all add: comprehensiveMatch_def search_comprehensive first_group_def)

lemma conciseMatch_section: "conciseMatch s = concise_section s"
  by (cases "concise_section s")
    (simp_all add: conciseMatch_def search_concise first_group_def)

subsection \<open>The parsed guides\<close>

lemma comprehensiveMatch_None:
  assumes "\<not> (\<exists>a b. s = a @ comprehensive_marker @ b)"
  shows "comprehensiveMatch s = None"
proof -
  have "after_first comprehensive_marker s = None"
    using assms by (simp add: after_first_None_iff)
  then show ?thesis by (simp add: comprehensiveMatch_section comprehensive_section_def)
qed

lemma conciseMatch_None:
  assumes "\<not> (\<exists>a b. s = a @ concise_marker @ b)"
  shows "conciseMatch s = None"
proof -
  have "after_first concise_marker s = None"
    using assms by (simp add: after_first_None_iff)
  then show ?thesis by (simp add: conciseMatch_section concise_section_def)
qed

lemma comprehensiveMatch_Some:
  assumes "comprehensiveMatch s = Some g"
  shows "\<exists>a b rest. s = a @ comprehensive_marker @ b @ closing_marker @ g @ rest
           \<and> (rest = [] \<or> startsWith rest concise_marker)"
proof -
  from assms obtain r1 r2 where
    1: "after_first comprehensive_marker s = Some r1" and
    2: "after_first closing_marker r1 = Some r2" and
    3: "g = before_first concise_marker r2"
    by (auto simp: comprehensiveMatch_section comprehensive_section_def split: option.splits)
  from 1 obtain a where a: "s = a @ comprehensive_marker @ r1" using after_first_Some by blast
  from 2 obtain b where b: "r1 = b @ closing_marker @ r2" using after_first_Some by blast
  obtain rest where r: "r2 = g @ rest" "rest = [] \<or> startsWith rest concise_marker"
    using before_first_split [of r2 concise_marker] 3 by auto
  from a b r show ?thesis by auto
qed

lemma conciseMatch_Some:
  assumes "conciseMatch s = Some g"
  shows "\<exists>a b. s = a @ concise_marker @ b @ closing_marker @ g"
proof -
  from assms obtain r1 where
    1: "after_first concise_marker s = Some r1" and
    2: "after_first closing_marker r1 = Some g"
    by (auto simp: conciseMatch_section concise_section_def split: option.splits)
  from 1 obtain a where a: "s = a @ concise_marker @ r1" using after_first_Some by blast
  from 2 obtain b where b: "r1 = b @ closing_marker @ g" using after_first_Some by blast
  from a b show ?thesis by auto
qed

lemma comprehensive_marker_Cons: "comprehensive_marker = 0x3D # tl comprehensive_marker"
  by (simp add: comprehensive_marker_def js_def)

lemma concise_marker_Cons: "concise_marker = 0x3D # tl concise_marker"
  by (simp add: concise_marker_def js_def)

lemma closing_marker_Cons: "closing_marker = 0x3D # tl closing_marker"
  by (simp add: closing_marker_def js_def)

lemma concise_after_comprehensive:
  "after_first concise_marker (comprehensive_marker @ s) = after_first concise_marker s"
  by (simp add: comprehensive_marker_def concise_marker_def js_def)

lemma concise_after_closing_newline:
  "after_first concise_marker (closing_marker @ 0xA # s) = after_first concise_marker s"
  by (simp add: closing_marker_def concise_marker_def js_def)

text \<open>
  A response in the format that the system prompt asks for: two header lines, each from
  its marker to a closing \<open>===\<close> and a line break, and no other equals sign.
\<close>

lemma well_formed_comprehensive:
  assumes "0x3D \<notin> set a" and "0x3D \<notin> set b" and "0x3D \<notin> set g"
  shows "comprehensiveMatch
           (a @ comprehensive_marker @ b @ closing_marker @ (0xA # g) @ concise_marker @ rest)
         = Some (0xA # g)"
proof -
  have 1: "after_first comprehensive_marker
             (a @ comprehensive_marker @ b @ closing_marker @ (0xA # g) @ concise_marker @ rest)
           = Some (b @ closing_marker @ (0xA # g) @ concise_marker @ rest)"
    using assms(1) after_first_skip [of "0x3D" a "tl comprehensive_marker"]
      after_first_here [of "0x3D" "tl comprehensive_marker"] comprehensive_marker_Cons
    by metis
  have 2: "after_first closing_marker (b @ closing_marker @ (0xA # g) @ concise_marker @ rest)
           = Some ((0xA # g) @ concise_marker @ rest)"
    using assms(2) after_first_skip [of "0x3D" b "tl closing_marker"]
      after_first_here [of "0x3D" "tl closing_marker"] closing_marker_Cons
    by metis
  have "0x3D \<notin> set (0xA # g)" using assms(3) by simp
  then have 3: "before_first concise_marker ((0xA # g) @ concise_marker @ rest) = 0xA # g"
    using before_first_skip [of "0x3D" "0xA # g" "tl concise_marker" "concise_marker @ rest"]
      before_first_here [of "0x3D" "tl concise_marker" rest] concise_marker_Cons
    by (metis append_Nil2)
  show ?thesis
    by (simp only: comprehensiveMatch_section comprehensive_section_def 1 2 3 option.case)
qed

lemma well_formed_concise:
  assumes "0x3D \<notin> set a" and "0x3D \<notin> set b" and "0x3D \<notin> set g" and "0x3D \<notin> set b'"
  shows "conciseMatch
           (a @ comprehensive_marker @ b @ closing_marker @ (0xA # g) @ concise_marker
            @ b' @ closing_marker @ g')
         = Some g'"
proof -
  have "after_first concise_marker
           (a @ comprehensive_marker @ b @ closing_marker @ (0xA # g) @ concise_marker
            @ b' @ closing_marker @ g')
        = after_first concise_marker
           (comprehensive_marker @ b @ closing_marker @ (0xA # g) @ concise_marker
            @ b' @ closing_marker @ g')"
    using assms(1) after_first_skip [of "0x3D" a "tl concise_marker"] concise_marker_Cons by metis
  also have "\<dots> = after_first concise_marker
           (b @ closing_marker @ (0xA # g) @ concise_marker @ b' @ closing_marker @ g')"
    by (rule concise_after_comprehensive)
  also have "\<dots> = after_first concise_marker
           (closing_marker @ (0xA # g) @ concise_marker @ b' @ closing_marker @ g')"
    using assms(2) after_first_skip [of "0x3D" b "tl concise_marker"] concise_marker_Cons by metis
  also have "\<dots> = after_first concise_marker (g @ concise_marker @ b' @ closing_marker @ g')"
    using concise_after_closing_newline [of "g @ concise_marker @ b' @ closing_marker @ g'"] by simp
  also have "\<dots> = after_first concise_marker (concise_marker @ b' @ closing_marker @ g')"
    using assms(3) after_first_skip [of "0x3D" g "tl concise_marker"] concise_marker_Cons by metis
  also have "\<dots> = Some (b' @ closing_marker @ g')"
    using after_first_here [of "0x3D" "tl concise_marker"] concise_marker_Cons by metis
  finally have 1: "after_first concise_marker
           (a @ comprehensive_marker @ b @ closing_marker @ (0xA # g) @ concise_marker
            @ b' @ closing_marker @ g') = Some (b' @ closing_marker @ g')" .
  have 2: "after_first closing_marker (b' @ closing_marker @ g') = Some g'"
    using assms(4) after_first_skip [of "0x3D" b' "tl closing_marker"]
      after_first_here [of "0x3D" "tl closing_marker"] closing_marker_Cons
    by metis
  show ?thesis by (simp only: conciseMatch_section concise_section_def 1 2 option.case)
qed

text \<open>
  The first occurrence of a pattern, which \<open>first_at\<close> describes, is what
  \<open>after_first\<close> and \<open>before_first\<close> compute: it exists whenever the pattern occurs,
  and it is unique.
\<close>

lemma first_at_after_first:
  "first_at pat s a r \<Longrightarrow> after_first pat s = Some r"
proof (induction s arbitrary: a)
  case Nil
  then show ?case by (simp add: first_at_def)
next
  case (Cons c s)
  from Cons.prems have whole: "c # s = a @ pat @ r"
    and least: "\<And>b x. c # s = b @ pat @ x \<Longrightarrow> length a \<le> length b"
    by (auto simp: first_at_def)
  show ?case
  proof (cases "startsWith (c # s) pat")
    case True
    then have "c # s = [] @ pat @ drop (length pat) (c # s)"
      using startsWith_drop [of "c # s" pat] by simp
    then have "length a \<le> length ([] :: jsstring)" by (rule least)
    then have "a = []" by simp
    with whole have "drop (length pat) (c # s) = r" by simp
    with True show ?thesis by simp
  next
    case False
    have "a \<noteq> []"
    proof
      assume "a = []"
      with whole have "startsWith (c # s) pat" by (simp add: startsWith_iff)
      with False show False by simp
    qed
    then obtain a' where a: "a = c # a'" and s: "s = a' @ pat @ r"
      using whole by (cases a) auto
    have "first_at pat s a' r"
      unfolding first_at_def
    proof (intro conjI allI impI)
      show "s = a' @ pat @ r" by (rule s)
    next
      fix b x
      assume "s = b @ pat @ x"
      then have "c # s = (c # b) @ pat @ x" by simp
      then have "length a \<le> length (c # b)" by (rule least)
      with a show "length a' \<le> length b" by simp
    qed
    then have "after_first pat s = Some r" by (rule Cons.IH)
    with False show ?thesis by simp
  qed
qed

lemma after_first_first_at:
  "after_first pat s = Some r \<Longrightarrow> \<exists>a. first_at pat s a r"
proof (induction s)
  case Nil
  then show ?case by (auto simp: first_at_def split: if_splits)
next
  case (Cons c s)
  show ?case
  proof (cases "startsWith (c # s) pat")
    case True
    with Cons.prems have r: "r = drop (length pat) (c # s)" by simp
    with True have "c # s = [] @ pat @ r" using startsWith_drop [of "c # s" pat] by simp
    then have "first_at pat (c # s) [] r" by (simp add: first_at_def)
    then show ?thesis by blast
  next
    case False
    with Cons.prems have "after_first pat s = Some r" by simp
    then obtain a where a: "first_at pat s a r" using Cons.IH by blast
    then have s: "s = a @ pat @ r"
      and least: "\<And>b x. s = b @ pat @ x \<Longrightarrow> length a \<le> length b"
      by (auto simp: first_at_def)
    have "first_at pat (c # s) (c # a) r"
      unfolding first_at_def
    proof (intro conjI allI impI)
      show "c # s = (c # a) @ pat @ r" using s by simp
    next
      fix b x
      assume w: "c # s = b @ pat @ x"
      have "b \<noteq> []"
      proof
        assume "b = []"
        with w have "startsWith (c # s) pat" by (simp add: startsWith_iff)
        with False show False by simp
      qed
      then obtain b' where b: "b = c # b'" and "s = b' @ pat @ x"
        using w by (cases b) auto
      then have "length a \<le> length b'" using least by blast
      with b show "length (c # a) \<le> length b" by simp
    qed
    then show ?thesis by blast
  qed
qed

lemma first_at_found:
  assumes "after_first pat s = Some r" and "s = a @ pat @ r"
  shows "first_at pat s a r"
proof -
  from assms(1) obtain a' where a': "first_at pat s a' r" using after_first_first_at by blast
  then have "s = a' @ pat @ r" by (simp add: first_at_def)
  with assms(2) have "a' = a" by simp
  with a' show ?thesis by simp
qed

lemma first_at_unique:
  assumes "first_at pat s a r" and "first_at pat s a' r'"
  shows "a = a' \<and> r = r'"
proof -
  have "after_first pat s = Some r" "after_first pat s = Some r'"
    using assms first_at_after_first by blast+
  then have r: "r = r'" by simp
  from assms have "s = a @ pat @ r" "s = a' @ pat @ r'" by (simp_all add: first_at_def)
  with r have "a = a'" by simp
  with r show ?thesis by simp
qed

lemma first_at_exists:
  assumes "s = a @ pat @ b"
  shows "\<exists>a r. first_at pat s a r"
proof -
  obtain r where "after_first pat s = Some r"
    using after_first_occurs [of pat a b] assms by auto
  then show ?thesis using after_first_first_at by blast
qed

lemma before_first_absent:
  "\<not> (\<exists>c d. g = c @ pat @ d) \<Longrightarrow> before_first pat g = g"
proof (induction g)
  case Nil
  then show ?case by simp
next
  case (Cons x g)
  have n: "\<not> startsWith (x # g) pat"
  proof
    assume "startsWith (x # g) pat"
    then obtain d where "x # g = [] @ pat @ d" by (auto simp: startsWith_iff)
    with Cons.prems show False by blast
  qed
  have "\<not> (\<exists>c d. g = c @ pat @ d)"
  proof
    assume "\<exists>c d. g = c @ pat @ d"
    then obtain c d where "g = c @ pat @ d" by blast
    then have "x # g = (x # c) @ pat @ d" by simp
    with Cons.prems show False by blast
  qed
  then have "before_first pat g = g" by (rule Cons.IH)
  with n show ?case by simp
qed

lemma before_first_first_at:
  "first_at pat g c d \<Longrightarrow> before_first pat g = c"
proof (induction g arbitrary: c)
  case Nil
  then show ?case by (simp add: first_at_def)
next
  case (Cons x g)
  from Cons.prems have whole: "x # g = c @ pat @ d"
    and least: "\<And>b y. x # g = b @ pat @ y \<Longrightarrow> length c \<le> length b"
    by (auto simp: first_at_def)
  show ?case
  proof (cases "startsWith (x # g) pat")
    case True
    then have "x # g = [] @ pat @ drop (length pat) (x # g)"
      using startsWith_drop [of "x # g" pat] by simp
    then have "length c \<le> length ([] :: jsstring)" by (rule least)
    then have "c = []" by simp
    with True show ?thesis by simp
  next
    case False
    have "c \<noteq> []"
    proof
      assume "c = []"
      with whole have "startsWith (x # g) pat" by (simp add: startsWith_iff)
      with False show False by simp
    qed
    then obtain c' where c: "c = x # c'" and g: "g = c' @ pat @ d"
      using whole by (cases c) auto
    have "first_at pat g c' d"
      unfolding first_at_def
    proof (intro conjI allI impI)
      show "g = c' @ pat @ d" by (rule g)
    next
      fix b y
      assume "g = b @ pat @ y"
      then have "x # g = (x # b) @ pat @ y" by simp
      then have "length c \<le> length (x # b)" by (rule least)
      with c show "length c' \<le> length b" by simp
    qed
    then have "before_first pat g = c'" by (rule Cons.IH)
    with False c show ?thesis by simp
  qed
qed

text \<open>
  The sections, case by case, in terms of first occurrences. The cases are exhaustive
  and exclusive.
\<close>

lemma comprehensive_section_cases:
  "(\<not> (\<exists>a b. s = a @ comprehensive_marker @ b) \<longrightarrow> comprehensive_section s = None)
   \<and> (\<forall>a rest. first_at comprehensive_marker s a rest
          \<and> \<not> (\<exists>b g. rest = b @ closing_marker @ g) \<longrightarrow> comprehensive_section s = None)
   \<and> (\<forall>a rest b g. first_at comprehensive_marker s a rest \<and> first_at closing_marker rest b g
          \<and> \<not> (\<exists>c d. g = c @ concise_marker @ d) \<longrightarrow> comprehensive_section s = Some g)
   \<and> (\<forall>a rest b g c d. first_at comprehensive_marker s a rest
          \<and> first_at closing_marker rest b g \<and> first_at concise_marker g c d
          \<longrightarrow> comprehensive_section s = Some c)"
proof (intro conjI allI impI)
  assume "\<not> (\<exists>a b. s = a @ comprehensive_marker @ b)"
  then have "after_first comprehensive_marker s = None" by (simp add: after_first_None_iff)
  then show "comprehensive_section s = None" by (simp add: comprehensive_section_def)
next
  fix a rest
  assume h: "first_at comprehensive_marker s a rest
      \<and> \<not> (\<exists>b g. rest = b @ closing_marker @ g)"
  then have "after_first comprehensive_marker s = Some rest"
    using first_at_after_first by blast
  moreover have "after_first closing_marker rest = None"
    using h by (simp add: after_first_None_iff)
  ultimately show "comprehensive_section s = None" by (simp add: comprehensive_section_def)
next
  fix a rest b g
  assume h: "first_at comprehensive_marker s a rest \<and> first_at closing_marker rest b g
          \<and> \<not> (\<exists>c d. g = c @ concise_marker @ d)"
  then have "after_first comprehensive_marker s = Some rest"
    "after_first closing_marker rest = Some g"
    using first_at_after_first by blast+
  moreover have "before_first concise_marker g = g"
    using h before_first_absent by blast
  ultimately show "comprehensive_section s = Some g" by (simp add: comprehensive_section_def)
next
  fix a rest b g c d
  assume h: "first_at comprehensive_marker s a rest
          \<and> first_at closing_marker rest b g \<and> first_at concise_marker g c d"
  then have "after_first comprehensive_marker s = Some rest"
    "after_first closing_marker rest = Some g"
    using first_at_after_first by blast+
  moreover have "before_first concise_marker g = c"
    using h before_first_first_at by blast
  ultimately show "comprehensive_section s = Some c" by (simp add: comprehensive_section_def)
qed

lemma concise_section_cases:
  "(\<not> (\<exists>a b. s = a @ concise_marker @ b) \<longrightarrow> concise_section s = None)
   \<and> (\<forall>a rest. first_at concise_marker s a rest
          \<and> \<not> (\<exists>b g. rest = b @ closing_marker @ g) \<longrightarrow> concise_section s = None)
   \<and> (\<forall>a rest b g. first_at concise_marker s a rest \<and> first_at closing_marker rest b g
          \<longrightarrow> concise_section s = Some g)"
proof (intro conjI allI impI)
  assume "\<not> (\<exists>a b. s = a @ concise_marker @ b)"
  then have "after_first concise_marker s = None" by (simp add: after_first_None_iff)
  then show "concise_section s = None" by (simp add: concise_section_def)
next
  fix a rest
  assume h: "first_at concise_marker s a rest \<and> \<not> (\<exists>b g. rest = b @ closing_marker @ g)"
  then have "after_first concise_marker s = Some rest"
    using first_at_after_first by blast
  moreover have "after_first closing_marker rest = None"
    using h by (simp add: after_first_None_iff)
  ultimately show "concise_section s = None" by (simp add: concise_section_def)
next
  fix a rest b g
  assume h: "first_at concise_marker s a rest \<and> first_at closing_marker rest b g"
  then have "after_first concise_marker s = Some rest"
    "after_first closing_marker rest = Some g"
    using first_at_after_first by blast+
  then show "concise_section s = Some g" by (simp add: concise_section_def)
qed

lemma userPrompt_without_instructions:
  "build_styleGuide_userPrompt env example (JString [])
   = Some (style_guide_user_head @ example @ [0x22] @ js ''\<newline>\<newline>''
           @ style_guide_user_task)"
  by (simp add: build_styleGuide_userPrompt_def json_truthy_def)

lemma sample_userPrompt_built:
  "build_styleGuide_userPrompt env (js ''Sample'') (JString []) = Some sample_userPrompt"
  by (simp add: userPrompt_without_instructions sample_userPrompt_def)

lemma generateStyleGuide_calls:
  "snd (generateStyleGuide env this example additional)
   = (case build_styleGuide_userPrompt env example additional of
        None \<Rightarrow> []
      | Some userPrompt \<Rightarrow> [styleGuide_request this userPrompt])"
  by (simp add: generateStyleGuide_def Let_def split: create_outcome.split list.split option.split)

lemma generateStyleGuide_fulfilled:
  "\<exists>r. fst (generateStyleGuide env this example additional) = Fulfilled r
       \<and> exampleText r = example"
  by (simp add: generateStyleGuide_def Let_def styleGuide_failure_def parse_styleGuide_def
      split: create_outcome.split list.split option.split)

text \<open>
  C4, as stated, fails: a response that has both markers need not give two non-empty
  guides. A response that ends after the second header line (with the markers
  \<open>UMFASSENDER STYLE GUIDE\<close> and \<open>PRAEZISER STYLE GUIDE\<close> both in it) is parsed into a
  comprehensive guide and an empty concise guide.
\<close>

theorem style_guide_empty_concise:
  "fst (generateStyleGuide truncated_env new_TextTransformAPI (js ''Sample'') (JString []))
     = Fulfilled (parse_styleGuide truncated_env new_TextTransformAPI (js ''Sample'')
                    (JString []) truncated_response)
   \<and> fullResponse (parse_styleGuide truncated_env new_TextTransformAPI (js ''Sample'')
                     (JString []) truncated_response) = Some truncated_response
   \<and> comprehensiveGuide (parse_styleGuide truncated_env new_TextTransformAPI (js ''Sample'')
                     (JString []) truncated_response) = Some (js ''TON: warm'')
   \<and> conciseGuide (parse_styleGuide truncated_env new_TextTransformAPI (js ''Sample'')
                     (JString []) truncated_response) = Some []"
  by (simp add: generateStyleGuide_def userPrompt_without_instructions parse_styleGuide_def
      truncated_env_def truncated_response_def
      comprehensiveMatch_section conciseMatch_section comprehensive_section_def
      concise_section_def comprehensive_marker_def concise_marker_def closing_marker_def
      trim_def isWhiteSpace_def js_def Let_def)

text \<open>
  C4, amended: for every response text of the provider, \<open>fullResponse\<close> is the trimmed
  text, and the two guides are determined as follows. The header of a guide is the first
  occurrence of its marker (\<open>=== UMFASSENDER STYLE GUIDE\<close>, \<open>=== PRAEZISER STYLE GUIDE\<close>
  with A-umlaut) together with the first \<open>===\<close> after it. If the full response has no
  header of the comprehensive guide (the marker does not occur, or no \<open>===\<close> follows
  it), \<open>comprehensiveGuide\<close> is the full response; otherwise it is the trimmed text
  from the end of that header to the first occurrence of the concise marker after it, or
  to the end when there is none. If the full response has no header of the concise guide,
  \<open>conciseGuide\<close> is the empty string; otherwise it is the trimmed text from the end of
  that header to the end. Either guide may be empty. In particular, for a response in the
  format of the system prompt (two header lines, no other equals sign) the two guides are
  the trimmed texts of its two sections.
\<close>

theorem style_guide_parsing:
  assumes "build_styleGuide_userPrompt env example additional = Some userPrompt"
    and "create env (styleGuide_request this userPrompt) = Message (Some t # blocks)"
  shows "\<exists>r. generateStyleGuide env this example additional
              = (Fulfilled r, [styleGuide_request this userPrompt])
     \<and> sg_success r \<and> fullResponse r = Some (trim t)
     \<and> (\<not> (\<exists>a b. trim t = a @ comprehensive_marker @ b)
          \<longrightarrow> comprehensiveGuide r = Some (trim t))
     \<and> (\<forall>a rest. first_at comprehensive_marker (trim t) a rest
            \<and> \<not> (\<exists>b g. rest = b @ closing_marker @ g)
          \<longrightarrow> comprehensiveGuide r = Some (trim t))
     \<and> (\<forall>a rest b g. first_at comprehensive_marker (trim t) a rest
            \<and> first_at closing_marker rest b g
            \<and> \<not> (\<exists>c d. g = c @ concise_marker @ d)
          \<longrightarrow> comprehensiveGuide r = Some (trim g))
     \<and> (\<forall>a rest b g c d. first_at comprehensive_marker (trim t) a rest
            \<and> first_at closing_marker rest b g \<and> first_at concise_marker g c d
          \<longrightarrow> comprehensiveGuide r = Some (trim c))
     \<and> (\<not> (\<exists>a b. trim t = a @ concise_marker @ b) \<longrightarrow> conciseGuide r = Some [])
     \<and> (\<forall>a rest. first_at concise_marker (trim t) a rest
            \<and> \<not> (\<exists>b g. rest = b @ closing_marker @ g)
          \<longrightarrow> conciseGuide r = Some [])
     \<and> (\<forall>a rest b g. first_at concise_marker (trim t) a rest
            \<and> first_at closing_marker rest b g
          \<longrightarrow> conciseGuide r = Some (trim g))
     \<and> (\<forall>a b g b' g'.
          trim t = a @ comprehensive_marker @ b @ closing_marker @ (0xA # g)
                   @ concise_marker @ b' @ closing_marker @ g'
          \<and> 0x3D \<notin> set a \<and> 0x3D \<notin> set b \<and> 0x3D \<notin> set g \<and> 0x3D \<notin> set b'
          \<longrightarrow> comprehensiveGuide r = Some (trim (0xA # g)) \<and> conciseGuide r = Some (trim g'))"
proof -
  let ?r = "parse_styleGuide env this example additional t"
  note cc = comprehensive_section_cases [of "trim t"]
  note nc = concise_section_cases [of "trim t"]
  have run: "generateStyleGuide env this example additional
              = (Fulfilled ?r, [styleGuide_request this userPrompt])"
    using assms by (simp add: generateStyleGuide_def)
  have full: "sg_success ?r" "fullResponse ?r = Some (trim t)"
    by (simp_all add: parse_styleGuide_def Let_def)
  have comp: "comprehensiveGuide ?r
      = Some (case comprehensive_section (trim t) of Some g \<Rightarrow> trim g | None \<Rightarrow> trim t)"
    by (simp add: parse_styleGuide_def Let_def comprehensiveMatch_section)
  have conc: "conciseGuide ?r
      = Some (case concise_section (trim t) of Some g \<Rightarrow> trim g | None \<Rightarrow> [])"
    by (simp add: parse_styleGuide_def Let_def conciseMatch_section)
  have c1: "\<not> (\<exists>a b. trim t = a @ comprehensive_marker @ b)
          \<longrightarrow> comprehensiveGuide ?r = Some (trim t)"
    using cc comp by simp
  have c2: "\<forall>a rest. first_at comprehensive_marker (trim t) a rest
            \<and> \<not> (\<exists>b g. rest = b @ closing_marker @ g)
          \<longrightarrow> comprehensiveGuide ?r = Some (trim t)"
  proof (intro allI impI)
    fix a rest
    assume "first_at comprehensive_marker (trim t) a rest
            \<and> \<not> (\<exists>b g. rest = b @ closing_marker @ g)"
    then have "comprehensive_section (trim t) = None" using cc by blast
    then show "comprehensiveGuide ?r = Some (trim t)" using comp by simp
  qed
  have c3: "\<forall>a rest b g. first_at comprehensive_marker (trim t) a rest
            \<and> first_at closing_marker rest b g
            \<and> \<not> (\<exists>c d. g = c @ concise_marker @ d)
          \<longrightarrow> comprehensiveGuide ?r = Some (trim g)"
  proof (intro allI impI)
    fix a rest b g
    assume "first_at comprehensive_marker (trim t) a rest
            \<and> first_at closing_marker rest b g
            \<and> \<not> (\<exists>c d. g = c @ concise_marker @ d)"
    then have "comprehensive_section (trim t) = Some g" using cc by blast
    then show "comprehensiveGuide ?r = Some (trim g)" using comp by simp
  qed
  have c4: "\<forall>a rest b g c d. first_at comprehensive_marker (trim t) a rest
            \<and> first_at closing_marker rest b g \<and> first_at concise_marker g c d
          \<longrightarrow> comprehensiveGuide ?r = Some (trim c)"
  proof (intro allI impI)
    fix a rest b g c d
    assume "first_at comprehensive_marker (trim t) a rest
            \<and> first_at closing_marker rest b g \<and> first_at concise_marker g c d"
    then have "comprehensive_section (trim t) = Some c" using cc by blast
    then show "comprehensiveGuide ?r = Some (trim c)" using comp by simp
  qed
  have n1: "\<not> (\<exists>a b. trim t = a @ concise_marker @ b) \<longrightarrow> conciseGuide ?r = Some []"
    using nc conc by simp
  have n2: "\<forall>a rest. first_at concise_marker (trim t) a rest
            \<and> \<not> (\<exists>b g. rest = b @ closing_marker @ g)
          \<longrightarrow> conciseGuide ?r = Some []"
  proof (intro allI impI)
    fix a rest
    assume "first_at concise_marker (trim t) a rest
            \<and> \<not> (\<exists>b g. rest = b @ closing_marker @ g)"
    then have "concise_section (trim t) = None" using nc by blast
    then show "conciseGuide ?r = Some []" using conc by simp
  qed
  have n3: "\<forall>a rest b g. first_at concise_marker (trim t) a rest
            \<and> first_at closing_marker rest b g
          \<longrightarrow> conciseGuide ?r = Some (trim g)"
  proof (intro allI impI)
    fix a rest b g
    assume "first_at concise_marker (trim t) a rest \<and> first_at closing_marker rest b g"
    then have "concise_section (trim t) = Some g" using nc by blast
    then show "conciseGuide ?r = Some (trim g)" using conc by simp
  qed
  have formatted: "\<forall>a b g b' g'.
          trim t = a @ comprehensive_marker @ b @ closing_marker @ (0xA # g)
                   @ concise_marker @ b' @ closing_marker @ g'
          \<and> 0x3D \<notin> set a \<and> 0x3D \<notin> set b \<and> 0x3D \<notin> set g \<and> 0x3D \<notin> set b'
          \<longrightarrow> comprehensiveGuide ?r = Some (trim (0xA # g)) \<and> conciseGuide ?r = Some (trim g')"
  proof (intro allI impI)
    fix a b g b' g'
    assume h: "trim t = a @ comprehensive_marker @ b @ closing_marker @ (0xA # g)
                   @ concise_marker @ b' @ closing_marker @ g'
          \<and> 0x3D \<notin> set a \<and> 0x3D \<notin> set b \<and> 0x3D \<notin> set g \<and> 0x3D \<notin> set b'"
    then have "comprehensive_section (trim t) = Some (0xA # g)"
      using well_formed_comprehensive [of a b g "b' @ closing_marker @ g'"]
      by (simp add: comprehensiveMatch_section)
    moreover have "concise_section (trim t) = Some g'"
      using h well_formed_concise [of a b g b' g'] by (simp add: conciseMatch_section)
    ultimately show "comprehensiveGuide ?r = Some (trim (0xA # g))
        \<and> conciseGuide ?r = Some (trim g')"
      using comp conc by simp
  qed
  show ?thesis
    by (intro exI [of _ ?r] conjI run full c1 c2 c3 c4 n1 n2 n3 formatted)
qed

theorem style_guide_parsing_witness:
  "(\<exists>r. generateStyleGuide formatted_env new_TextTransformAPI (js ''Sample'') (JString [])
          = (Fulfilled r,
             [styleGuide_request new_TextTransformAPI sample_userPrompt])
        \<and> comprehensiveGuide r = Some (js ''TON: warm'')
        \<and> conciseGuide r = Some (js ''TON: short''))
   \<and> (\<exists>r. generateStyleGuide plain_env new_TextTransformAPI (js ''Sample'') (JString [])
          = (Fulfilled r,
             [styleGuide_request new_TextTransformAPI sample_userPrompt])
        \<and> comprehensiveGuide r = Some (js ''Warm and direct.'')
        \<and> conciseGuide r = Some [])
   \<and> (\<exists>r. generateStyleGuide (responding unclosed_response) new_TextTransformAPI (js ''Sample'')
            (JString [])
          = (Fulfilled r,
             [styleGuide_request new_TextTransformAPI sample_userPrompt])
        \<and> comprehensiveGuide r = Some (js ''PR'' @ [0xC4] @ js ''ZISER STYLE GUIDE (2)'')
        \<and> conciseGuide r = Some [])
   \<and> (\<exists>r. generateStyleGuide (responding header_response) new_TextTransformAPI (js ''Sample'')
            (JString [])
          = (Fulfilled r,
             [styleGuide_request new_TextTransformAPI sample_userPrompt])
        \<and> comprehensiveGuide r = Some header_response
        \<and> conciseGuide r = Some [])"
proof (intro conjI)
  let ?rest = "js '' (1) '' @ closing_marker @ js ''\<newline>TON: warm\<newline>\<newline>''
     @ concise_marker @ js '' (2) '' @ closing_marker @ js ''\<newline>TON: short''"
  let ?g = "js ''\<newline>TON: warm\<newline>\<newline>''
     @ concise_marker @ js '' (2) '' @ closing_marker @ js ''\<newline>TON: short''"
  let ?d = "js '' (2) '' @ closing_marker @ js ''\<newline>TON: short''"
  have c: "create formatted_env
             (styleGuide_request new_TextTransformAPI sample_userPrompt)
           = Message (Some formatted_response # [])"
    by (simp add: formatted_env_def)
  have t: "trim formatted_response = formatted_response"
    by (simp add: formatted_response_def comprehensive_marker_def concise_marker_def
        closing_marker_def trim_def isWhiteSpace_def js_def)
  have f1: "first_at comprehensive_marker formatted_response [] ?rest"
    by (rule first_at_found)
      (simp_all add: formatted_response_def comprehensive_marker_def concise_marker_def
        closing_marker_def js_def)
  have f2: "first_at closing_marker ?rest (js '' (1) '') ?g"
    by (rule first_at_found)
      (simp_all add: comprehensive_marker_def concise_marker_def closing_marker_def js_def)
  have f3: "first_at concise_marker ?g (js ''\<newline>TON: warm\<newline>\<newline>'') ?d"
    by (rule first_at_found)
      (simp_all add: comprehensive_marker_def concise_marker_def closing_marker_def js_def)
  have f4: "first_at concise_marker formatted_response
              (comprehensive_marker @ js '' (1) '' @ closing_marker
               @ js ''\<newline>TON: warm\<newline>\<newline>'') ?d"
    by (rule first_at_found)
      (simp_all add: formatted_response_def comprehensive_marker_def concise_marker_def
        closing_marker_def js_def)
  have f5: "first_at closing_marker ?d (js '' (2) '') (js ''\<newline>TON: short'')"
    by (rule first_at_found)
      (simp_all add: comprehensive_marker_def concise_marker_def closing_marker_def js_def)
  have g1: "trim (js ''\<newline>TON: warm\<newline>\<newline>'') = js ''TON: warm''"
    by (simp add: trim_def isWhiteSpace_def js_def)
  have g2: "trim (js ''\<newline>TON: short'') = js ''TON: short''"
    by (simp add: trim_def isWhiteSpace_def js_def)
  from style_guide_parsing [OF sample_userPrompt_built c] obtain r where
    r: "generateStyleGuide formatted_env new_TextTransformAPI (js ''Sample'') (JString [])
          = (Fulfilled r,
             [styleGuide_request new_TextTransformAPI sample_userPrompt])"
    and k1: "\<forall>a rest b g c d. first_at comprehensive_marker (trim formatted_response) a rest
            \<and> first_at closing_marker rest b g \<and> first_at concise_marker g c d
          \<longrightarrow> comprehensiveGuide r = Some (trim c)"
    and k2: "\<forall>a rest b g. first_at concise_marker (trim formatted_response) a rest
            \<and> first_at closing_marker rest b g
          \<longrightarrow> conciseGuide r = Some (trim g)"
    by (elim exE conjE) (rule that)
  have "comprehensiveGuide r = Some (trim (js ''\<newline>TON: warm\<newline>\<newline>''))"
    using k1 f1 f2 f3 unfolding t by blast
  moreover have "conciseGuide r = Some (trim (js ''\<newline>TON: short''))"
    using k2 f4 f5 unfolding t by blast
  ultimately show "\<exists>r. generateStyleGuide formatted_env new_TextTransformAPI (js ''Sample'')
            (JString [])
          = (Fulfilled r,
             [styleGuide_request new_TextTransformAPI sample_userPrompt])
        \<and> comprehensiveGuide r = Some (js ''TON: warm'')
        \<and> conciseGuide r = Some (js ''TON: short'')"
    using r unfolding g1 g2 by blast
next
  have c: "create plain_env
             (styleGuide_request new_TextTransformAPI sample_userPrompt)
           = Message (Some (js ''Warm and direct.'') # [])"
    by (simp add: plain_env_def)
  have t: "trim (js ''Warm and direct.'') = js ''Warm and direct.''"
    by (simp add: trim_def isWhiteSpace_def js_def)
  have n1: "after_first comprehensive_marker (js ''Warm and direct.'') = None"
    by (simp add: comprehensive_marker_def js_def)
  have n2: "after_first concise_marker (js ''Warm and direct.'') = None"
    by (simp add: concise_marker_def js_def)
  have a1: "\<not> (\<exists>a b. trim (js ''Warm and direct.'') = a @ comprehensive_marker @ b)"
    using n1 unfolding t after_first_None_iff .
  have a2: "\<not> (\<exists>a b. trim (js ''Warm and direct.'') = a @ concise_marker @ b)"
    using n2 unfolding t after_first_None_iff .
  from style_guide_parsing [OF sample_userPrompt_built c] obtain r where
    r: "generateStyleGuide plain_env new_TextTransformAPI (js ''Sample'') (JString [])
          = (Fulfilled r,
             [styleGuide_request new_TextTransformAPI sample_userPrompt])"
    and f1: "\<not> (\<exists>a b. trim (js ''Warm and direct.'') = a @ comprehensive_marker @ b)
              \<longrightarrow> comprehensiveGuide r = Some (trim (js ''Warm and direct.''))"
    and f2: "\<not> (\<exists>a b. trim (js ''Warm and direct.'') = a @ concise_marker @ b)
              \<longrightarrow> conciseGuide r = Some []"
    by (elim exE conjE) (rule that)
  from f1 a1 have "comprehensiveGuide r = Some (js ''Warm and direct.'')" unfolding t by blast
  moreover from f2 a2 have "conciseGuide r = Some []" by blast
  ultimately show "\<exists>r. generateStyleGuide plain_env new_TextTransformAPI (js ''Sample'')
            (JString [])
          = (Fulfilled r,
             [styleGuide_request new_TextTransformAPI sample_userPrompt])
        \<and> comprehensiveGuide r = Some (js ''Warm and direct.'')
        \<and> conciseGuide r = Some []"
    using r by blast
next
  let ?env = "responding unclosed_response"
  let ?rest = "js '' (1)\<newline>TON: warm\<newline>'' @ concise_marker @ js '' (2)''"
  let ?g = "js '' PR'' @ [0xC4] @ js ''ZISER STYLE GUIDE (2)''"
  have c: "create ?env (styleGuide_request new_TextTransformAPI sample_userPrompt)
           = Message (Some unclosed_response # [])"
    by (simp add: responding_def)
  have t: "trim unclosed_response = unclosed_response"
    by (simp add: unclosed_response_def comprehensive_marker_def concise_marker_def
        trim_def isWhiteSpace_def js_def)
  have f1: "first_at comprehensive_marker unclosed_response [] ?rest"
    by (rule first_at_found)
      (simp_all add: unclosed_response_def comprehensive_marker_def concise_marker_def js_def)
  have f2: "first_at closing_marker ?rest (js '' (1)\<newline>TON: warm\<newline>'') ?g"
    by (rule first_at_found)
      (simp_all add: concise_marker_def closing_marker_def js_def)
  have n0: "after_first concise_marker ?g = None"
    by (simp add: concise_marker_def js_def)
  have f3: "\<not> (\<exists>c d. ?g = c @ concise_marker @ d)"
    using n0 unfolding after_first_None_iff .
  have f4: "first_at concise_marker unclosed_response
              (comprehensive_marker @ js '' (1)\<newline>TON: warm\<newline>'') (js '' (2)'')"
    by (rule first_at_found)
      (simp_all add: unclosed_response_def comprehensive_marker_def concise_marker_def js_def)
  have n5: "after_first closing_marker (js '' (2)'') = None"
    by (simp add: closing_marker_def js_def)
  have f5: "\<not> (\<exists>b g. js '' (2)'' = b @ closing_marker @ g)"
    using n5 unfolding after_first_None_iff .
  have g1: "trim ?g = js ''PR'' @ [0xC4] @ js ''ZISER STYLE GUIDE (2)''"
    by (simp add: trim_def isWhiteSpace_def js_def)
  from style_guide_parsing [OF sample_userPrompt_built c] obtain r where
    r: "generateStyleGuide ?env new_TextTransformAPI (js ''Sample'') (JString [])
          = (Fulfilled r,
             [styleGuide_request new_TextTransformAPI sample_userPrompt])"
    and k1: "\<forall>a rest b g. first_at comprehensive_marker (trim unclosed_response) a rest
            \<and> first_at closing_marker rest b g
            \<and> \<not> (\<exists>c d. g = c @ concise_marker @ d)
          \<longrightarrow> comprehensiveGuide r = Some (trim g)"
    and k2: "\<forall>a rest. first_at concise_marker (trim unclosed_response) a rest
            \<and> \<not> (\<exists>b g. rest = b @ closing_marker @ g)
          \<longrightarrow> conciseGuide r = Some []"
    by (elim exE conjE) (rule that)
  have "comprehensiveGuide r = Some (trim ?g)"
    using k1 f1 f2 f3 unfolding t by blast
  moreover have "conciseGuide r = Some []"
    using k2 f4 f5 unfolding t by blast
  ultimately show "\<exists>r. generateStyleGuide ?env new_TextTransformAPI (js ''Sample'') (JString [])
          = (Fulfilled r,
             [styleGuide_request new_TextTransformAPI sample_userPrompt])
        \<and> comprehensiveGuide r = Some (js ''PR'' @ [0xC4] @ js ''ZISER STYLE GUIDE (2)'')
        \<and> conciseGuide r = Some []"
    using r unfolding g1 by blast
next
  let ?env = "responding header_response"
  have c: "create ?env (styleGuide_request new_TextTransformAPI sample_userPrompt)
           = Message (Some header_response # [])"
    by (simp add: responding_def)
  have t: "trim header_response = header_response"
    by (simp add: header_response_def comprehensive_marker_def trim_def isWhiteSpace_def js_def)
  have f1: "first_at comprehensive_marker header_response [] (js '' (1)'')"
    by (rule first_at_found)
      (simp_all add: header_response_def comprehensive_marker_def js_def)
  have n2: "after_first closing_marker (js '' (1)'') = None"
    by (simp add: closing_marker_def js_def)
  have f2: "\<not> (\<exists>b g. js '' (1)'' = b @ closing_marker @ g)"
    using n2 unfolding after_first_None_iff .
  have n3: "after_first concise_marker header_response = None"
    by (simp add: header_response_def comprehensive_marker_def concise_marker_def js_def)
  have f3: "\<not> (\<exists>a b. trim header_response = a @ concise_marker @ b)"
    using n3 unfolding t after_first_None_iff .
  from style_guide_parsing [OF sample_userPrompt_built c] obtain r where
    r: "generateStyleGuide ?env new_TextTransformAPI (js ''Sample'') (JString [])
          = (Fulfilled r,
             [styleGuide_request new_TextTransformAPI sample_userPrompt])"
    and k1: "\<forall>a rest. first_at comprehensive_marker (trim header_response) a rest
            \<and> \<not> (\<exists>b g. rest = b @ closing_marker @ g)
          \<longrightarrow> comprehensiveGuide r = Some (trim header_response)"
    and k2: "\<not> (\<exists>a b. trim header_response = a @ concise_marker @ b)
          \<longrightarrow> conciseGuide r = Some []"
    by (elim exE conjE) (rule that)
  have "comprehensiveGuide r = Some header_response"
    using k1 f1 f2 unfolding t by blast
  moreover have "conciseGuide r = Some []"
    using k2 f3 by blast
  ultimately show "\<exists>r. generateStyleGuide ?env new_TextTransformAPI (js ''Sample'') (JString [])
          = (Fulfilled r,
             [styleGuide_request new_TextTransformAPI sample_userPrompt])
        \<and> comprehensiveGuide r = Some header_response
        \<and> conciseGuide r = Some []"
    using r by blast
qed

section \<open>The relay server\<close>


lemma edit_blank_rejected:
  "\<forall>c \<in> set i. isWhiteSpace c \<Longrightarrow>
   edit env this input (Some i) ps = (Rejected edit_requires_instruction, [])"
  using trim_empty_iff [of i] by (simp add: edit_def)

lemma edit_missing_instruction_400:
  assumes "body_action req = Some (js ''EDIT'')"
    and "\<not> truthy (instruction (case body_options req of None \<Rightarrow> no_params | Some opts \<Rightarrow> opts))"
  shows "\<exists>message. post_transform env claudeAPI req
           = (\<lparr>status = 400, body = ErrorJson message\<rparr>, [])"
  using assms by (simp add: post_transform_def Let_def js_def split: option.split)

lemma custom_400:
  assumes "body_action req = Some (js ''CUSTOM'')"
  shows "\<exists>message. post_transform env claudeAPI req
           = (\<lparr>status = 400, body = ErrorJson message\<rparr>, [])"
  using assms by (simp add: post_transform_def Let_def js_def split: option.split)

lemma edit_blank_instruction_not_400:
  assumes "body_text req = Some input" and "input \<noteq> []"
    and "body_action req = Some (js ''EDIT'')"
    and "body_options req = Some opts" and "instruction opts = Some i"
    and "i \<noteq> []" and "\<forall>c \<in> set i. isWhiteSpace c"
  shows "post_transform env claudeAPI req
         = (\<lparr>status = 500, body = ErrorJson edit_requires_instruction\<rparr>, [])"
  using assms edit_blank_rejected [of i env claudeAPI input opts]
  by (simp add: post_transform_def respond_def truthy_def js_def)

text \<open>
  C2: an EDIT or CUSTOM request with an empty, blank or missing instruction must get the
  status 400. The handler tests \<open>!options.instruction\<close> only, so an instruction of three
  spaces passes it; \<open>edit\<close> then rejects the blank instruction, and the handler answers
  with the status 500. (A missing or empty instruction gets 400, and so does every CUSTOM
  request: lemmas \<open>edit_missing_instruction_400\<close> and \<open>custom_400\<close>.)
\<close>

theorem edit_blank_instruction_500:
  "post_transform sample_env new_TextTransformAPI
     \<lparr>body_text = Some (js ''Hello''), body_action = Some (js ''EDIT''),
      body_options = Some (no_params\<lparr>instruction := Some (js ''   '')\<rparr>)\<rparr>
   = (\<lparr>status = 500,
       body = ErrorJson (js ''EDIT function requires a specific instruction'')\<rparr>, [])"
  by (simp add: post_transform_def respond_def edit_def edit_requires_instruction_def no_params_def
      truthy_def trim_def isWhiteSpace_def js_def)




text \<open>The style-guide route, for a body that is not \<open>null\<close>.\<close>

lemma post_generate_style_guide_object:
  assumes "parsed \<noteq> JNull"
  shows "post_generate_style_guide env claudeAPI (Some parsed)
   = (let exampleText = body_member parsed (js ''exampleText'');
          additionalInstructions =
            (case body_member parsed (js ''additionalInstructions'') of
               None \<Rightarrow> JString []
             | Some v \<Rightarrow> v)
      in if \<not> json_truthy exampleText then (missing_exampleText, [])
         else
           (case exampleText of
              Some (JString example) \<Rightarrow>
                if trim example = [] then (missing_exampleText, [])
                else
                  (case generateStyleGuide env claudeAPI (trim example)
                          additionalInstructions of
                     (Fulfilled result, calls) \<Rightarrow>
                       (\<lparr>status = 200, body = StyleGuideJson result\<rparr>, calls)
                   | (Rejected message, calls) \<Rightarrow>
                       (\<lparr>status = 500, body = ErrorJson message\<rparr>, calls))
            | _ \<Rightarrow> (\<lparr>status = 500, body = ErrorJson trim_not_function_error\<rparr>, [])))"
  using assms by (cases parsed) (simp_all add: post_generate_style_guide_def)

text \<open>
  C10, as stated, fails: a request whose \<open>exampleText\<close> is neither missing nor empty nor
  made of white space need not reach style-guide generation. For the body
  \<open>{"exampleText": 123}\<close> the call of \<open>exampleText.trim\<close> throws, and for a request
  without a parsed body the destructuring of \<open>req.body\<close> throws: the handler answers 500
  and nothing is sent to the provider.
\<close>

theorem generate_style_guide_non_string_500:
  "post_generate_style_guide plain_env new_TextTransformAPI
     (Some (JObject [(js ''exampleText'', JNumber 123)]))
   = (\<lparr>status = 500, body = ErrorJson (js ''exampleText.trim is not a function'')\<rparr>, [])
   \<and> post_generate_style_guide plain_env new_TextTransformAPI None
   = (\<lparr>status = 500, body = ErrorJson (destructure_error (js ''undefined''))\<rparr>, [])"
  by (simp add: post_generate_style_guide_def json_truthy_def trim_not_function_error_def)

text \<open>
  C10, amended: for every request to the style-guide route with a parsed body other than
  \<open>null\<close>, of which \<open>exampleText\<close> is missing or falsy (the empty string, \<open>null\<close>,
  \<open>false\<close>, \<open>0\<close>) or a string made of white space only, the server answers 400 with
  \<open>success = false\<close> and sends nothing to the provider. When \<open>exampleText\<close> is a string
  with a character that is no white space, the server calls style-guide generation with
  the trimmed \<open>exampleText\<close> and the additional instructions of the body (the empty
  string when the body has none): the one request to the provider is that of the trimmed
  text, and the result, returned with the status 200, carries the trimmed text as its
  \<open>exampleText\<close> (when the additional instructions cannot be written as a string,
  generation sends no request and its result is a failure). In every other case (no parsed body, the body \<open>null\<close>, an
  \<open>exampleText\<close> that is truthy and no string) the handler's \<open>catch\<close> answers 500 with
  \<open>success = false\<close>, and nothing is sent to the provider.
\<close>

theorem generate_style_guide_validation:
  "post_generate_style_guide env claudeAPI None
     = (\<lparr>status = 500, body = ErrorJson (destructure_error (js ''undefined''))\<rparr>, [])
   \<and> post_generate_style_guide env claudeAPI (Some JNull)
     = (\<lparr>status = 500, body = ErrorJson (destructure_error (js ''null''))\<rparr>, [])
   \<and> (parsed \<noteq> JNull \<and> \<not> json_truthy (body_member parsed (js ''exampleText''))
      \<longrightarrow> post_generate_style_guide env claudeAPI (Some parsed)
          = (\<lparr>status = 400, body = ErrorJson (js ''Missing required field: exampleText'')\<rparr>,
             []))
   \<and> (\<forall>e. body_member parsed (js ''exampleText'') = Some (JString e)
          \<and> (\<forall>c \<in> set e. isWhiteSpace c)
      \<longrightarrow> post_generate_style_guide env claudeAPI (Some parsed)
          = (\<lparr>status = 400, body = ErrorJson (js ''Missing required field: exampleText'')\<rparr>,
             []))
   \<and> (\<forall>e additional.
          body_member parsed (js ''exampleText'') = Some (JString e)
          \<and> \<not> (\<forall>c \<in> set e. isWhiteSpace c)
          \<and> additional = (case body_member parsed (js ''additionalInstructions'') of
                            None \<Rightarrow> JString [] | Some v \<Rightarrow> v)
      \<longrightarrow> (\<exists>r. post_generate_style_guide env claudeAPI (Some parsed)
                = (\<lparr>status = 200, body = StyleGuideJson r\<rparr>,
                   snd (generateStyleGuide env claudeAPI (trim e) additional))
              \<and> fst (generateStyleGuide env claudeAPI (trim e) additional) = Fulfilled r
              \<and> exampleText r = trim e
              \<and> snd (generateStyleGuide env claudeAPI (trim e) additional)
                  = (case build_styleGuide_userPrompt env (trim e) additional of
                       None \<Rightarrow> []
                     | Some userPrompt \<Rightarrow> [styleGuide_request claudeAPI userPrompt])
              \<and> (build_styleGuide_userPrompt env (trim e) additional = None
                  \<longrightarrow> r = styleGuide_failure env (trim e) primitive_error)))
   \<and> (\<forall>v. body_member parsed (js ''exampleText'') = Some v \<and> json_truthy (Some v)
          \<and> (\<forall>e. v \<noteq> JString e)
      \<longrightarrow> post_generate_style_guide env claudeAPI (Some parsed)
          = (\<lparr>status = 500, body = ErrorJson (js ''exampleText.trim is not a function'')\<rparr>,
             []))"
proof (intro conjI allI impI)
  show "post_generate_style_guide env claudeAPI None
     = (\<lparr>status = 500, body = ErrorJson (destructure_error (js ''undefined''))\<rparr>, [])"
    by (simp add: post_generate_style_guide_def)
next
  show "post_generate_style_guide env claudeAPI (Some JNull)
     = (\<lparr>status = 500, body = ErrorJson (destructure_error (js ''null''))\<rparr>, [])"
    by (simp add: post_generate_style_guide_def)
next
  assume "parsed \<noteq> JNull \<and> \<not> json_truthy (body_member parsed (js ''exampleText''))"
  then show "post_generate_style_guide env claudeAPI (Some parsed)
          = (\<lparr>status = 400, body = ErrorJson (js ''Missing required field: exampleText'')\<rparr>,
             [])"
    by (simp add: post_generate_style_guide_object missing_exampleText_def)
next
  fix e
  assume h: "body_member parsed (js ''exampleText'') = Some (JString e)
          \<and> (\<forall>c \<in> set e. isWhiteSpace c)"
  then have "parsed \<noteq> JNull" by auto
  moreover have "trim e = []" using h trim_empty_iff [of e] by simp
  ultimately show "post_generate_style_guide env claudeAPI (Some parsed)
          = (\<lparr>status = 400, body = ErrorJson (js ''Missing required field: exampleText'')\<rparr>,
             [])"
    using h by (simp add: post_generate_style_guide_object missing_exampleText_def Let_def)
next
  fix e additional
  assume h: "body_member parsed (js ''exampleText'') = Some (JString e)
          \<and> \<not> (\<forall>c \<in> set e. isWhiteSpace c)
          \<and> additional = (case body_member parsed (js ''additionalInstructions'') of
                            None \<Rightarrow> JString [] | Some v \<Rightarrow> v)"
  then have p: "parsed \<noteq> JNull" by auto
  have ne: "trim e \<noteq> []" "e \<noteq> []" using h trim_empty_iff [of e] by auto
  obtain r where r: "fst (generateStyleGuide env claudeAPI (trim e) additional) = Fulfilled r"
    "exampleText r = trim e"
    using generateStyleGuide_fulfilled [of env claudeAPI "trim e" additional] by blast
  then obtain calls where g: "generateStyleGuide env claudeAPI (trim e) additional
      = (Fulfilled r, calls)"
    by (cases "generateStyleGuide env claudeAPI (trim e) additional") simp
  then have c: "snd (generateStyleGuide env claudeAPI (trim e) additional) = calls" by simp
  have f: "build_styleGuide_userPrompt env (trim e) additional = None
      \<longrightarrow> r = styleGuide_failure env (trim e) primitive_error"
  proof
    assume "build_styleGuide_userPrompt env (trim e) additional = None"
    then show "r = styleGuide_failure env (trim e) primitive_error"
      using r(1) by (simp add: generateStyleGuide_def)
  qed
  have "post_generate_style_guide env claudeAPI (Some parsed)
      = (\<lparr>status = 200, body = StyleGuideJson r\<rparr>, calls)"
    using h p ne g by (simp add: post_generate_style_guide_object json_truthy_def)
  then have a: "post_generate_style_guide env claudeAPI (Some parsed)
      = (\<lparr>status = 200, body = StyleGuideJson r\<rparr>,
         snd (generateStyleGuide env claudeAPI (trim e) additional))"
    using c by simp
  note s = generateStyleGuide_calls [of env claudeAPI "trim e" additional]
  show "\<exists>r. post_generate_style_guide env claudeAPI (Some parsed)
                = (\<lparr>status = 200, body = StyleGuideJson r\<rparr>,
                   snd (generateStyleGuide env claudeAPI (trim e) additional))
              \<and> fst (generateStyleGuide env claudeAPI (trim e) additional) = Fulfilled r
              \<and> exampleText r = trim e
              \<and> snd (generateStyleGuide env claudeAPI (trim e) additional)
                  = (case build_styleGuide_userPrompt env (trim e) additional of
                       None \<Rightarrow> []
                     | Some userPrompt \<Rightarrow> [styleGuide_request claudeAPI userPrompt])
              \<and> (build_styleGuide_userPrompt env (trim e) additional = None
                  \<longrightarrow> r = styleGuide_failure env (trim e) primitive_error)"
    by (intro exI [of _ r] conjI a r s f)
next
  fix v
  assume h: "body_member parsed (js ''exampleText'') = Some v \<and> json_truthy (Some v)
          \<and> (\<forall>e. v \<noteq> JString e)"
  then have p: "parsed \<noteq> JNull" by auto
  show "post_generate_style_guide env claudeAPI (Some parsed)
          = (\<lparr>status = 500, body = ErrorJson (js ''exampleText.trim is not a function'')\<rparr>,
             [])"
    using h p by (cases v) (simp_all add: post_generate_style_guide_object
        trim_not_function_error_def)
qed

theorem generate_style_guide_validation_witness:
  "post_generate_style_guide plain_env new_TextTransformAPI (Some (JObject []))
     = (\<lparr>status = 400, body = ErrorJson (js ''Missing required field: exampleText'')\<rparr>, [])
   \<and> post_generate_style_guide plain_env new_TextTransformAPI
        (Some (JObject [(js ''exampleText'', JString (js ''   ''))]))
     = (\<lparr>status = 400, body = ErrorJson (js ''Missing required field: exampleText'')\<rparr>, [])
   \<and> (\<exists>r. post_generate_style_guide plain_env new_TextTransformAPI
              (Some (JObject [(js ''exampleText'', JString (js ''  Hello world ''))]))
           = (\<lparr>status = 200, body = StyleGuideJson r\<rparr>,
              [styleGuide_request new_TextTransformAPI
                 (style_guide_user_head @ js ''Hello world'' @ [0x22] @ js ''\<newline>\<newline>''
                  @ style_guide_user_task)])
         \<and> exampleText r = js ''Hello world'')
   \<and> post_generate_style_guide plain_env new_TextTransformAPI
        (Some (JObject [(js ''exampleText'', JString (js ''Hello'')),
                        (js ''additionalInstructions'', JObject [(js ''toString'', JNull)])]))
     = (\<lparr>status = 200,
         body = StyleGuideJson (styleGuide_failure plain_env (js ''Hello'') primitive_error)\<rparr>,
        [])
   \<and> post_generate_style_guide plain_env new_TextTransformAPI
        (Some (JObject [(js ''exampleText'', JArray [JString (js ''Hello'')])]))
     = (\<lparr>status = 500, body = ErrorJson (js ''exampleText.trim is not a function'')\<rparr>, [])"
proof -
  have t: "trim (js ''  Hello world '') = js ''Hello world''"
    "trim (js ''Hello'') = js ''Hello''"
    by (simp_all add: trim_def isWhiteSpace_def js_def)
  have w: "\<forall>c \<in> set (js ''   ''). isWhiteSpace c"
    "\<not> (\<forall>c \<in> set (js ''  Hello world ''). isWhiteSpace c)"
    "\<not> (\<forall>c \<in> set (js ''Hello''). isWhiteSpace c)"
    by (simp_all add: isWhiteSpace_def js_def)
  have k: "js ''additionalInstructions'' \<noteq> js ''exampleText''"
    "js ''exampleText'' \<noteq> js ''additionalInstructions''"
    by (simp_all add: js_def)
  have b: "build_styleGuide_userPrompt plain_env (js ''Hello'')
             (JObject [(js ''toString'', JNull)]) = None"
    by (simp add: build_styleGuide_userPrompt_def json_truthy_def)
  have 1: "post_generate_style_guide plain_env new_TextTransformAPI (Some (JObject []))
     = (\<lparr>status = 400, body = ErrorJson (js ''Missing required field: exampleText'')\<rparr>, [])"
    using generate_style_guide_validation [of plain_env new_TextTransformAPI "JObject []"]
    by (simp add: json_truthy_def)
  have 2: "post_generate_style_guide plain_env new_TextTransformAPI
        (Some (JObject [(js ''exampleText'', JString (js ''   ''))]))
     = (\<lparr>status = 400, body = ErrorJson (js ''Missing required field: exampleText'')\<rparr>, [])"
    using generate_style_guide_validation [of plain_env new_TextTransformAPI
        "JObject [(js ''exampleText'', JString (js ''   ''))]"] w(1)
    by simp
  have 3: "\<exists>r. post_generate_style_guide plain_env new_TextTransformAPI
              (Some (JObject [(js ''exampleText'', JString (js ''  Hello world ''))]))
           = (\<lparr>status = 200, body = StyleGuideJson r\<rparr>,
              [styleGuide_request new_TextTransformAPI
                 (style_guide_user_head @ js ''Hello world'' @ [0x22] @ js ''\<newline>\<newline>''
                  @ style_guide_user_task)])
         \<and> exampleText r = js ''Hello world''"
    using generate_style_guide_validation [of plain_env new_TextTransformAPI
        "JObject [(js ''exampleText'', JString (js ''  Hello world ''))]"] w(2) k
    by (auto simp: t userPrompt_without_instructions)
  have 4: "post_generate_style_guide plain_env new_TextTransformAPI
        (Some (JObject [(js ''exampleText'', JString (js ''Hello'')),
                        (js ''additionalInstructions'', JObject [(js ''toString'', JNull)])]))
     = (\<lparr>status = 200,
         body = StyleGuideJson (styleGuide_failure plain_env (js ''Hello'') primitive_error)\<rparr>,
        [])"
    using generate_style_guide_validation [of plain_env new_TextTransformAPI
        "JObject [(js ''exampleText'', JString (js ''Hello'')),
                  (js ''additionalInstructions'', JObject [(js ''toString'', JNull)])]"]
      w(3) k b
    by (auto simp: t)
  have 5: "post_generate_style_guide plain_env new_TextTransformAPI
        (Some (JObject [(js ''exampleText'', JArray [JString (js ''Hello'')])]))
     = (\<lparr>status = 500, body = ErrorJson (js ''exampleText.trim is not a function'')\<rparr>, [])"
    using generate_style_guide_validation [of plain_env new_TextTransformAPI
        "JObject [(js ''exampleText'', JArray [JString (js ''Hello'')])]"]
    by (simp add: json_truthy_def)
  from 1 2 3 4 5 show ?thesis by blast
qed

section \<open>The module-level functions\<close>

text \<open>
  C7, as stated, fails for the four \<open>async\<close> functions: before \<open>initializeAPI\<close>, a call
  of \<open>articulateText\<close> does not throw; it returns a promise, rejected with the error.
\<close>

theorem uninitialized_async_rejects:
  "articulateText sample_env None (js ''Hello'') no_params
     = (Returns (Rejected (js ''API not initialized. Call initializeAPI() first.'')), [])
   \<and> articulateText sample_env None (js ''Hello'') no_params
     \<noteq> (Throws (js ''API not initialized. Call initializeAPI() first.''), [])"
  by (simp add: articulateText_def not_initialized_def)

text \<open>
  C7, amended: before \<open>initializeAPI\<close> has been called, \<open>setModel\<close>,
  \<open>getAvailableModels\<close> and \<open>getCurrentModel\<close> of \<open>src/api.js\<close> throw the error
  synchronously, and its \<open>articulateText\<close>, \<open>refineText\<close>, \<open>editText\<close> and
  \<open>generateStyleGuide\<close> return a promise that is rejected with the same error, as do
  all six functions of the frontend client, which are all \<open>async\<close>; none of them sends
  a request, and the module state stays uninitialized.
\<close>

theorem uninitialized_calls:
  "articulateText env None input options = (Returns (Rejected not_initialized), [])
   \<and> refineText env None input options = (Returns (Rejected not_initialized), [])
   \<and> editText env None input instr options = (Returns (Rejected not_initialized), [])
   \<and> generateStyleGuide_export env None example additional
       = (Returns (Rejected not_initialized), [])
   \<and> setModel_export None modelId = (Throws not_initialized, None)
   \<and> getAvailableModels_export None = Throws not_initialized
   \<and> getCurrentModel_export None = Throws not_initialized
   \<and> frontend_articulateText fenv None input options = (Returns (Rejected not_initialized), [])
   \<and> frontend_refineText fenv None input options = (Returns (Rejected not_initialized), [])
   \<and> frontend_editText fenv None input instr options
       = (Returns (Rejected not_initialized), [])
   \<and> frontend_generateStyleGuide fenv None example additional
       = (Returns (Rejected not_initialized), [])
   \<and> frontend_getModels fenv None = (Returns (Rejected not_initialized), [])
   \<and> frontend_setModel fenv None modelId = (Returns (Rejected not_initialized), [])"
  by (simp add: articulateText_def refineText_def editText_def generateStyleGuide_export_def
      setModel_export_def getAvailableModels_export_def getCurrentModel_export_def
      frontend_articulateText_def frontend_refineText_def frontend_editText_def
      frontend_generateStyleGuide_def frontend_getModels_def frontend_setModel_def)

lemma initialized_articulateText:
  "\<exists>r. articulateText env initializeAPI input options
       = (Returns (Fulfilled r),
          [create_request new_TextTransformAPI input articulate_instruction
             (options\<lparr>systemPrompt := Some (js ''articulate'')\<rparr>)])"
proof -
  obtain r where "fst (articulate env new_TextTransformAPI input options) = Fulfilled r"
    using transform_fulfilled [of env new_TextTransformAPI input articulate_instruction
        "options\<lparr>systemPrompt := Some (js ''articulate'')\<rparr>"]
    by (auto simp: articulate_def)
  then have "articulate env new_TextTransformAPI input options
      = (Fulfilled r, [create_request new_TextTransformAPI input articulate_instruction
             (options\<lparr>systemPrompt := Some (js ''articulate'')\<rparr>)])"
    using transform_calls [of env new_TextTransformAPI input articulate_instruction
        "options\<lparr>systemPrompt := Some (js ''articulate'')\<rparr>"]
    by (metis articulate_def prod.collapse)
  then show ?thesis by (simp add: articulateText_def initializeAPI_def)
qed

end
